theory Spec2Isabelle
  imports Complex_Main "HOL-Library.Multiset" "HOL-Library.List_Lexorder"
    "HOL-Library.Product_Lexorder"
begin

section \<open>Series operations of the data-frame library, as used by main.py\<close>

text \<open>
  A pandas Series is modelled positionally as a list; a missing value (NaN, NaT) is
  \<open>None\<close>. The operations below are the ones main.py calls on its series:
  \<open>shift\<close>, \<open>rolling(w, min_periods=m).sum()\<close>, \<open>fillna\<close>.
\<close>

type_synonym 'a series = "'a option list"

text \<open>\<open>s.shift(k)\<close>: every value moves \<open>k\<close> positions down, the first \<open>k\<close>
  positions become NaN, the length is kept.\<close>

definition shift :: "nat \<Rightarrow> 'a series \<Rightarrow> 'a series" where
  "shift k xs = replicate (min k (length xs)) None @ take (length xs - k) xs"

text \<open>\<open>s.shift(k, fill_value=v)\<close> on a series without missing values.\<close>

definition shift_fill :: "nat \<Rightarrow> 'a \<Rightarrow> 'a list \<Rightarrow> 'a list" where
  "shift_fill k v xs = replicate (min k (length xs)) v @ take (length xs - k) xs"

text \<open>The positional window of width \<open>w\<close> that ends at position \<open>i\<close>.\<close>

definition window :: "nat \<Rightarrow> 'a list \<Rightarrow> nat \<Rightarrow> 'a list" where
  "window w xs i = drop (Suc i - w) (take (Suc i) xs)"

text \<open>The observed (non-missing) values of a window.\<close>

definition observed :: "'a series \<Rightarrow> 'a list" where
  "observed ws = List.map_filter (\<lambda>v. v) ws"

text \<open>\<open>s.rolling(w, min_periods=m).sum()\<close>: at every position the sum of the observed
  values of the window ending there, NaN when fewer than \<open>m\<close> values are observed.\<close>

definition rolling_sum :: "nat \<Rightarrow> nat \<Rightarrow> int series \<Rightarrow> int series" where
  "rolling_sum w m xs =
     map (\<lambda>i. let obs = observed (window w xs i)
              in if m \<le> length obs then Some (sum_list obs) else None)
         [0..<length xs]"

definition fillna :: "'a \<Rightarrow> 'a series \<Rightarrow> 'a list" where
  "fillna v xs = map (\<lambda>x. case x of None \<Rightarrow> v | Some y \<Rightarrow> y) xs"

text \<open>\<open>df.drop_duplicates()\<close>: the first occurrence of every row is kept, in order.\<close>

fun drop_duplicates :: "'a list \<Rightarrow> 'a list" where
  "drop_duplicates [] = []"
| "drop_duplicates (x # xs) = x # drop_duplicates (filter (\<lambda>y. y \<noteq> x) xs)"

text \<open>\<open>df.groupby(key)[col].shift(1)\<close>: every row receives the value of the previous
  row of its own group, NaN for the first row of a group. The result is an ordinary
  series in the frame's row order (the grouping is gone). The function runs over the
  (key, value) pairs and carries the last value seen for every key.\<close>

fun groupby_shift1 :: "('k \<rightharpoonup> 'a) \<Rightarrow> ('k \<times> 'a) list \<Rightarrow> 'a series" where
  "groupby_shift1 prev [] = []"
| "groupby_shift1 prev ((k, v) # rest) = prev k # groupby_shift1 (prev(k \<mapsto> v)) rest"

text \<open>\<open>pd.cut(x, bins, labels)\<close> with right-closed bins: the label of the bin
  \<open>(lo, hi]\<close> that holds \<open>x\<close>, NaN outside all bins.\<close>

fun pd_cut :: "int list \<Rightarrow> 'l list \<Rightarrow> int \<Rightarrow> 'l option" where
  "pd_cut (lo # hi # bins) (l # labels) x =
     (if lo < x \<and> x \<le> hi then Some l else pd_cut (hi # bins) labels x)"
| "pd_cut _ _ x = None"

section \<open>Text and dates\<close>

text \<open>A Python \<open>str\<close> is a sequence of Unicode code points. The Russian texts of
  main.py are written as lists of code points (Cyrillic capital A is 1040, small a is
  1072); each constant's comment gives the text in Latin transliteration.\<close>

type_synonym ustring = "nat list"

text \<open>\<open>str.isspace\<close> of one code point: the Unicode white-space characters.\<close>

definition py_isspace :: "nat \<Rightarrow> bool" where
  "py_isspace c \<longleftrightarrow>
     (9 \<le> c \<and> c \<le> 13) \<or> (28 \<le> c \<and> c \<le> 32) \<or> c = 133 \<or> c = 160 \<or> c = 5760
     \<or> (8192 \<le> c \<and> c \<le> 8202) \<or> c = 8232 \<or> c = 8233 \<or> c = 8239 \<or> c = 8287
     \<or> c = 12288"

text \<open>\<open>str.lower\<close> on the two alphabets of the data: Basic Latin A-Z and the Cyrillic
  capitals U+0400..U+042F. Other code points are left as they are.\<close>

definition lower_cp :: "nat \<Rightarrow> nat" where
  "lower_cp c =
     (if 65 \<le> c \<and> c \<le> 90 then c + 32
      else if 1040 \<le> c \<and> c \<le> 1071 then c + 32
      else if 1024 \<le> c \<and> c \<le> 1039 then c + 80
      else c)"

definition py_lower :: "ustring \<Rightarrow> ustring" where
  "py_lower s = map lower_cp s"

definition strip :: "ustring \<Rightarrow> ustring" where
  "strip s = rev (dropWhile py_isspace (rev (dropWhile py_isspace s)))"

definition starts_with :: "'a list \<Rightarrow> 'a list \<Rightarrow> bool" where
  "starts_with s pat \<longleftrightarrow> take (length pat) s = pat"

text \<open>\<open>pat in s\<close>: \<open>pat\<close> occurs in \<open>s\<close> as a contiguous piece.\<close>

fun contains :: "'a list \<Rightarrow> 'a list \<Rightarrow> bool" where
  "contains [] pat \<longleftrightarrow> pat = []"
| "contains (x # xs) pat \<longleftrightarrow> starts_with (x # xs) pat \<or> contains xs pat"

text \<open>A normalized timestamp (midnight, no time zone) is the number of days since
  1 January 1970 in the proleptic Gregorian calendar.\<close>

type_synonym date = int

definition days_from_civil :: "int \<Rightarrow> int \<Rightarrow> int \<Rightarrow> date" where
  "days_from_civil y m d =
     (let y' = (if m \<le> 2 then y - 1 else y);
          era = y' div 400;
          yoe = y' - era * 400;
          doy = (153 * (if 2 < m then m - 3 else m + 9) + 2) div 5 + d - 1;
          doe = yoe * 365 + yoe div 4 - yoe div 100 + doy
      in era * 146097 + doe - 719468)"

definition civil_from_days :: "date \<Rightarrow> int \<times> int \<times> int" where
  "civil_from_days n =
     (let z = n + 719468;
          era = z div 146097;
          doe = z - era * 146097;
          yoe = (doe - doe div 1460 + doe div 36524 - doe div 146096) div 365;
          doy = doe - (365 * yoe + yoe div 4 - yoe div 100);
          mp = (5 * doy + 2) div 153;
          d = doy - (153 * mp + 2) div 5 + 1;
          m = (if mp < 10 then mp + 3 else mp - 9);
          y = yoe + era * 400 + (if m \<le> 2 then 1 else 0)
      in (y, m, d))"

definition year_of :: "date \<Rightarrow> int" where
  "year_of n = fst (civil_from_days n)"

definition month_of :: "date \<Rightarrow> int" where
  "month_of n = fst (snd (civil_from_days n))"

definition day_of :: "date \<Rightarrow> int" where
  "day_of n = snd (snd (civil_from_days n))"

text \<open>\<open>dt.dayofweek\<close>: Monday is 0, Sunday is 6; 1 January 1970 was a Thursday.\<close>

definition dayofweek :: "date \<Rightarrow> nat" where
  "dayofweek n = nat ((n + 3) mod 7)"

definition days_in_month :: "date \<Rightarrow> int" where
  "days_in_month n =
     (let y = year_of n; m = month_of n
      in if m = 2 then (if y mod 4 = 0 \<and> (y mod 100 \<noteq> 0 \<or> y mod 400 = 0) then 29 else 28)
         else if m = 4 \<or> m = 6 \<or> m = 9 \<or> m = 11 then 30
         else 31)"

text \<open>A timestamp without time zone is the number of seconds since 1 January 1970,
  00:00, on its own wall clock. \<open>normalize\<close> cuts it to midnight, that is to its day.\<close>

type_synonym timestamp = int

definition timestamp_of :: "int \<Rightarrow> int \<Rightarrow> int \<Rightarrow> int \<Rightarrow> int \<Rightarrow> int \<Rightarrow> timestamp" where
  "timestamp_of y m d hh mm ss = days_from_civil y m d * 86400 + hh * 3600 + mm * 60 + ss"

definition normalize :: "timestamp \<Rightarrow> date" where
  "normalize t = t div 86400"

section \<open>Region and time-zone resolver\<close>

text \<open>\<open>REGION_GENT_TO_NOM\<close>: region names in the prepositional case to the canonical
  (nominative) names.\<close>

definition REGION_GENT_TO_NOM :: "(ustring \<times> ustring) list" where
  "REGION_GENT_TO_NOM = [
     ([1052, 1086, 1089, 1082, 1086, 1074, 1089, 1082, 1086, 1081, 32, 1086, 1073, 1083, 1072, 1089, 1090, 1080],
      [1052, 1086, 1089, 1082, 1086, 1074, 1089, 1082, 1072, 1103, 32, 1086, 1073, 1083, 1072, 1089, 1090, 1100]),  \<comment> \<open>Moskovskoj oblasti -> Moskovskaya oblast'\<close>
     ([1051, 1077, 1085, 1080, 1085, 1075, 1088, 1072, 1076, 1089, 1082, 1086, 1081, 32, 1086, 1073, 1083, 1072, 1089, 1090, 1080],
      [1051, 1077, 1085, 1080, 1085, 1075, 1088, 1072, 1076, 1089, 1082, 1072, 1103, 32, 1086, 1073, 1083, 1072, 1089, 1090, 1100]),  \<comment> \<open>Leningradskoj oblasti -> Leningradskaya oblast'\<close>
     ([1056, 1077, 1089, 1087, 1091, 1073, 1083, 1080, 1082, 1077, 32, 1058, 1072, 1090, 1072, 1088, 1089, 1090, 1072, 1085],
      [1056, 1077, 1089, 1087, 1091, 1073, 1083, 1080, 1082, 1072, 32, 1058, 1072, 1090, 1072, 1088, 1089, 1090, 1072, 1085]),  \<comment> \<open>Respublike Tatarstan -> Respublika Tatarstan\<close>
     ([1057, 1074, 1077, 1088, 1076, 1083, 1086, 1074, 1089, 1082, 1086, 1081, 32, 1086, 1073, 1083, 1072, 1089, 1090, 1080],
      [1057, 1074, 1077, 1088, 1076, 1083, 1086, 1074, 1089, 1082, 1072, 1103, 32, 1086, 1073, 1083, 1072, 1089, 1090, 1100]),  \<comment> \<open>Sverdlovskoj oblasti -> Sverdlovskaya oblast'\<close>
     ([1050, 1088, 1072, 1089, 1085, 1086, 1076, 1072, 1088, 1089, 1082, 1086, 1084, 32, 1082, 1088, 1072, 1077],
      [1050, 1088, 1072, 1089, 1085, 1086, 1076, 1072, 1088, 1089, 1082, 1080, 1081, 32, 1082, 1088, 1072, 1081]),  \<comment> \<open>Krasnodarskom krae -> Krasnodarskij kraj\<close>
     ([1056, 1086, 1089, 1090, 1086, 1074, 1089, 1082, 1086, 1081, 32, 1086, 1073, 1083, 1072, 1089, 1090, 1080],
      [1056, 1086, 1089, 1090, 1086, 1074, 1089, 1082, 1072, 1103, 32, 1086, 1073, 1083, 1072, 1089, 1090, 1100]),  \<comment> \<open>Rostovskoj oblasti -> Rostovskaya oblast'\<close>
     ([1053, 1086, 1074, 1086, 1089, 1080, 1073, 1080, 1088, 1089, 1082, 1086, 1081, 32, 1086, 1073, 1083, 1072, 1089, 1090, 1080],
      [1053, 1086, 1074, 1086, 1089, 1080, 1073, 1080, 1088, 1089, 1082, 1072, 1103, 32, 1086, 1073, 1083, 1072, 1089, 1090, 1100]),  \<comment> \<open>Novosibirskoj oblasti -> Novosibirskaya oblast'\<close>
     ([1050, 1088, 1072, 1089, 1085, 1086, 1103, 1088, 1089, 1082, 1086, 1084, 32, 1082, 1088, 1072, 1077],
      [1050, 1088, 1072, 1089, 1085, 1086, 1103, 1088, 1089, 1082, 1080, 1081, 32, 1082, 1088, 1072, 1081]),  \<comment> \<open>Krasnoyarskom krae -> Krasnoyarskij kraj\<close>
     ([1042, 1086, 1088, 1086, 1085, 1077, 1078, 1089, 1082, 1086, 1081, 32, 1086, 1073, 1083, 1072, 1089, 1090, 1080],
      [1042, 1086, 1088, 1086, 1085, 1077, 1078, 1089, 1082, 1072, 1103, 32, 1086, 1073, 1083, 1072, 1089, 1090, 1100]),  \<comment> \<open>Voronezhskoj oblasti -> Voronezhskaya oblast'\<close>
     ([1057, 1072, 1084, 1072, 1088, 1089, 1082, 1086, 1081, 32, 1086, 1073, 1083, 1072, 1089, 1090, 1080],
      [1057, 1072, 1084, 1072, 1088, 1089, 1082, 1072, 1103, 32, 1086, 1073, 1083, 1072, 1089, 1090, 1100]),  \<comment> \<open>Samarskoj oblasti -> Samarskaya oblast'\<close>
     ([1055, 1077, 1088, 1084, 1089, 1082, 1086, 1084, 32, 1082, 1088, 1072, 1077],
      [1055, 1077, 1088, 1084, 1089, 1082, 1080, 1081, 32, 1082, 1088, 1072, 1081]),  \<comment> \<open>Permskom krae -> Permskij kraj\<close>
     ([1053, 1080, 1078, 1077, 1075, 1086, 1088, 1086, 1076, 1089, 1082, 1086, 1081, 32, 1086, 1073, 1083, 1072, 1089, 1090, 1080],
      [1053, 1080, 1078, 1077, 1075, 1086, 1088, 1086, 1076, 1089, 1082, 1072, 1103, 32, 1086, 1073, 1083, 1072, 1089, 1090, 1100]),  \<comment> \<open>Nizhegorodskoj oblasti -> Nizhegorodskaya oblast'\<close>
     ([1057, 1072, 1088, 1072, 1090, 1086, 1074, 1089, 1082, 1086, 1081, 32, 1086, 1073, 1083, 1072, 1089, 1090, 1080],
      [1057, 1072, 1088, 1072, 1090, 1086, 1074, 1089, 1082, 1072, 1103, 32, 1086, 1073, 1083, 1072, 1089, 1090, 1100]),  \<comment> \<open>Saratovskoj oblasti -> Saratovskaya oblast'\<close>
     ([1048, 1088, 1082, 1091, 1090, 1089, 1082, 1086, 1081, 32, 1086, 1073, 1083, 1072, 1089, 1090, 1080],
      [1048, 1088, 1082, 1091, 1090, 1089, 1082, 1072, 1103, 32, 1086, 1073, 1083, 1072, 1089, 1090, 1100]),  \<comment> \<open>Irkutskoj oblasti -> Irkutskaya oblast'\<close>
     ([1063, 1077, 1083, 1103, 1073, 1080, 1085, 1089, 1082, 1086, 1081, 32, 1086, 1073, 1083, 1072, 1089, 1090, 1080],
      [1063, 1077, 1083, 1103, 1073, 1080, 1085, 1089, 1082, 1072, 1103, 32, 1086, 1073, 1083, 1072, 1089, 1090, 1100]),  \<comment> \<open>Chelyabinskoj oblasti -> Chelyabinskaya oblast'\<close>
     ([1040, 1083, 1090, 1072, 1081, 1089, 1082, 1086, 1084, 32, 1082, 1088, 1072, 1077],
      [1040, 1083, 1090, 1072, 1081, 1089, 1082, 1080, 1081, 32, 1082, 1088, 1072, 1081]),  \<comment> \<open>Altajskom krae -> Altajskij kraj\<close>
     ([1056, 1077, 1089, 1087, 1091, 1073, 1083, 1080, 1082, 1077, 32, 1041, 1072, 1096, 1082, 1086, 1088, 1090, 1086, 1089, 1090, 1072, 1085],
      [1056, 1077, 1089, 1087, 1091, 1073, 1083, 1080, 1082, 1072, 32, 1041, 1072, 1096, 1082, 1086, 1088, 1090, 1086, 1089, 1090, 1072, 1085]),  \<comment> \<open>Respublike Bashkortostan -> Respublika Bashkortostan\<close>
     ([1050, 1077, 1084, 1077, 1088, 1086, 1074, 1089, 1082, 1086, 1081, 32, 1086, 1073, 1083, 1072, 1089, 1090, 1080],
      [1050, 1077, 1084, 1077, 1088, 1086, 1074, 1089, 1082, 1072, 1103, 32, 1086, 1073, 1083, 1072, 1089, 1090, 1100, 32, 8212, 32, 1050, 1091, 1079, 1073, 1072, 1089, 1089]),  \<comment> \<open>Kemerovskoj oblasti -> Kemerovskaya oblast' -- Kuzbass\<close>
     ([1054, 1088, 1077, 1085, 1073, 1091, 1088, 1075, 1089, 1082, 1086, 1081, 32, 1086, 1073, 1083, 1072, 1089, 1090, 1080],
      [1054, 1088, 1077, 1085, 1073, 1091, 1088, 1075, 1089, 1082, 1072, 1103, 32, 1086, 1073, 1083, 1072, 1089, 1090, 1100]),  \<comment> \<open>Orenburgskoj oblasti -> Orenburgskaya oblast'\<close>
     ([1057, 1090, 1072, 1074, 1088, 1086, 1087, 1086, 1083, 1100, 1089, 1082, 1086, 1084, 32, 1082, 1088, 1072, 1077],
      [1057, 1090, 1072, 1074, 1088, 1086, 1087, 1086, 1083, 1100, 1089, 1082, 1080, 1081, 32, 1082, 1088, 1072, 1081]),  \<comment> \<open>Stavropol'skom krae -> Stavropol'skij kraj\<close>
     ([1055, 1088, 1080, 1084, 1086, 1088, 1089, 1082, 1086, 1084, 32, 1082, 1088, 1072, 1077],
      [1055, 1088, 1080, 1084, 1086, 1088, 1089, 1082, 1080, 1081, 32, 1082, 1088, 1072, 1081]),  \<comment> \<open>Primorskom krae -> Primorskij kraj\<close>
     ([1061, 1072, 1073, 1072, 1088, 1086, 1074, 1089, 1082, 1086, 1084, 32, 1082, 1088, 1072, 1077],
      [1061, 1072, 1073, 1072, 1088, 1086, 1074, 1089, 1082, 1080, 1081, 32, 1082, 1088, 1072, 1081]),  \<comment> \<open>Habarovskom krae -> Habarovskij kraj\<close>
     ([1050, 1072, 1083, 1080, 1085, 1080, 1085, 1075, 1088, 1072, 1076, 1089, 1082, 1086, 1081, 32, 1086, 1073, 1083, 1072, 1089, 1090, 1080],
      [1050, 1072, 1083, 1080, 1085, 1080, 1085, 1075, 1088, 1072, 1076, 1089, 1082, 1072, 1103, 32, 1086, 1073, 1083, 1072, 1089, 1090, 1100]),  \<comment> \<open>Kaliningradskoj oblasti -> Kaliningradskaya oblast'\<close>
     ([1058, 1102, 1084, 1077, 1085, 1089, 1082, 1086, 1081, 32, 1086, 1073, 1083, 1072, 1089, 1090, 1080],
      [1058, 1102, 1084, 1077, 1085, 1089, 1082, 1072, 1103, 32, 1086, 1073, 1083, 1072, 1089, 1090, 1100]),  \<comment> \<open>Tyumenskoj oblasti -> Tyumenskaya oblast'\<close>
     ([1061, 1072, 1085, 1090, 1099, 45, 1052, 1072, 1085, 1089, 1080, 1081, 1089, 1082, 1086, 1084, 32, 1040, 1054],
      [1061, 1072, 1085, 1090, 1099, 45, 1052, 1072, 1085, 1089, 1080, 1081, 1089, 1082, 1080, 1081, 32, 1072, 1074, 1090, 1086, 1085, 1086, 1084, 1085, 1099, 1081, 32, 1086, 1082, 1088, 1091, 1075, 32, 8212, 32, 1070, 1075, 1088, 1072]),  \<comment> \<open>Hanty-Mansijskom AO -> Hanty-Mansijskij avtonomnyj okrug -- Yugra\<close>
     ([1054, 1088, 1083, 1086, 1074, 1089, 1082, 1086, 1081, 32, 1086, 1073, 1083, 1072, 1089, 1090, 1080],
      [1054, 1088, 1083, 1086, 1074, 1089, 1082, 1072, 1103, 32, 1086, 1073, 1083, 1072, 1089, 1090, 1100]),  \<comment> \<open>Orlovskoj oblasti -> Orlovskaya oblast'\<close>
     ([1056, 1077, 1089, 1087, 1091, 1073, 1083, 1080, 1082, 1077, 32, 1050, 1072, 1088, 1077, 1083, 1080, 1103],
      [1056, 1077, 1089, 1087, 1091, 1073, 1083, 1080, 1082, 1072, 32, 1050, 1072, 1088, 1077, 1083, 1080, 1103]),  \<comment> \<open>Respublike Kareliya -> Respublika Kareliya\<close>
     ([1059, 1076, 1084, 1091, 1088, 1090, 1089, 1082, 1086, 1081, 32, 1056, 1077, 1089, 1087, 1091, 1073, 1083, 1080, 1082, 1077],
      [1059, 1076, 1084, 1091, 1088, 1090, 1089, 1082, 1072, 1103, 32, 1056, 1077, 1089, 1087, 1091, 1073, 1083, 1080, 1082, 1072]),  \<comment> \<open>Udmurtskoj Respublike -> Udmurtskaya Respublika\<close>
     ([1042, 1086, 1083, 1075, 1086, 1075, 1088, 1072, 1076, 1089, 1082, 1086, 1081, 32, 1086, 1073, 1083, 1072, 1089, 1090, 1080],
      [1042, 1086, 1083, 1075, 1086, 1075, 1088, 1072, 1076, 1089, 1082, 1072, 1103, 32, 1086, 1073, 1083, 1072, 1089, 1090, 1100]),  \<comment> \<open>Volgogradskoj oblasti -> Volgogradskaya oblast'\<close>
     ([1056, 1077, 1089, 1087, 1091, 1073, 1083, 1080, 1082, 1077, 32, 1044, 1072, 1075, 1077, 1089, 1090, 1072, 1085],
      [1056, 1077, 1089, 1087, 1091, 1073, 1083, 1080, 1082, 1072, 32, 1044, 1072, 1075, 1077, 1089, 1090, 1072, 1085]),  \<comment> \<open>Respublike Dagestan -> Respublika Dagestan\<close>
     ([1071, 1088, 1086, 1089, 1083, 1072, 1074, 1089, 1082, 1086, 1081, 32, 1086, 1073, 1083, 1072, 1089, 1090, 1080],
      [1071, 1088, 1086, 1089, 1083, 1072, 1074, 1089, 1082, 1072, 1103, 32, 1086, 1073, 1083, 1072, 1089, 1090, 1100]),  \<comment> \<open>Yaroslavskoj oblasti -> Yaroslavskaya oblast'\<close>
     ([1058, 1074, 1077, 1088, 1089, 1082, 1086, 1081, 32, 1086, 1073, 1083, 1072, 1089, 1090, 1080],
      [1058, 1074, 1077, 1088, 1089, 1082, 1072, 1103, 32, 1086, 1073, 1083, 1072, 1089, 1090, 1100]),  \<comment> \<open>Tverskoj oblasti -> Tverskaya oblast'\<close>
     ([1040, 1088, 1093, 1072, 1085, 1075, 1077, 1083, 1100, 1089, 1082, 1086, 1081, 32, 1086, 1073, 1083, 1072, 1089, 1090, 1080],
      [1040, 1088, 1093, 1072, 1085, 1075, 1077, 1083, 1100, 1089, 1082, 1072, 1103, 32, 1086, 1073, 1083, 1072, 1089, 1090, 1100]),  \<comment> \<open>Arhangel'skoj oblasti -> Arhangel'skaya oblast'\<close>
     ([1054, 1084, 1089, 1082, 1086, 1081, 32, 1086, 1073, 1083, 1072, 1089, 1090, 1080],
      [1054, 1084, 1089, 1082, 1072, 1103, 32, 1086, 1073, 1083, 1072, 1089, 1090, 1100]),  \<comment> \<open>Omskoj oblasti -> Omskaya oblast'\<close>
     ([1056, 1077, 1089, 1087, 1091, 1073, 1083, 1080, 1082, 1077, 32, 1041, 1091, 1088, 1103, 1090, 1080, 1103],
      [1056, 1077, 1089, 1087, 1091, 1073, 1083, 1080, 1082, 1072, 32, 1041, 1091, 1088, 1103, 1090, 1080, 1103]),  \<comment> \<open>Respublike Buryatiya -> Respublika Buryatiya\<close>
     ([1056, 1077, 1089, 1087, 1091, 1073, 1083, 1080, 1082, 1077, 32, 1057, 1072, 1093, 1072, 32, 40, 1071, 1082, 1091, 1090, 1080, 1103, 41],
      [1056, 1077, 1089, 1087, 1091, 1073, 1083, 1080, 1082, 1072, 32, 1057, 1072, 1093, 1072, 32, 40, 1071, 1082, 1091, 1090, 1080, 1103, 41]),  \<comment> \<open>Respublike Saha (Yakutiya) -> Respublika Saha (Yakutiya)\<close>
     ([1056, 1077, 1089, 1087, 1091, 1073, 1083, 1080, 1082, 1077, 32, 1052, 1086, 1088, 1076, 1086, 1074, 1080, 1103],
      [1056, 1077, 1089, 1087, 1091, 1073, 1083, 1080, 1082, 1072, 32, 1052, 1086, 1088, 1076, 1086, 1074, 1080, 1103]),  \<comment> \<open>Respublike Mordoviya -> Respublika Mordoviya\<close>
     ([1048, 1074, 1072, 1085, 1086, 1074, 1089, 1082, 1086, 1081, 32, 1086, 1073, 1083, 1072, 1089, 1090, 1080],
      [1048, 1074, 1072, 1085, 1086, 1074, 1089, 1082, 1072, 1103, 32, 1086, 1073, 1083, 1072, 1089, 1090, 1100]),  \<comment> \<open>Ivanovskoj oblasti -> Ivanovskaya oblast'\<close>
     ([1041, 1077, 1083, 1075, 1086, 1088, 1086, 1076, 1089, 1082, 1086, 1081, 32, 1086, 1073, 1083, 1072, 1089, 1090, 1080],
      [1041, 1077, 1083, 1075, 1086, 1088, 1086, 1076, 1089, 1082, 1072, 1103, 32, 1086, 1073, 1083, 1072, 1089, 1090, 1100]),  \<comment> \<open>Belgorodskoj oblasti -> Belgorodskaya oblast'\<close>
     ([1058, 1091, 1083, 1100, 1089, 1082, 1086, 1081, 32, 1086, 1073, 1083, 1072, 1089, 1090, 1080],
      [1058, 1091, 1083, 1100, 1089, 1082, 1072, 1103, 32, 1086, 1073, 1083, 1072, 1089, 1090, 1100]),  \<comment> \<open>Tul'skoj oblasti -> Tul'skaya oblast'\<close>
     ([1047, 1072, 1073, 1072, 1081, 1082, 1072, 1083, 1100, 1089, 1082, 1086, 1084, 32, 1082, 1088, 1072, 1077],
      [1047, 1072, 1073, 1072, 1081, 1082, 1072, 1083, 1100, 1089, 1082, 1080, 1081, 32, 1082, 1088, 1072, 1081]),  \<comment> \<open>Zabajkal'skom krae -> Zabajkal'skij kraj\<close>
     ([1042, 1083, 1072, 1076, 1080, 1084, 1080, 1088, 1089, 1082, 1086, 1081, 32, 1086, 1073, 1083, 1072, 1089, 1090, 1080],
      [1042, 1083, 1072, 1076, 1080, 1084, 1080, 1088, 1089, 1082, 1072, 1103, 32, 1086, 1073, 1083, 1072, 1089, 1090, 1100]),  \<comment> \<open>Vladimirskoj oblasti -> Vladimirskaya oblast'\<close>
     ([1058, 1072, 1084, 1073, 1086, 1074, 1089, 1082, 1086, 1081, 32, 1086, 1073, 1083, 1072, 1089, 1090, 1080],
      [1058, 1072, 1084, 1073, 1086, 1074, 1089, 1082, 1072, 1103, 32, 1086, 1073, 1083, 1072, 1089, 1090, 1100]),  \<comment> \<open>Tambovskoj oblasti -> Tambovskaya oblast'\<close>
     ([1055, 1077, 1085, 1079, 1077, 1085, 1089, 1082, 1086, 1081, 32, 1086, 1073, 1083, 1072, 1089, 1090, 1080],
      [1055, 1077, 1085, 1079, 1077, 1085, 1089, 1082, 1072, 1103, 32, 1086, 1073, 1083, 1072, 1089, 1090, 1100]),  \<comment> \<open>Penzenskoj oblasti -> Penzenskaya oblast'\<close>
     ([1059, 1083, 1100, 1103, 1085, 1086, 1074, 1089, 1082, 1086, 1081, 32, 1086, 1073, 1083, 1072, 1089, 1090, 1080],
      [1059, 1083, 1100, 1103, 1085, 1086, 1074, 1089, 1082, 1072, 1103, 32, 1086, 1073, 1083, 1072, 1089, 1090, 1100]),  \<comment> \<open>Ul'yanovskoj oblasti -> Ul'yanovskaya oblast'\<close>
     ([1042, 1086, 1083, 1086, 1075, 1086, 1076, 1089, 1082, 1086, 1081, 32, 1086, 1073, 1083, 1072, 1089, 1090, 1080],
      [1042, 1086, 1083, 1086, 1075, 1086, 1076, 1089, 1082, 1072, 1103, 32, 1086, 1073, 1083, 1072, 1089, 1090, 1100]),  \<comment> \<open>Vologodskoj oblasti -> Vologodskaya oblast'\<close>
     ([1050, 1080, 1088, 1086, 1074, 1089, 1082, 1086, 1081, 32, 1086, 1073, 1083, 1072, 1089, 1090, 1080],
      [1050, 1080, 1088, 1086, 1074, 1089, 1082, 1072, 1103, 32, 1086, 1073, 1083, 1072, 1089, 1090, 1100]),  \<comment> \<open>Kirovskoj oblasti -> Kirovskaya oblast'\<close>
     ([1041, 1088, 1103, 1085, 1089, 1082, 1086, 1081, 32, 1086, 1073, 1083, 1072, 1089, 1090, 1080],
      [1041, 1088, 1103, 1085, 1089, 1082, 1072, 1103, 32, 1086, 1073, 1083, 1072, 1089, 1090, 1100]),  \<comment> \<open>Bryanskoj oblasti -> Bryanskaya oblast'\<close>
     ([1063, 1077, 1095, 1077, 1085, 1089, 1082, 1086, 1081, 32, 1088, 1077, 1089, 1087, 1091, 1073, 1083, 1080, 1082, 1077],
      [1063, 1077, 1095, 1077, 1085, 1089, 1082, 1072, 1103, 32, 1056, 1077, 1089, 1087, 1091, 1073, 1083, 1080, 1082, 1072]),  \<comment> \<open>Chechenskoj respublike -> Chechenskaya Respublika\<close>
     ([1051, 1080, 1087, 1077, 1094, 1082, 1086, 1081, 32, 1086, 1073, 1083, 1072, 1089, 1090, 1080],
      [1051, 1080, 1087, 1077, 1094, 1082, 1072, 1103, 32, 1086, 1073, 1083, 1072, 1089, 1090, 1100]),  \<comment> \<open>Lipeckoj oblasti -> Lipeckaya oblast'\<close>
     ([1063, 1091, 1074, 1072, 1096, 1089, 1082, 1086, 1081, 32, 1056, 1077, 1089, 1087, 1091, 1073, 1083, 1080, 1082, 1077],
      [1063, 1091, 1074, 1072, 1096, 1089, 1082, 1072, 1103, 32, 1056, 1077, 1089, 1087, 1091, 1073, 1083, 1080, 1082, 1072]),  \<comment> \<open>Chuvashskoj Respublike -> Chuvashskaya Respublika\<close>
     ([1050, 1091, 1088, 1089, 1082, 1086, 1081, 32, 1086, 1073, 1083, 1072, 1089, 1090, 1080],
      [1050, 1091, 1088, 1089, 1082, 1072, 1103, 32, 1086, 1073, 1083, 1072, 1089, 1090, 1100]),  \<comment> \<open>Kurskoj oblasti -> Kurskaya oblast'\<close>
     ([1056, 1103, 1079, 1072, 1085, 1089, 1082, 1086, 1081, 32, 1086, 1073, 1083, 1072, 1089, 1090, 1080],
      [1056, 1103, 1079, 1072, 1085, 1089, 1082, 1072, 1103, 32, 1086, 1073, 1083, 1072, 1089, 1090, 1100]),  \<comment> \<open>Ryazanskoj oblasti -> Ryazanskaya oblast'\<close>
     ([1050, 1072, 1083, 1091, 1078, 1089, 1082, 1086, 1081, 32, 1086, 1073, 1083, 1072, 1089, 1090, 1080],
      [1050, 1072, 1083, 1091, 1078, 1089, 1082, 1072, 1103, 32, 1086, 1073, 1083, 1072, 1089, 1090, 1100]),  \<comment> \<open>Kaluzhskoj oblasti -> Kaluzhskaya oblast'\<close>
     ([1058, 1086, 1084, 1089, 1082, 1086, 1081, 32, 1086, 1073, 1083, 1072, 1089, 1090, 1080],
      [1058, 1086, 1084, 1089, 1082, 1072, 1103, 32, 1086, 1073, 1083, 1072, 1089, 1090, 1100]),  \<comment> \<open>Tomskoj oblasti -> Tomskaya oblast'\<close>
     ([1057, 1084, 1086, 1083, 1077, 1085, 1089, 1082, 1086, 1081, 32, 1086, 1073, 1083, 1072, 1089, 1090, 1080],
      [1057, 1084, 1086, 1083, 1077, 1085, 1089, 1082, 1072, 1103, 32, 1086, 1073, 1083, 1072, 1089, 1090, 1100]),  \<comment> \<open>Smolenskoj oblasti -> Smolenskaya oblast'\<close>
     ([1040, 1089, 1090, 1088, 1072, 1093, 1072, 1085, 1089, 1082, 1086, 1081, 32, 1086, 1073, 1083, 1072, 1089, 1090, 1080],
      [1040, 1089, 1090, 1088, 1072, 1093, 1072, 1085, 1089, 1082, 1072, 1103, 32, 1086, 1073, 1083, 1072, 1089, 1090, 1100]),  \<comment> \<open>Astrahanskoj oblasti -> Astrahanskaya oblast'\<close>
     ([1056, 1077, 1089, 1087, 1091, 1073, 1083, 1080, 1082, 1077, 32, 1050, 1086, 1084, 1080],
      [1056, 1077, 1089, 1087, 1091, 1073, 1083, 1080, 1082, 1072, 32, 1050, 1086, 1084, 1080]),  \<comment> \<open>Respublike Komi -> Respublika Komi\<close>
     ([1050, 1091, 1088, 1075, 1072, 1085, 1089, 1082, 1086, 1081, 32, 1086, 1073, 1083, 1072, 1089, 1090, 1080],
      [1050, 1091, 1088, 1075, 1072, 1085, 1089, 1082, 1072, 1103, 32, 1086, 1073, 1083, 1072, 1089, 1090, 1100]),  \<comment> \<open>Kurganskoj oblasti -> Kurganskaya oblast'\<close>
     ([1052, 1091, 1088, 1084, 1072, 1085, 1089, 1082, 1086, 1081, 32, 1086, 1073, 1083, 1072, 1089, 1090, 1080],
      [1052, 1091, 1088, 1084, 1072, 1085, 1089, 1082, 1072, 1103, 32, 1086, 1073, 1083, 1072, 1089, 1090, 1100]),  \<comment> \<open>Murmanskoj oblasti -> Murmanskaya oblast'\<close>
     ([1040, 1084, 1091, 1088, 1089, 1082, 1086, 1081, 32, 1086, 1073, 1083, 1072, 1089, 1090, 1080],
      [1040, 1084, 1091, 1088, 1089, 1082, 1072, 1103, 32, 1086, 1073, 1083, 1072, 1089, 1090, 1100]),  \<comment> \<open>Amurskoj oblasti -> Amurskaya oblast'\<close>
     ([1050, 1072, 1073, 1072, 1088, 1076, 1080, 1085, 1086, 45, 1041, 1072, 1083, 1082, 1072, 1088, 1089, 1082, 1086, 1081, 32, 1056, 1077, 1089, 1087, 1091, 1073, 1083, 1080, 1082, 1077],
      [1050, 1072, 1073, 1072, 1088, 1076, 1080, 1085, 1086, 45, 1041, 1072, 1083, 1082, 1072, 1088, 1089, 1082, 1072, 1103, 32, 1056, 1077, 1089, 1087, 1091, 1073, 1083, 1080, 1082, 1072]),  \<comment> \<open>Kabardino-Balkarskoj Respublike -> Kabardino-Balkarskaya Respublika\<close>
     ([1056, 1077, 1089, 1087, 1091, 1073, 1083, 1080, 1082, 1077, 32, 1052, 1072, 1088, 1080, 1081, 32, 1069, 1083],
      [1056, 1077, 1089, 1087, 1091, 1073, 1083, 1080, 1082, 1072, 32, 1052, 1072, 1088, 1080, 1081, 32, 1069, 1083]),  \<comment> \<open>Respublike Marij El -> Respublika Marij El\<close>
     ([1055, 1089, 1082, 1086, 1074, 1089, 1082, 1086, 1081, 32, 1086, 1073, 1083, 1072, 1089, 1090, 1080],
      [1055, 1089, 1082, 1086, 1074, 1089, 1082, 1072, 1103, 32, 1086, 1073, 1083, 1072, 1089, 1090, 1100]),  \<comment> \<open>Pskovskoj oblasti -> Pskovskaya oblast'\<close>
     ([1053, 1086, 1074, 1075, 1086, 1088, 1086, 1076, 1089, 1082, 1086, 1081, 32, 1086, 1073, 1083, 1072, 1089, 1090, 1080],
      [1053, 1086, 1074, 1075, 1086, 1088, 1086, 1076, 1089, 1082, 1072, 1103, 32, 1086, 1073, 1083, 1072, 1089, 1090, 1100]),  \<comment> \<open>Novgorodskoj oblasti -> Novgorodskaya oblast'\<close>
     ([1050, 1086, 1089, 1090, 1088, 1086, 1084, 1089, 1082, 1086, 1081, 32, 1086, 1073, 1083, 1072, 1089, 1090, 1080],
      [1050, 1086, 1089, 1090, 1088, 1086, 1084, 1089, 1082, 1072, 1103, 32, 1086, 1073, 1083, 1072, 1089, 1090, 1100]),  \<comment> \<open>Kostromskoj oblasti -> Kostromskaya oblast'\<close>
     ([1071, 1084, 1072, 1083, 1086, 45, 1053, 1077, 1085, 1077, 1094, 1082, 1086, 1084, 32, 1040, 1054],
      [1071, 1084, 1072, 1083, 1086, 45, 1053, 1077, 1085, 1077, 1094, 1082, 1080, 1081, 32, 1072, 1074, 1090, 1086, 1085, 1086, 1084, 1085, 1099, 1081, 32, 1086, 1082, 1088, 1091, 1075]),  \<comment> \<open>Yamalo-Neneckom AO -> Yamalo-Neneckij avtonomnyj okrug\<close>
     ([1057, 1077, 1074, 1077, 1088, 1085, 1086, 1081, 32, 1054, 1089, 1077, 1090, 1080, 1080, 45, 1040, 1083, 1072, 1085, 1080, 1080],
      [1056, 1077, 1089, 1087, 1091, 1073, 1083, 1080, 1082, 1072, 32, 1057, 1077, 1074, 1077, 1088, 1085, 1072, 1103, 32, 1054, 1089, 1077, 1090, 1080, 1103, 32, 8212, 32, 1040, 1083, 1072, 1085, 1080, 1103]),  \<comment> \<open>Severnoj Osetii-Alanii -> Respublika Severnaya Osetiya -- Alaniya\<close>
     ([1056, 1077, 1089, 1087, 1091, 1073, 1083, 1080, 1082, 1077, 32, 1061, 1072, 1082, 1072, 1089, 1080, 1103],
      [1056, 1077, 1089, 1087, 1091, 1073, 1083, 1080, 1082, 1072, 32, 1061, 1072, 1082, 1072, 1089, 1080, 1103]),  \<comment> \<open>Respublike Hakasiya -> Respublika Hakasiya\<close>
     ([1057, 1072, 1093, 1072, 1083, 1080, 1085, 1089, 1082, 1086, 1081, 32, 1086, 1073, 1083, 1072, 1089, 1090, 1080],
      [1057, 1072, 1093, 1072, 1083, 1080, 1085, 1089, 1082, 1072, 1103, 32, 1086, 1073, 1083, 1072, 1089, 1090, 1100]),  \<comment> \<open>Sahalinskoj oblasti -> Sahalinskaya oblast'\<close>
     ([1050, 1072, 1088, 1072, 1095, 1072, 1077, 1074, 1086, 45, 1063, 1077, 1088, 1082, 1077, 1089, 1089, 1082, 1086, 1081, 32, 1056, 1077, 1089, 1087, 1091, 1073, 1083, 1080, 1082, 1077],
      [1050, 1072, 1088, 1072, 1095, 1072, 1077, 1074, 1086, 45, 1063, 1077, 1088, 1082, 1077, 1089, 1089, 1082, 1072, 1103, 32, 1056, 1077, 1089, 1087, 1091, 1073, 1083, 1080, 1082, 1072]),  \<comment> \<open>Karachaevo-Cherkesskoj Respublike -> Karachaevo-Cherkesskaya Respublika\<close>
     ([1056, 1077, 1089, 1087, 1091, 1073, 1083, 1080, 1082, 1077, 32, 1048, 1085, 1075, 1091, 1096, 1077, 1090, 1080, 1103],
      [1048, 1085, 1075, 1091, 1096, 1077, 1090, 1080, 1103]),  \<comment> \<open>Respublike Ingushetiya -> Ingushetiya\<close>
     ([1050, 1072, 1084, 1095, 1072, 1090, 1089, 1082, 1086, 1084, 32, 1082, 1088, 1072, 1077],
      [1050, 1072, 1084, 1095, 1072, 1090, 1089, 1082, 1080, 1081, 32, 1082, 1088, 1072, 1081]),  \<comment> \<open>Kamchatskom krae -> Kamchatskij kraj\<close>
     ([1056, 1077, 1089, 1087, 1091, 1073, 1083, 1080, 1082, 1077, 32, 1058, 1099, 1074, 1072],
      [1056, 1077, 1089, 1087, 1091, 1073, 1083, 1080, 1082, 1072, 32, 1058, 1099, 1074, 1072]),  \<comment> \<open>Respublike Tyva -> Respublika Tyva\<close>
     ([1056, 1077, 1089, 1087, 1091, 1073, 1083, 1080, 1082, 1077, 32, 1050, 1072, 1083, 1084, 1099, 1082, 1080, 1103],
      [1056, 1077, 1089, 1087, 1091, 1073, 1083, 1080, 1082, 1072, 32, 1050, 1072, 1083, 1084, 1099, 1082, 1080, 1103]),  \<comment> \<open>Respublike Kalmykiya -> Respublika Kalmykiya\<close>
     ([1056, 1077, 1089, 1087, 1091, 1073, 1083, 1080, 1082, 1077, 32, 1040, 1083, 1090, 1072, 1081],
      [1056, 1077, 1089, 1087, 1091, 1073, 1083, 1080, 1082, 1072, 32, 1040, 1083, 1090, 1072, 1081]),  \<comment> \<open>Respublike Altaj -> Respublika Altaj\<close>
     ([1052, 1072, 1075, 1072, 1076, 1072, 1085, 1089, 1082, 1086, 1081, 32, 1086, 1073, 1083, 1072, 1089, 1090, 1080],
      [1052, 1072, 1075, 1072, 1076, 1072, 1085, 1089, 1082, 1072, 1103, 32, 1086, 1073, 1083, 1072, 1089, 1090, 1100])]"  \<comment> \<open>Magadanskoj oblasti -> Magadanskaya oblast'\<close>

text \<open>\<open>RU_TZ_BY_REGION\<close>: the fallback table from canonical region names to time-zone
  identifiers.\<close>

definition RU_TZ_BY_REGION :: "(ustring \<times> string) list" where
  "RU_TZ_BY_REGION = [
     ([1052, 1086, 1089, 1082, 1074, 1072],
      ''Europe/Moscow''),  \<comment> \<open>Moskva\<close>
     ([1057, 1072, 1085, 1082, 1090, 45, 1055, 1077, 1090, 1077, 1088, 1073, 1091, 1088, 1075],
      ''Europe/Moscow''),  \<comment> \<open>Sankt-Peterburg\<close>
     ([1050, 1072, 1083, 1080, 1085, 1080, 1085, 1075, 1088, 1072, 1076, 1089, 1082, 1072, 1103, 32, 1086, 1073, 1083, 1072, 1089, 1090, 1100],
      ''Europe/Kaliningrad''),  \<comment> \<open>Kaliningradskaya oblast'\<close>
     ([1052, 1086, 1089, 1082, 1086, 1074, 1089, 1082, 1072, 1103, 32, 1086, 1073, 1083, 1072, 1089, 1090, 1100],
      ''Europe/Moscow''),  \<comment> \<open>Moskovskaya oblast'\<close>
     ([1051, 1077, 1085, 1080, 1085, 1075, 1088, 1072, 1076, 1089, 1082, 1072, 1103, 32, 1086, 1073, 1083, 1072, 1089, 1090, 1100],
      ''Europe/Moscow''),  \<comment> \<open>Leningradskaya oblast'\<close>
     ([1056, 1077, 1089, 1087, 1091, 1073, 1083, 1080, 1082, 1072, 32, 1050, 1072, 1088, 1077, 1083, 1080, 1103],
      ''Europe/Moscow''),  \<comment> \<open>Respublika Kareliya\<close>
     ([1056, 1077, 1089, 1087, 1091, 1073, 1083, 1080, 1082, 1072, 32, 1050, 1086, 1084, 1080],
      ''Europe/Moscow''),  \<comment> \<open>Respublika Komi\<close>
     ([1040, 1088, 1093, 1072, 1085, 1075, 1077, 1083, 1100, 1089, 1082, 1072, 1103, 32, 1086, 1073, 1083, 1072, 1089, 1090, 1100],
      ''Europe/Moscow''),  \<comment> \<open>Arhangel'skaya oblast'\<close>
     ([1052, 1091, 1088, 1084, 1072, 1085, 1089, 1082, 1072, 1103, 32, 1086, 1073, 1083, 1072, 1089, 1090, 1100],
      ''Europe/Moscow''),  \<comment> \<open>Murmanskaya oblast'\<close>
     ([1042, 1086, 1083, 1086, 1075, 1086, 1076, 1089, 1082, 1072, 1103, 32, 1086, 1073, 1083, 1072, 1089, 1090, 1100],
      ''Europe/Moscow''),  \<comment> \<open>Vologodskaya oblast'\<close>
     ([1053, 1086, 1074, 1075, 1086, 1088, 1086, 1076, 1089, 1082, 1072, 1103, 32, 1086, 1073, 1083, 1072, 1089, 1090, 1100],
      ''Europe/Moscow''),  \<comment> \<open>Novgorodskaya oblast'\<close>
     ([1055, 1089, 1082, 1086, 1074, 1089, 1082, 1072, 1103, 32, 1086, 1073, 1083, 1072, 1089, 1090, 1100],
      ''Europe/Moscow''),  \<comment> \<open>Pskovskaya oblast'\<close>
     ([1058, 1074, 1077, 1088, 1089, 1082, 1072, 1103, 32, 1086, 1073, 1083, 1072, 1089, 1090, 1100],
      ''Europe/Moscow''),  \<comment> \<open>Tverskaya oblast'\<close>
     ([1071, 1088, 1086, 1089, 1083, 1072, 1074, 1089, 1082, 1072, 1103, 32, 1086, 1073, 1083, 1072, 1089, 1090, 1100],
      ''Europe/Moscow''),  \<comment> \<open>Yaroslavskaya oblast'\<close>
     ([1050, 1086, 1089, 1090, 1088, 1086, 1084, 1089, 1082, 1072, 1103, 32, 1086, 1073, 1083, 1072, 1089, 1090, 1100],
      ''Europe/Moscow''),  \<comment> \<open>Kostromskaya oblast'\<close>
     ([1048, 1074, 1072, 1085, 1086, 1074, 1089, 1082, 1072, 1103, 32, 1086, 1073, 1083, 1072, 1089, 1090, 1100],
      ''Europe/Moscow''),  \<comment> \<open>Ivanovskaya oblast'\<close>
     ([1042, 1083, 1072, 1076, 1080, 1084, 1080, 1088, 1089, 1082, 1072, 1103, 32, 1086, 1073, 1083, 1072, 1089, 1090, 1100],
      ''Europe/Moscow''),  \<comment> \<open>Vladimirskaya oblast'\<close>
     ([1056, 1103, 1079, 1072, 1085, 1089, 1082, 1072, 1103, 32, 1086, 1073, 1083, 1072, 1089, 1090, 1100],
      ''Europe/Moscow''),  \<comment> \<open>Ryazanskaya oblast'\<close>
     ([1058, 1091, 1083, 1100, 1089, 1082, 1072, 1103, 32, 1086, 1073, 1083, 1072, 1089, 1090, 1100],
      ''Europe/Moscow''),  \<comment> \<open>Tul'skaya oblast'\<close>
     ([1050, 1072, 1083, 1091, 1078, 1089, 1082, 1072, 1103, 32, 1086, 1073, 1083, 1072, 1089, 1090, 1100],
      ''Europe/Moscow''),  \<comment> \<open>Kaluzhskaya oblast'\<close>
     ([1057, 1084, 1086, 1083, 1077, 1085, 1089, 1082, 1072, 1103, 32, 1086, 1073, 1083, 1072, 1089, 1090, 1100],
      ''Europe/Moscow''),  \<comment> \<open>Smolenskaya oblast'\<close>
     ([1041, 1088, 1103, 1085, 1089, 1082, 1072, 1103, 32, 1086, 1073, 1083, 1072, 1089, 1090, 1100],
      ''Europe/Moscow''),  \<comment> \<open>Bryanskaya oblast'\<close>
     ([1054, 1088, 1083, 1086, 1074, 1089, 1082, 1086, 1081, 32, 1086, 1073, 1083, 1072, 1089, 1090, 1080],
      ''Europe/Moscow''),  \<comment> \<open>Orlovskoj oblasti\<close>
     ([1050, 1091, 1088, 1089, 1082, 1072, 1103, 32, 1086, 1073, 1083, 1072, 1089, 1090, 1100],
      ''Europe/Moscow''),  \<comment> \<open>Kurskaya oblast'\<close>
     ([1041, 1077, 1083, 1075, 1086, 1088, 1086, 1076, 1089, 1082, 1072, 1103, 32, 1086, 1073, 1083, 1072, 1089, 1090, 1100],
      ''Europe/Moscow''),  \<comment> \<open>Belgorodskaya oblast'\<close>
     ([1042, 1086, 1088, 1086, 1085, 1077, 1078, 1089, 1082, 1072, 1103, 32, 1086, 1073, 1083, 1072, 1089, 1090, 1100],
      ''Europe/Moscow''),  \<comment> \<open>Voronezhskaya oblast'\<close>
     ([1051, 1080, 1087, 1077, 1094, 1082, 1072, 1103, 32, 1086, 1073, 1083, 1072, 1089, 1090, 1100],
      ''Europe/Moscow''),  \<comment> \<open>Lipeckaya oblast'\<close>
     ([1058, 1072, 1084, 1073, 1086, 1074, 1089, 1082, 1072, 1103, 32, 1086, 1073, 1083, 1072, 1089, 1090, 1100],
      ''Europe/Moscow''),  \<comment> \<open>Tambovskaya oblast'\<close>
     ([1053, 1080, 1078, 1077, 1075, 1086, 1088, 1086, 1076, 1089, 1082, 1072, 1103, 32, 1086, 1073, 1083, 1072, 1089, 1090, 1100],
      ''Europe/Moscow''),  \<comment> \<open>Nizhegorodskaya oblast'\<close>
     ([1050, 1080, 1088, 1086, 1074, 1089, 1082, 1072, 1103, 32, 1086, 1073, 1083, 1072, 1089, 1090, 1100],
      ''Europe/Moscow''),  \<comment> \<open>Kirovskaya oblast'\<close>
     ([1055, 1077, 1085, 1079, 1077, 1085, 1089, 1082, 1072, 1103, 32, 1086, 1073, 1083, 1072, 1089, 1090, 1100],
      ''Europe/Moscow''),  \<comment> \<open>Penzenskaya oblast'\<close>
     ([1056, 1077, 1089, 1087, 1091, 1073, 1083, 1080, 1082, 1072, 32, 1052, 1086, 1088, 1076, 1086, 1074, 1080, 1103],
      ''Europe/Moscow''),  \<comment> \<open>Respublika Mordoviya\<close>
     ([1056, 1077, 1089, 1087, 1091, 1073, 1083, 1080, 1082, 1072, 32, 1052, 1072, 1088, 1080, 1081, 32, 1069, 1083],
      ''Europe/Moscow''),  \<comment> \<open>Respublika Marij El\<close>
     ([1063, 1091, 1074, 1072, 1096, 1089, 1082, 1072, 1103, 32, 1056, 1077, 1089, 1087, 1091, 1073, 1083, 1080, 1082, 1072],
      ''Europe/Moscow''),  \<comment> \<open>Chuvashskaya Respublika\<close>
     ([1056, 1077, 1089, 1087, 1091, 1073, 1083, 1080, 1082, 1072, 32, 1058, 1072, 1090, 1072, 1088, 1089, 1090, 1072, 1085],
      ''Europe/Moscow''),  \<comment> \<open>Respublika Tatarstan\<close>
     ([1056, 1077, 1089, 1087, 1091, 1073, 1083, 1080, 1082, 1072, 32, 1050, 1072, 1083, 1084, 1099, 1082, 1080, 1103],
      ''Europe/Moscow''),  \<comment> \<open>Respublika Kalmykiya\<close>
     ([1056, 1086, 1089, 1090, 1086, 1074, 1089, 1082, 1072, 1103, 32, 1086, 1073, 1083, 1072, 1089, 1090, 1100],
      ''Europe/Moscow''),  \<comment> \<open>Rostovskaya oblast'\<close>
     ([1050, 1088, 1072, 1089, 1085, 1086, 1076, 1072, 1088, 1089, 1082, 1080, 1081, 32, 1082, 1088, 1072, 1081],
      ''Europe/Moscow''),  \<comment> \<open>Krasnodarskij kraj\<close>
     ([1057, 1090, 1072, 1074, 1088, 1086, 1087, 1086, 1083, 1100, 1089, 1082, 1080, 1081, 32, 1082, 1088, 1072, 1081],
      ''Europe/Moscow''),  \<comment> \<open>Stavropol'skij kraj\<close>
     ([1048, 1085, 1075, 1091, 1096, 1077, 1090, 1080, 1103],
      ''Europe/Moscow''),  \<comment> \<open>Ingushetiya\<close>
     ([1050, 1072, 1073, 1072, 1088, 1076, 1080, 1085, 1086, 45, 1041, 1072, 1083, 1082, 1072, 1088, 1089, 1082, 1072, 1103, 32, 1056, 1077, 1089, 1087, 1091, 1073, 1083, 1080, 1082, 1072],
      ''Europe/Moscow''),  \<comment> \<open>Kabardino-Balkarskaya Respublika\<close>
     ([1050, 1072, 1088, 1072, 1095, 1072, 1077, 1074, 1086, 45, 1063, 1077, 1088, 1082, 1077, 1089, 1089, 1082, 1072, 1103, 32, 1056, 1077, 1089, 1087, 1091, 1073, 1083, 1080, 1082, 1072],
      ''Europe/Moscow''),  \<comment> \<open>Karachaevo-Cherkesskaya Respublika\<close>
     ([1056, 1077, 1089, 1087, 1091, 1073, 1083, 1080, 1082, 1072, 32, 1057, 1077, 1074, 1077, 1088, 1085, 1072, 1103, 32, 1054, 1089, 1077, 1090, 1080, 1103, 32, 8212, 32, 1040, 1083, 1072, 1085, 1080, 1103],
      ''Europe/Moscow''),  \<comment> \<open>Respublika Severnaya Osetiya -- Alaniya\<close>
     ([1063, 1077, 1095, 1077, 1085, 1089, 1082, 1072, 1103, 32, 1056, 1077, 1089, 1087, 1091, 1073, 1083, 1080, 1082, 1072],
      ''Europe/Moscow''),  \<comment> \<open>Chechenskaya Respublika\<close>
     ([1056, 1077, 1089, 1087, 1091, 1073, 1083, 1080, 1082, 1072, 32, 1044, 1072, 1075, 1077, 1089, 1090, 1072, 1085],
      ''Europe/Moscow''),  \<comment> \<open>Respublika Dagestan\<close>
     ([1042, 1086, 1083, 1075, 1086, 1075, 1088, 1072, 1076, 1089, 1082, 1072, 1103, 32, 1086, 1073, 1083, 1072, 1089, 1090, 1100],
      ''Europe/Volgograd''),  \<comment> \<open>Volgogradskaya oblast'\<close>
     ([1057, 1072, 1084, 1072, 1088, 1089, 1082, 1072, 1103, 32, 1086, 1073, 1083, 1072, 1089, 1090, 1100],
      ''Europe/Samara''),  \<comment> \<open>Samarskaya oblast'\<close>
     ([1059, 1076, 1084, 1091, 1088, 1090, 1089, 1082, 1072, 1103, 32, 1056, 1077, 1089, 1087, 1091, 1073, 1083, 1080, 1082, 1072],
      ''Europe/Samara''),  \<comment> \<open>Udmurtskaya Respublika\<close>
     ([1040, 1089, 1090, 1088, 1072, 1093, 1072, 1085, 1089, 1082, 1072, 1103, 32, 1086, 1073, 1083, 1072, 1089, 1090, 1100],
      ''Europe/Astrakhan''),  \<comment> \<open>Astrahanskaya oblast'\<close>
     ([1057, 1072, 1088, 1072, 1090, 1086, 1074, 1089, 1082, 1072, 1103, 32, 1086, 1073, 1083, 1072, 1089, 1090, 1100],
      ''Europe/Saratov''),  \<comment> \<open>Saratovskaya oblast'\<close>
     ([1059, 1083, 1100, 1103, 1085, 1086, 1074, 1089, 1082, 1072, 1103, 32, 1086, 1073, 1083, 1072, 1089, 1090, 1100],
      ''Europe/Ulyanovsk''),  \<comment> \<open>Ul'yanovskaya oblast'\<close>
     ([1056, 1077, 1089, 1087, 1091, 1073, 1083, 1080, 1082, 1072, 32, 1041, 1072, 1096, 1082, 1086, 1088, 1090, 1086, 1089, 1090, 1072, 1085],
      ''Asia/Yekaterinburg''),  \<comment> \<open>Respublika Bashkortostan\<close>
     ([1055, 1077, 1088, 1084, 1089, 1082, 1080, 1081, 32, 1082, 1088, 1072, 1081],
      ''Asia/Yekaterinburg''),  \<comment> \<open>Permskij kraj\<close>
     ([1057, 1074, 1077, 1088, 1076, 1083, 1086, 1074, 1089, 1082, 1072, 1103, 32, 1086, 1073, 1083, 1072, 1089, 1090, 1100],
      ''Asia/Yekaterinburg''),  \<comment> \<open>Sverdlovskaya oblast'\<close>
     ([1063, 1077, 1083, 1103, 1073, 1080, 1085, 1089, 1082, 1072, 1103, 32, 1086, 1073, 1083, 1072, 1089, 1090, 1100],
      ''Asia/Yekaterinburg''),  \<comment> \<open>Chelyabinskaya oblast'\<close>
     ([1050, 1091, 1088, 1075, 1072, 1085, 1089, 1082, 1072, 1103, 32, 1086, 1073, 1083, 1072, 1089, 1090, 1100],
      ''Asia/Yekaterinburg''),  \<comment> \<open>Kurganskaya oblast'\<close>
     ([1058, 1102, 1084, 1077, 1085, 1089, 1082, 1072, 1103, 32, 1086, 1073, 1083, 1072, 1089, 1090, 1100],
      ''Asia/Yekaterinburg''),  \<comment> \<open>Tyumenskaya oblast'\<close>
     ([1061, 1072, 1085, 1090, 1099, 45, 1052, 1072, 1085, 1089, 1080, 1081, 1089, 1082, 1080, 1081, 32, 1072, 1074, 1090, 1086, 1085, 1086, 1084, 1085, 1099, 1081, 32, 1086, 1082, 1088, 1091, 1075, 32, 8212, 32, 1070, 1075, 1088, 1072],
      ''Asia/Yekaterinburg''),  \<comment> \<open>Hanty-Mansijskij avtonomnyj okrug -- Yugra\<close>
     ([1071, 1084, 1072, 1083, 1086, 45, 1053, 1077, 1085, 1077, 1094, 1082, 1080, 1081, 32, 1072, 1074, 1090, 1086, 1085, 1086, 1084, 1085, 1099, 1081, 32, 1086, 1082, 1088, 1091, 1075],
      ''Asia/Yekaterinburg''),  \<comment> \<open>Yamalo-Neneckij avtonomnyj okrug\<close>
     ([1054, 1088, 1077, 1085, 1073, 1091, 1088, 1075, 1089, 1082, 1072, 1103, 32, 1086, 1073, 1083, 1072, 1089, 1090, 1100],
      ''Asia/Yekaterinburg''),  \<comment> \<open>Orenburgskaya oblast'\<close>
     ([1054, 1084, 1089, 1082, 1072, 1103, 32, 1086, 1073, 1083, 1072, 1089, 1090, 1100],
      ''Asia/Omsk''),  \<comment> \<open>Omskaya oblast'\<close>
     ([1053, 1086, 1074, 1086, 1089, 1080, 1073, 1080, 1088, 1089, 1082, 1072, 1103, 32, 1086, 1073, 1083, 1072, 1089, 1090, 1100],
      ''Asia/Novosibirsk''),  \<comment> \<open>Novosibirskaya oblast'\<close>
     ([1058, 1086, 1084, 1089, 1082, 1072, 1103, 32, 1086, 1073, 1083, 1072, 1089, 1090, 1100],
      ''Asia/Tomsk''),  \<comment> \<open>Tomskaya oblast'\<close>
     ([1050, 1077, 1084, 1077, 1088, 1086, 1074, 1089, 1082, 1072, 1103, 32, 1086, 1073, 1083, 1072, 1089, 1090, 1100, 32, 8212, 32, 1050, 1091, 1079, 1073, 1072, 1089, 1089],
      ''Asia/Novokuznetsk''),  \<comment> \<open>Kemerovskaya oblast' -- Kuzbass\<close>
     ([1040, 1083, 1090, 1072, 1081, 1089, 1082, 1080, 1081, 32, 1082, 1088, 1072, 1081],
      ''Asia/Barnaul''),  \<comment> \<open>Altajskij kraj\<close>
     ([1056, 1077, 1089, 1087, 1091, 1073, 1083, 1080, 1082, 1072, 32, 1040, 1083, 1090, 1072, 1081],
      ''Asia/Barnaul''),  \<comment> \<open>Respublika Altaj\<close>
     ([1050, 1088, 1072, 1089, 1085, 1086, 1103, 1088, 1089, 1082, 1080, 1081, 32, 1082, 1088, 1072, 1081],
      ''Asia/Krasnoyarsk''),  \<comment> \<open>Krasnoyarskij kraj\<close>
     ([1056, 1077, 1089, 1087, 1091, 1073, 1083, 1080, 1082, 1072, 32, 1061, 1072, 1082, 1072, 1089, 1080, 1103],
      ''Asia/Krasnoyarsk''),  \<comment> \<open>Respublika Hakasiya\<close>
     ([1056, 1077, 1089, 1087, 1091, 1073, 1083, 1080, 1082, 1072, 32, 1058, 1099, 1074, 1072],
      ''Asia/Krasnoyarsk''),  \<comment> \<open>Respublika Tyva\<close>
     ([1048, 1088, 1082, 1091, 1090, 1089, 1082, 1072, 1103, 32, 1086, 1073, 1083, 1072, 1089, 1090, 1100],
      ''Asia/Irkutsk''),  \<comment> \<open>Irkutskaya oblast'\<close>
     ([1056, 1077, 1089, 1087, 1091, 1073, 1083, 1080, 1082, 1072, 32, 1041, 1091, 1088, 1103, 1090, 1080, 1103],
      ''Asia/Irkutsk''),  \<comment> \<open>Respublika Buryatiya\<close>
     ([1047, 1072, 1073, 1072, 1081, 1082, 1072, 1083, 1100, 1089, 1082, 1080, 1081, 32, 1082, 1088, 1072, 1081],
      ''Asia/Chita''),  \<comment> \<open>Zabajkal'skij kraj\<close>
     ([1040, 1084, 1091, 1088, 1089, 1082, 1072, 1103, 32, 1086, 1073, 1083, 1072, 1089, 1090, 1100],
      ''Asia/Yakutsk''),  \<comment> \<open>Amurskaya oblast'\<close>
     ([1056, 1077, 1089, 1087, 1091, 1073, 1083, 1080, 1082, 1072, 32, 1057, 1072, 1093, 1072, 32, 40, 1071, 1082, 1091, 1090, 1080, 1103, 41],
      ''Asia/Yakutsk''),  \<comment> \<open>Respublika Saha (Yakutiya)\<close>
     ([1055, 1088, 1080, 1084, 1086, 1088, 1089, 1082, 1080, 1081, 32, 1082, 1088, 1072, 1081],
      ''Asia/Vladivostok''),  \<comment> \<open>Primorskij kraj\<close>
     ([1061, 1072, 1073, 1072, 1088, 1086, 1074, 1089, 1082, 1080, 1081, 32, 1082, 1088, 1072, 1081],
      ''Asia/Vladivostok''),  \<comment> \<open>Habarovskij kraj\<close>
     ([1057, 1072, 1093, 1072, 1083, 1080, 1085, 1089, 1082, 1072, 1103, 32, 1086, 1073, 1083, 1072, 1089, 1090, 1100],
      ''Asia/Sakhalin''),  \<comment> \<open>Sahalinskaya oblast'\<close>
     ([1052, 1072, 1075, 1072, 1076, 1072, 1085, 1089, 1082, 1072, 1103, 32, 1086, 1073, 1083, 1072, 1089, 1090, 1100],
      ''Asia/Magadan''),  \<comment> \<open>Magadanskaya oblast'\<close>
     ([1050, 1072, 1084, 1095, 1072, 1090, 1089, 1082, 1080, 1081, 32, 1082, 1088, 1072, 1081],
      ''Asia/Kamchatka'')]"  \<comment> \<open>Kamchatskij kraj\<close>

text \<open>\<open>REGION_COORDS_MASTER\<close>: the reference points (latitude, longitude in degrees) of
  every region; the first point is the regional centre.\<close>

definition REGION_COORDS_MASTER :: "(ustring \<times> (rat \<times> rat) list) list" where
  "REGION_COORDS_MASTER = [
     ([1052, 1086, 1089, 1082, 1074, 1072],
      [(55.7558, 37.6173), (55.8279, 37.6378), (55.5451, 37.5494), (55.9851, 37.2091)]),  \<comment> \<open>Moskva\<close>
     ([1057, 1072, 1085, 1082, 1090, 45, 1055, 1077, 1090, 1077, 1088, 1073, 1091, 1088, 1075],
      [(59.9343, 30.3351), (60.0513, 30.33), (59.7214, 30.414), (60.007, 29.771)]),  \<comment> \<open>Sankt-Peterburg\<close>
     ([1050, 1072, 1083, 1080, 1085, 1080, 1085, 1075, 1088, 1072, 1076, 1089, 1082, 1072, 1103, 32, 1086, 1073, 1083, 1072, 1089, 1090, 1100],
      [(54.7101, 20.5101), (55.1583, 21.9333), (54.3167, 20.4833), (54.6333, 22.7)]),  \<comment> \<open>Kaliningradskaya oblast'\<close>
     ([1041, 1077, 1083, 1075, 1086, 1088, 1086, 1076, 1089, 1082, 1072, 1103, 32, 1086, 1073, 1083, 1072, 1089, 1090, 1100],
      [(50.595, 36.587), (51.218, 37.868), (50.6, 35.292), (50.183, 36.9)]),  \<comment> \<open>Belgorodskaya oblast'\<close>
     ([1041, 1088, 1103, 1085, 1089, 1082, 1072, 1103, 32, 1086, 1073, 1083, 1072, 1089, 1090, 1100],
      [(53.243, 34.364), (53.791, 33.284), (52.571, 32.039), (52.569, 35.158)]),  \<comment> \<open>Bryanskaya oblast'\<close>
     ([1042, 1083, 1072, 1076, 1080, 1084, 1080, 1088, 1089, 1082, 1072, 1103, 32, 1086, 1073, 1083, 1072, 1089, 1090, 1100],
      [(56.129, 40.406), (56.428, 38.868), (55.58, 42.064), (56.328, 41.312)]),  \<comment> \<open>Vladimirskaya oblast'\<close>
     ([1048, 1074, 1072, 1085, 1086, 1074, 1089, 1082, 1072, 1103, 32, 1086, 1073, 1083, 1072, 1089, 1090, 1100],
      [(56.997, 40.976), (57.466, 41.916), (56.591, 40.354), (57.34, 43.197)]),  \<comment> \<open>Ivanovskaya oblast'\<close>
     ([1050, 1072, 1083, 1091, 1078, 1089, 1082, 1072, 1103, 32, 1086, 1073, 1083, 1072, 1089, 1090, 1100],
      [(54.515, 36.261), (55.22, 36.634), (54.062, 34.298), (53.967, 36.177)]),  \<comment> \<open>Kaluzhskaya oblast'\<close>
     ([1050, 1086, 1089, 1090, 1088, 1086, 1084, 1089, 1082, 1072, 1103, 32, 1086, 1073, 1083, 1072, 1089, 1090, 1100],
      [(57.767, 40.926), (58.552, 46.467), (59.2, 42.283), (57.8, 40.133)]),  \<comment> \<open>Kostromskaya oblast'\<close>
     ([1050, 1091, 1088, 1089, 1082, 1072, 1103, 32, 1086, 1073, 1083, 1072, 1089, 1090, 1100],
      [(51.738, 36.185), (52.333, 35.283), (51.229, 34.453), (51.583, 37.6)]),  \<comment> \<open>Kurskaya oblast'\<close>
     ([1051, 1080, 1087, 1077, 1094, 1082, 1072, 1103, 32, 1086, 1073, 1083, 1072, 1089, 1090, 1100],
      [(52.609, 39.598), (53.25, 38.933), (52.033, 40.1), (52.583, 37.883)]),  \<comment> \<open>Lipeckaya oblast'\<close>
     ([1054, 1088, 1083, 1086, 1074, 1089, 1082, 1072, 1103, 32, 1086, 1073, 1083, 1072, 1089, 1090, 1100],
      [(52.969, 36.068), (53.333, 37.0), (52.367, 35.267), (52.717, 37.867)]),  \<comment> \<open>Orlovskaya oblast'\<close>
     ([1056, 1103, 1079, 1072, 1085, 1089, 1082, 1072, 1103, 32, 1086, 1073, 1083, 1072, 1089, 1090, 1100],
      [(54.626, 39.736), (55.099, 41.416), (53.95, 39.483), (54.267, 38.717)]),  \<comment> \<open>Ryazanskaya oblast'\<close>
     ([1057, 1084, 1086, 1083, 1077, 1085, 1089, 1082, 1072, 1103, 32, 1086, 1073, 1083, 1072, 1089, 1090, 1100],
      [(54.782, 32.045), (55.65, 33.467), (53.917, 31.333), (54.4, 33.25)]),  \<comment> \<open>Smolenskaya oblast'\<close>
     ([1058, 1072, 1084, 1073, 1086, 1074, 1089, 1082, 1072, 1103, 32, 1086, 1073, 1083, 1072, 1089, 1090, 1100],
      [(52.721, 41.452), (53.233, 41.433), (51.817, 42.717), (52.617, 40.05)]),  \<comment> \<open>Tambovskaya oblast'\<close>
     ([1058, 1091, 1083, 1100, 1089, 1082, 1072, 1103, 32, 1086, 1073, 1083, 1072, 1089, 1090, 1100],
      [(54.193, 37.617), (54.068, 38.966), (53.25, 36.567), (53.917, 38.3)]),  \<comment> \<open>Tul'skaya oblast'\<close>
     ([1071, 1088, 1086, 1089, 1083, 1072, 1074, 1089, 1082, 1072, 1103, 32, 1086, 1073, 1083, 1072, 1089, 1090, 1100],
      [(57.626, 39.884), (58.05, 38.833), (57.183, 38.85), (56.733, 38.967)]),  \<comment> \<open>Yaroslavskaya oblast'\<close>
     ([1056, 1077, 1089, 1087, 1091, 1073, 1083, 1080, 1082, 1072, 32, 1040, 1076, 1099, 1075, 1077, 1103],
      [(44.6098, 40.1005), (44.991, 40.178), (44.293, 40.105)]),  \<comment> \<open>Respublika Adygeya\<close>
     ([1056, 1077, 1089, 1087, 1091, 1073, 1083, 1080, 1082, 1072, 32, 1048, 1085, 1075, 1091, 1096, 1077, 1090, 1080, 1103],
      [(43.167, 44.813), (43.217, 44.767), (43.317, 45.0), (42.867, 45.017)]),  \<comment> \<open>Respublika Ingushetiya\<close>
     ([1050, 1072, 1073, 1072, 1088, 1076, 1080, 1085, 1086, 45, 1041, 1072, 1083, 1082, 1072, 1088, 1089, 1082, 1072, 1103, 32, 1056, 1077, 1089, 1087, 1091, 1073, 1083, 1080, 1082, 1072],
      [(43.484, 43.607), (43.6, 44.05), (43.9, 43.133), (43.317, 42.5)]),  \<comment> \<open>Kabardino-Balkarskaya Respublika\<close>
     ([1050, 1072, 1088, 1072, 1095, 1072, 1077, 1074, 1086, 45, 1063, 1077, 1088, 1082, 1077, 1089, 1089, 1082, 1072, 1103, 32, 1056, 1077, 1089, 1087, 1091, 1073, 1083, 1080, 1082, 1072],
      [(44.225, 42.046), (44.223, 41.59), (43.567, 41.267), (43.783, 42.45)]),  \<comment> \<open>Karachaevo-Cherkesskaya Respublika\<close>
     ([1056, 1077, 1089, 1087, 1091, 1073, 1083, 1080, 1082, 1072, 32, 1057, 1077, 1074, 1077, 1088, 1085, 1072, 1103, 32, 1054, 1089, 1077, 1090, 1080, 1103, 32, 8212, 32, 1040, 1083, 1072, 1085, 1080, 1103],
      [(43.024, 44.681), (43.367, 44.317), (42.817, 44.6), (42.717, 43.8)]),  \<comment> \<open>Respublika Severnaya Osetiya -- Alaniya\<close>
     ([1063, 1077, 1095, 1077, 1085, 1089, 1082, 1072, 1103, 32, 1056, 1077, 1089, 1087, 1091, 1073, 1083, 1080, 1082, 1072],
      [(43.318, 45.694), (43.7, 46.567), (43.417, 44.833), (42.717, 46.033)]),  \<comment> \<open>Chechenskaya Respublika\<close>
     ([1056, 1077, 1089, 1087, 1091, 1073, 1083, 1080, 1082, 1072, 32, 1052, 1072, 1088, 1080, 1081, 32, 1069, 1083],
      [(56.634, 47.896), (56.317, 49.983), (56.717, 46.55), (56.083, 47.9)]),  \<comment> \<open>Respublika Marij El\<close>
     ([1056, 1077, 1089, 1087, 1091, 1073, 1083, 1080, 1082, 1072, 32, 1052, 1086, 1088, 1076, 1086, 1074, 1080, 1103],
      [(54.18, 45.186), (54.633, 46.417), (54.7, 43.217), (53.8, 44.45)]),  \<comment> \<open>Respublika Mordoviya\<close>
     ([1063, 1091, 1074, 1072, 1096, 1089, 1082, 1072, 1103, 32, 1056, 1077, 1089, 1087, 1091, 1073, 1083, 1080, 1082, 1072],
      [(56.133, 47.25), (55.5, 47.467), (55.85, 46.333), (55.433, 48.25)]),  \<comment> \<open>Chuvashskaya Respublika\<close>
     ([1053, 1086, 1074, 1075, 1086, 1088, 1086, 1076, 1089, 1082, 1072, 1103, 32, 1086, 1073, 1083, 1072, 1089, 1090, 1100],
      [(58.521, 31.275), (58.383, 33.3), (57.65, 30.317), (57.983, 34.0)]),  \<comment> \<open>Novgorodskaya oblast'\<close>
     ([1055, 1089, 1082, 1086, 1074, 1089, 1082, 1072, 1103, 32, 1086, 1073, 1083, 1072, 1089, 1090, 1100],
      [(57.819, 28.331), (56.283, 29.983), (57.333, 27.817), (58.733, 29.183)]),  \<comment> \<open>Pskovskaya oblast'\<close>
     ([1052, 1086, 1089, 1082, 1086, 1074, 1089, 1082, 1072, 1103, 32, 1086, 1073, 1083, 1072, 1089, 1090, 1100],
      [(55.7558, 37.6173), (56.315, 38.136), (55.432, 38.764), (55.602, 36.855), (56.716, 37.202), (54.887, 37.478), (55.15, 39.516), (56.0, 35.933), (55.933, 38.983)]),  \<comment> \<open>Moskovskaya oblast'\<close>
     ([1051, 1077, 1085, 1080, 1085, 1075, 1088, 1072, 1076, 1089, 1082, 1072, 1103, 32, 1086, 1073, 1083, 1072, 1089, 1090, 1100],
      [(59.9343, 30.3351), (60.716, 33.541), (59.383, 31.983), (59.75, 29.083), (60.533, 28.75), (58.733, 31.1), (59.417, 33.55), (61.0, 30.25), (59.083, 35.1)]),  \<comment> \<open>Leningradskaya oblast'\<close>
     ([1040, 1088, 1093, 1072, 1085, 1075, 1077, 1083, 1100, 1089, 1082, 1072, 1103, 32, 1086, 1073, 1083, 1072, 1089, 1090, 1100],
      [(64.5401, 40.5433), (61.261, 46.653), (65.85, 47.78), (66.08, 43.19), (62.36, 37.6), (71.63, 52.48), (80.75, 58.05), (63.93, 41.76), (63.07, 47.59)]),  \<comment> \<open>Arhangel'skaya oblast'\<close>
     ([1042, 1086, 1083, 1086, 1075, 1086, 1076, 1089, 1082, 1072, 1103, 32, 1086, 1073, 1083, 1072, 1089, 1090, 1100],
      [(59.22, 39.891), (60.75, 38.56), (59.13, 36.43), (60.03, 46.3), (58.98, 35.08), (60.91, 46.31), (58.58, 40.16), (60.13, 35.11), (58.9, 43.1)]),  \<comment> \<open>Vologodskaya oblast'\<close>
     ([1052, 1091, 1088, 1084, 1072, 1085, 1089, 1082, 1072, 1103, 32, 1086, 1073, 1083, 1072, 1089, 1090, 1100],
      [(68.97, 33.074), (67.58, 30.68), (67.62, 38.03), (66.53, 34.57), (69.2, 30.81), (66.07, 39.8), (68.43, 35.9), (67.14, 32.41)]),  \<comment> \<open>Murmanskaya oblast'\<close>
     ([1056, 1077, 1089, 1087, 1091, 1073, 1083, 1080, 1082, 1072, 32, 1050, 1072, 1088, 1077, 1083, 1080, 1103],
      [(61.785, 34.346), (66.3, 31.5), (62.7, 36.5), (61.3, 30.6), (64.21, 30.35), (61.8, 32.76), (63.16, 32.25), (61.7, 36.4)]),  \<comment> \<open>Respublika Kareliya\<close>
     ([1056, 1077, 1089, 1087, 1091, 1073, 1083, 1080, 1082, 1072, 32, 1050, 1086, 1084, 1080],
      [(61.673, 50.809), (67.49, 64.03), (63.56, 53.7), (60.15, 49.58), (65.01, 57.23), (59.58, 49.65), (66.04, 60.15), (62.3, 47.9), (63.2, 59.1)]),  \<comment> \<open>Respublika Komi\<close>
     ([1050, 1088, 1072, 1089, 1085, 1086, 1076, 1072, 1088, 1089, 1082, 1080, 1081, 32, 1082, 1088, 1072, 1081],
      [(45.0355, 38.9753), (43.5855, 39.7203), (44.7244, 37.7678), (45.0178, 41.1236), (46.4069, 38.2736), (43.912, 40.205), (45.922, 40.589), (44.298, 37.319), (44.594, 39.083)]),  \<comment> \<open>Krasnodarskij kraj\<close>
     ([1040, 1089, 1090, 1088, 1072, 1093, 1072, 1085, 1089, 1082, 1072, 1103, 32, 1086, 1073, 1083, 1072, 1089, 1090, 1100],
      [(46.349, 48.04), (48.06, 46.36), (45.7, 47.16), (47.2, 48.8), (47.18, 46.85), (46.2, 49.1), (48.5, 47.5), (45.9, 48.5)]),  \<comment> \<open>Astrahanskaya oblast'\<close>
     ([1042, 1086, 1083, 1075, 1086, 1075, 1088, 1072, 1076, 1089, 1082, 1072, 1103, 32, 1086, 1073, 1083, 1072, 1089, 1090, 1100],
      [(48.708, 44.514), (50.08, 45.4), (48.4, 43.5), (50.5, 42.1), (47.8, 46.8), (51.18, 44.28), (49.6, 46.5), (47.78, 44.83)]),  \<comment> \<open>Volgogradskaya oblast'\<close>
     ([1056, 1086, 1089, 1090, 1086, 1074, 1089, 1082, 1072, 1103, 32, 1086, 1073, 1083, 1072, 1089, 1090, 1100],
      [(47.235, 39.713), (49.03, 42.45), (46.5, 40.2), (48.7, 38.9), (49.9, 41.3), (46.8, 42.7), (47.5, 38.3), (46.4, 38.9)]),  \<comment> \<open>Rostovskaya oblast'\<close>
     ([1053, 1080, 1078, 1077, 1075, 1086, 1088, 1086, 1076, 1089, 1082, 1072, 1103, 32, 1086, 1073, 1083, 1072, 1089, 1090, 1100],
      [(56.296, 43.936), (57.6, 45.9), (55.5, 43.4), (55.3, 45.9), (58.05, 44.9), (56.7, 42.2), (55.0, 42.1), (56.9, 45.1)]),  \<comment> \<open>Nizhegorodskaya oblast'\<close>
     ([1054, 1088, 1077, 1085, 1073, 1091, 1088, 1075, 1089, 1082, 1072, 1103, 32, 1086, 1073, 1083, 1072, 1089, 1090, 1100],
      [(51.768, 55.097), (51.22, 58.56), (52.42, 52.16), (51.48, 61.42), (53.5, 52.8), (50.8, 52.1), (50.7, 56.4), (52.6, 56.5)]),  \<comment> \<open>Orenburgskaya oblast'\<close>
     ([1055, 1077, 1085, 1079, 1077, 1085, 1089, 1082, 1072, 1103, 32, 1086, 1073, 1083, 1072, 1089, 1090, 1100],
      [(53.195, 45.019), (53.8, 46.3), (52.7, 43.1), (54.1, 43.4), (52.5, 45.7), (53.2, 42.6), (53.9, 44.6), (52.9, 44.0)]),  \<comment> \<open>Penzenskaya oblast'\<close>
     ([1057, 1072, 1084, 1072, 1088, 1089, 1082, 1072, 1103, 32, 1086, 1073, 1083, 1072, 1089, 1090, 1100],
      [(53.195, 50.106), (54.4, 51.3), (52.5, 50.3), (53.1, 48.4), (54.1, 49.6), (52.3, 51.7), (53.5, 51.5), (52.9, 51.9)]),  \<comment> \<open>Samarskaya oblast'\<close>
     ([1057, 1072, 1088, 1072, 1090, 1086, 1074, 1089, 1082, 1072, 1103, 32, 1086, 1073, 1083, 1072, 1089, 1090, 1100],
      [(51.533, 46.034), (52.3, 47.8), (51.2, 43.8), (52.8, 45.2), (50.7, 48.3), (52.0, 49.5), (51.6, 48.8), (50.6, 44.8)]),  \<comment> \<open>Saratovskaya oblast'\<close>
     ([1056, 1077, 1089, 1087, 1091, 1073, 1083, 1080, 1082, 1072, 32, 1058, 1072, 1090, 1072, 1088, 1089, 1090, 1072, 1085],
      [(55.796, 49.108), (55.61, 52.31), (54.89, 48.36), (55.2, 50.62), (56.4, 50.4), (54.8, 52.1), (54.1, 49.5), (55.9, 47.5)]),  \<comment> \<open>Respublika Tatarstan\<close>
     ([1059, 1083, 1100, 1103, 1085, 1086, 1074, 1089, 1082, 1072, 1103, 32, 1086, 1073, 1083, 1072, 1089, 1090, 1100],
      [(54.314, 48.403), (54.2, 46.4), (53.1, 47.9), (53.5, 49.6), (55.0, 47.2), (53.9, 50.0), (52.8, 46.9), (54.8, 49.5)]),  \<comment> \<open>Ul'yanovskaya oblast'\<close>
     ([1055, 1077, 1088, 1084, 1089, 1082, 1080, 1081, 32, 1082, 1088, 1072, 1081],
      [(58.01, 56.25), (59.39, 57.0), (57.65, 55.28), (60.41, 56.51), (60.2, 59.1), (57.1, 56.9), (58.6, 54.6), (59.2, 54.8), (56.5, 55.3)]),  \<comment> \<open>Permskij kraj\<close>
     ([1056, 1077, 1089, 1087, 1091, 1073, 1083, 1080, 1082, 1072, 32, 1041, 1072, 1096, 1082, 1086, 1088, 1090, 1086, 1089, 1090, 1072, 1085],
      [(54.735, 55.957), (53.58, 58.63), (56.08, 54.76), (52.7, 55.03), (55.9, 58.1), (52.9, 53.4), (53.6, 53.6), (55.0, 53.8)]),  \<comment> \<open>Respublika Bashkortostan\<close>
     ([1057, 1074, 1077, 1088, 1076, 1083, 1086, 1074, 1089, 1082, 1072, 1103, 32, 1086, 1073, 1083, 1072, 1089, 1090, 1100],
      [(56.838, 60.605), (57.77, 63.3), (59.64, 59.95), (56.5, 58.25), (58.7, 61.6), (56.4, 63.8), (58.1, 58.1), (56.1, 59.1)]),  \<comment> \<open>Sverdlovskaya oblast'\<close>
     ([1058, 1102, 1084, 1077, 1085, 1089, 1082, 1072, 1103, 32, 1086, 1073, 1083, 1072, 1089, 1090, 1100],
      [(57.153, 65.535), (56.15, 69.48), (58.48, 68.25), (56.48, 64.03), (58.3, 70.3), (57.5, 62.5), (55.6, 66.8), (55.8, 68.9)]),  \<comment> \<open>Tyumenskaya oblast'\<close>
     ([1061, 1072, 1085, 1090, 1099, 45, 1052, 1072, 1085, 1089, 1080, 1081, 1089, 1082, 1080, 1081, 32, 1072, 1074, 1090, 1086, 1085, 1086, 1084, 1085, 1099, 1081, 32, 1086, 1082, 1088, 1091, 1075, 32, 8212, 32, 1070, 1075, 1088, 1072],
      [(61.002, 69.018), (60.93, 76.55), (62.13, 66.08), (59.61, 63.58), (63.3, 78.4), (59.9, 71.4), (62.2, 74.5), (61.25, 63.3)]),  \<comment> \<open>Hanty-Mansijskij avtonomnyj okrug -- Yugra\<close>
     ([1063, 1077, 1083, 1103, 1073, 1080, 1085, 1089, 1082, 1072, 1103, 32, 1086, 1073, 1083, 1072, 1089, 1090, 1100],
      [(55.159, 61.402), (53.4, 59.1), (54.1, 62.9), (54.7, 59.1), (56.0, 59.7), (53.1, 61.4), (54.8, 63.0), (55.7, 60.5)]),  \<comment> \<open>Chelyabinskaya oblast'\<close>
     ([1071, 1084, 1072, 1083, 1086, 45, 1053, 1077, 1085, 1077, 1094, 1082, 1080, 1081, 32, 1072, 1074, 1090, 1086, 1085, 1086, 1084, 1085, 1099, 1081, 32, 1086, 1082, 1088, 1091, 1075],
      [(66.535, 66.614), (66.08, 81.25), (70.13, 72.48), (65.25, 78.41), (72.5, 78.5), (63.9, 74.5), (68.1, 74.6), (64.9, 68.4)]),  \<comment> \<open>Yamalo-Neneckij avtonomnyj okrug\<close>
     ([1040, 1083, 1090, 1072, 1081, 1089, 1082, 1080, 1081, 32, 1082, 1088, 1072, 1081],
      [(53.347, 83.778), (52.6, 81.1), (51.5, 84.4), (53.9, 85.9), (53.4, 79.8), (52.0, 85.8), (51.1, 82.2), (52.9, 86.1)]),  \<comment> \<open>Altajskij kraj\<close>
     ([1048, 1088, 1082, 1091, 1090, 1089, 1082, 1072, 1103, 32, 1086, 1073, 1083, 1072, 1089, 1090, 1100],
      [(52.286, 104.281), (56.26, 101.63), (55.08, 98.91), (57.33, 108.11), (59.5, 109.3), (51.8, 104.8), (58.8, 114.9), (54.1, 106.1)]),  \<comment> \<open>Irkutskaya oblast'\<close>
     ([1050, 1077, 1084, 1077, 1088, 1086, 1074, 1089, 1082, 1072, 1103, 32, 1086, 1073, 1083, 1072, 1089, 1090, 1100, 32, 8212, 32, 1050, 1091, 1079, 1073, 1072, 1089, 1089],
      [(55.355, 86.087), (53.75, 87.11), (56.1, 87.9), (54.2, 86.7), (56.8, 86.1), (52.9, 87.2), (55.2, 88.8), (53.2, 85.6)]),  \<comment> \<open>Kemerovskaya oblast' -- Kuzbass\<close>
     ([1053, 1086, 1074, 1086, 1089, 1080, 1073, 1080, 1088, 1089, 1082, 1072, 1103, 32, 1086, 1073, 1083, 1072, 1089, 1090, 1100],
      [(55.008, 82.935), (54.31, 78.33), (56.33, 84.18), (55.43, 75.25), (53.9, 81.8), (56.6, 77.8), (54.5, 84.3), (55.9, 80.4)]),  \<comment> \<open>Novosibirskaya oblast'\<close>
     ([1054, 1084, 1089, 1082, 1072, 1103, 32, 1086, 1073, 1083, 1072, 1089, 1090, 1100],
      [(54.988, 73.368), (56.8, 71.8), (53.9, 74.6), (58.3, 74.3), (55.5, 70.4), (53.4, 72.0), (57.5, 75.2), (56.3, 75.4)]),  \<comment> \<open>Omskaya oblast'\<close>
     ([1058, 1086, 1084, 1089, 1082, 1072, 1103, 32, 1086, 1073, 1083, 1072, 1089, 1090, 1100],
      [(56.501, 84.992), (59.1, 77.1), (57.8, 82.9), (56.9, 86.8), (60.9, 78.3), (55.9, 84.3), (57.4, 86.1), (58.5, 88.2)]),  \<comment> \<open>Tomskaya oblast'\<close>
     ([1056, 1077, 1089, 1087, 1091, 1073, 1083, 1080, 1082, 1072, 32, 1040, 1083, 1090, 1072, 1081],
      [(51.958, 85.96), (49.7, 87.6), (50.9, 84.7), (52.3, 87.3), (50.3, 88.6), (49.4, 85.9), (51.4, 87.2), (50.4, 86.4)]),  \<comment> \<open>Respublika Altaj\<close>
     ([1056, 1077, 1089, 1087, 1091, 1073, 1083, 1080, 1082, 1072, 32, 1041, 1091, 1088, 1103, 1090, 1080, 1103],
      [(51.834, 107.584), (55.8, 109.3), (50.3, 106.4), (53.5, 112.5), (50.4, 103.7), (56.4, 113.5), (52.3, 110.8), (51.5, 116.1)]),  \<comment> \<open>Respublika Buryatiya\<close>
     ([1056, 1077, 1089, 1087, 1091, 1073, 1083, 1080, 1082, 1072, 32, 1058, 1099, 1074, 1072],
      [(51.719, 94.445), (50.6, 90.5), (50.0, 95.9), (53.2, 95.0), (50.7, 97.5), (52.4, 96.1), (50.2, 92.1), (51.5, 96.5)]),  \<comment> \<open>Respublika Tyva\<close>
     ([1056, 1077, 1089, 1087, 1091, 1073, 1083, 1080, 1082, 1072, 32, 1061, 1072, 1082, 1072, 1089, 1080, 1103],
      [(53.719, 91.442), (52.8, 89.8), (54.4, 90.1), (54.5, 91.6), (51.9, 90.3), (53.4, 89.1), (53.1, 91.0)]),  \<comment> \<open>Respublika Hakasiya\<close>
     ([1050, 1088, 1072, 1089, 1085, 1086, 1103, 1088, 1089, 1082, 1080, 1081, 32, 1082, 1088, 1072, 1081],
      [(56.0105, 92.8526), (69.353, 88.202), (58.461, 92.17), (53.721, 91.442), (56.497, 86.148), (66.52, 100.19), (55.355, 95.707), (61.685, 95.839), (53.94, 95.75)]),  \<comment> \<open>Krasnoyarskij kraj\<close>
     ([1040, 1084, 1091, 1088, 1089, 1082, 1072, 1103, 32, 1086, 1073, 1083, 1072, 1089, 1090, 1100],
      [(50.291, 127.527), (55.1, 128.5), (53.9, 124.7), (49.4, 130.4), (51.7, 123.9), (52.8, 132.8), (54.6, 120.9), (50.5, 125.8)]),  \<comment> \<open>Amurskaya oblast'\<close>
     ([1047, 1072, 1073, 1072, 1081, 1082, 1072, 1083, 1100, 1089, 1082, 1080, 1081, 32, 1082, 1088, 1072, 1081],
      [(52.033, 113.5), (53.65, 119.63), (50.53, 116.85), (50.88, 108.76), (56.3, 120.5), (50.2, 119.2), (54.3, 116.7), (51.7, 110.1)]),  \<comment> \<open>Zabajkal'skij kraj\<close>
     ([1050, 1072, 1084, 1095, 1072, 1090, 1089, 1082, 1080, 1081, 32, 1082, 1088, 1072, 1081],
      [(53.045, 158.65), (58.65, 161.3), (55.93, 161.98), (51.53, 156.63), (62.5, 166.1), (53.9, 155.8), (57.1, 156.8), (55.2, 155.6)]),  \<comment> \<open>Kamchatskij kraj\<close>
     ([1052, 1072, 1075, 1072, 1076, 1072, 1085, 1089, 1082, 1072, 1103, 32, 1086, 1073, 1083, 1072, 1089, 1090, 1100],
      [(59.557, 150.808), (62.5, 152.3), (63.0, 147.2), (61.9, 156.1), (64.8, 158.4), (59.6, 145.4), (62.7, 160.0), (60.1, 153.7)]),  \<comment> \<open>Magadanskaya oblast'\<close>
     ([1055, 1088, 1080, 1084, 1086, 1088, 1089, 1082, 1080, 1081, 32, 1082, 1088, 1072, 1081],
      [(43.1332, 131.9113), (45.1667, 136.8833), (44.05, 132.8833), (42.85, 131.14), (42.823, 132.91), (46.13, 134.75), (44.58, 135.53), (43.36, 134.69), (43.76, 135.2)]),  \<comment> \<open>Primorskij kraj\<close>
     ([1057, 1072, 1093, 1072, 1083, 1080, 1085, 1089, 1082, 1072, 1103, 32, 1086, 1073, 1083, 1072, 1089, 1090, 1100],
      [(46.959, 142.738), (50.9, 143.1), (45.9, 142.1), (46.6, 150.9), (53.3, 142.9), (45.1, 147.8), (48.5, 142.7), (43.8, 145.5)]),  \<comment> \<open>Sahalinskaya oblast'\<close>
     ([1061, 1072, 1073, 1072, 1088, 1086, 1074, 1089, 1082, 1080, 1081, 32, 1082, 1088, 1072, 1081],
      [(48.472, 135.088), (52.26, 136.53), (50.25, 136.91), (59.35, 140.48), (56.34, 138.16), (49.03, 140.25), (46.96, 138.25), (51.48, 140.73), (54.08, 132.55)]),  \<comment> \<open>Habarovskij kraj\<close>
     ([1056, 1077, 1089, 1087, 1091, 1073, 1083, 1080, 1082, 1072, 32, 1057, 1072, 1093, 1072, 32, 40, 1071, 1082, 1091, 1090, 1080, 1103, 41],
      [(62.0282, 129.7331), (67.45, 133.383), (70.633, 118.267), (59.367, 112.567), (71.626, 128.869), (63.033, 118.3), (64.567, 143.217), (56.65, 124.7), (69.41, 147.92)])]"  \<comment> \<open>Respublika Saha (Yakutiya)\<close>

text \<open>
  The geographic time-zone index (the optional library timezonefinder) is outside the
  repository. It is a parameter: \<open>None\<close> when the library is not installed, otherwise
  its function \<open>timezone_at\<close>, which answers a point with a zone identifier or nothing.
  \<^verbatim>\<open>
  def region_to_tz(region_name):
      if TIMEZONEFINDER_AVAILABLE and TF is not None:
          coords_list = REGION_COORDS_MASTER.get(region_name)
          if coords_list:
              lat, lon = coords_list[0]
              tz = TF.timezone_at(lat=lat, lon=lon)
              if tz:
                  return tz
      return RU_TZ_BY_REGION.get(region_name, 'Europe/Moscow')
  \<close>
\<close>

type_synonym tzfinder = "(rat \<times> rat \<Rightarrow> string option) option"

definition tz_fallback :: "ustring \<Rightarrow> string" where
  "tz_fallback region_name =
     (case map_of RU_TZ_BY_REGION region_name of
        Some z \<Rightarrow> z
      | None \<Rightarrow> ''Europe/Moscow'')"

definition region_to_tz :: "tzfinder \<Rightarrow> ustring \<Rightarrow> string" where
  "region_to_tz tf region_name =
     (case tf of
        None \<Rightarrow> tz_fallback region_name
      | Some timezone_at \<Rightarrow>
          (case map_of REGION_COORDS_MASTER region_name of
             Some (c # coords) \<Rightarrow>
               (case timezone_at c of
                  Some z \<Rightarrow> if z \<noteq> [] then z else tz_fallback region_name
                | None \<Rightarrow> tz_fallback region_name)
           | _ \<Rightarrow> tz_fallback region_name))"

section \<open>Orchestrator: canonical region, time zone and the two calendar days\<close>

text \<open>
  A survey record as \<open>enrich_data_full\<close> reads it: the region text and the business
  timestamp, already parsed by \<open>pd.to_datetime(errors='coerce')\<close> (\<open>None\<close> is NaT)
  and without time zone, so that the code takes the \<open>tz_localize('Europe/Moscow')\<close>
  branch.
  \<^verbatim>\<open>
  df['region_std'] = df[region_col].map(REGION_GENT_TO_NOM).fillna(df[region_col])
  df['tz'] = df['region_std'].apply(region_to_tz)
  base_msk = ser.dt.tz_localize('Europe/Moscow', ...)
  df['msk_day'] = base_msk.dt.normalize().dt.tz_localize(None)
  df['day_local'] = pd.NaT
  for tz in df['tz'].cat.categories:
      mask = (df['tz'] == tz)
      loc = base_msk[mask].dt.tz_convert(tz)
      df.loc[mask, 'day_local'] = loc.dt.normalize().dt.tz_localize(None)
  \<close>
  The time-zone database is outside the repository: \<open>utc_offset\<close> gives the offset of
  a zone from UTC in seconds, taken as constant over the period of the data. A wall-clock
  time of Moscow is converted to the wall clock of a zone by taking Moscow's offset off
  and adding the zone's.
\<close>

record survey =
  region :: ustring
  business_dt :: "timestamp option"

record localized = survey +
  region_std :: ustring
  tz :: string
  msk_day :: "date option"
  day_local :: "date option"

definition tz_convert :: "(string \<Rightarrow> int) \<Rightarrow> string \<Rightarrow> timestamp \<Rightarrow> timestamp" where
  "tz_convert utc_offset zone t_msk = t_msk - utc_offset ''Europe/Moscow'' + utc_offset zone"

definition localize :: "tzfinder \<Rightarrow> (string \<Rightarrow> int) \<Rightarrow> survey \<Rightarrow> localized" where
  "localize tf utc_offset r =
     (let rs = (case map_of REGION_GENT_TO_NOM (region r) of
                  Some nom \<Rightarrow> nom
                | None \<Rightarrow> region r);
          z = region_to_tz tf rs
      in \<lparr>region = region r, business_dt = business_dt r,
          region_std = rs, tz = z,
          msk_day = map_option normalize (business_dt r),
          day_local = map_option (\<lambda>t. normalize (tz_convert utc_offset z t)) (business_dt r)\<rparr>)"

section \<open>Weather engine: the five-day counts of bad-weather days\<close>

text \<open>
  The rows of the working table, restricted to the columns that
  \<open>add_weather_compact_cats\<close> reads for its rolling counts: \<open>region_std\<close>,
  \<open>day_local\<close>, \<open>msk_day\<close> (here with the prefix \<open>wx_\<close>, and on days that
  are not missing) and the two daily flags (0 or 1).
\<close>

record wrow =
  wx_region_std :: ustring
  wx_day_local :: date
  wx_msk_day :: date
  is_bad_weather :: int
  is_extreme_temp :: int

text \<open>
  \<^verbatim>\<open>
  base = out[base_cols].drop_duplicates().sort_values([region_col, date_col])
  bad_roll5 = base.groupby(region_col)['__is_bad_weather'].shift(1)
                  .rolling(5, min_periods=1).sum().fillna(0)
  base['wth_bad_weather_last5_cat'] = pd.cut(bad_roll5, bins=[-1, 0, 1, 3, 6],
      labels=['0 dnej', '1 den', '2-3 dnya', '4-5 dnej'])
  ext_roll5 = base.groupby(region_col)['__is_extreme_temp'].shift(1)
                  .rolling(5, min_periods=1).sum().fillna(0)
  base['wth_extreme_temp_last5_cat'] = pd.cut(ext_roll5, bins=[-1, 0, 1, 3, 6],
      labels=['0 dnej', '1 den', '2-3 dnya', '4+ dnej'])
  \<close>
  \<open>sort_values\<close> on several columns is a stable lexicographic sort.
\<close>

datatype bad_last5 = bad_0_days | bad_1_day | bad_2_3_days | bad_4_5_days

datatype ext_last5 = ext_0_days | ext_1_day | ext_2_3_days | ext_4_plus_days

definition base :: "wrow list \<Rightarrow> wrow list" where
  "base out = sort_key (\<lambda>r. (wx_region_std r, wx_day_local r)) (drop_duplicates out)"

definition bad_roll5 :: "wrow list \<Rightarrow> int list" where
  "bad_roll5 b =
     fillna 0 (rolling_sum 5 1
       (groupby_shift1 Map.empty (map (\<lambda>r. (wx_region_std r, is_bad_weather r)) b)))"

definition ext_roll5 :: "wrow list \<Rightarrow> int list" where
  "ext_roll5 b =
     fillna 0 (rolling_sum 5 1
       (groupby_shift1 Map.empty (map (\<lambda>r. (wx_region_std r, is_extreme_temp r)) b)))"

definition wth_bad_weather_last5_cat :: "wrow list \<Rightarrow> bad_last5 option list" where
  "wth_bad_weather_last5_cat b =
     map (pd_cut [-1, 0, 1, 3, 6] [bad_0_days, bad_1_day, bad_2_3_days, bad_4_5_days])
       (bad_roll5 b)"

definition wth_extreme_temp_last5_cat :: "wrow list \<Rightarrow> ext_last5 option list" where
  "wth_extreme_temp_last5_cat b =
     map (pd_cut [-1, 0, 1, 3, 6] [ext_0_days, ext_1_day, ext_2_3_days, ext_4_plus_days])
       (ext_roll5 b)"

text \<open>Two regions: Moskva (Moscow) and Sankt-Peterburg (Saint Petersburg).\<close>

definition Moskva :: ustring where
  "Moskva = [1052, 1086, 1089, 1082, 1074, 1072]"

definition Sankt_Peterburg :: ustring where
  "Sankt_Peterburg =
     [1057, 1072, 1085, 1082, 1090, 45, 1055, 1077, 1090, 1077, 1088, 1073, 1091, 1088, 1075]"

text \<open>Five rows of the working table for 2 to 4 January 2024: three days of Moscow,
  whose two flags are both \<open>f\<close>, and the last two days of Saint Petersburg, calm and
  without temperature anomaly.\<close>

definition two_regions :: "int \<Rightarrow> wrow list" where
  "two_regions f =
     [\<lparr>wx_region_std = Sankt_Peterburg, wx_day_local = days_from_civil 2024 1 3,
        wx_msk_day = days_from_civil 2024 1 3, is_bad_weather = 0, is_extreme_temp = 0\<rparr>,
      \<lparr>wx_region_std = Moskva, wx_day_local = days_from_civil 2024 1 2,
        wx_msk_day = days_from_civil 2024 1 2, is_bad_weather = f, is_extreme_temp = f\<rparr>,
      \<lparr>wx_region_std = Moskva, wx_day_local = days_from_civil 2024 1 3,
        wx_msk_day = days_from_civil 2024 1 3, is_bad_weather = f, is_extreme_temp = f\<rparr>,
      \<lparr>wx_region_std = Moskva, wx_day_local = days_from_civil 2024 1 4,
        wx_msk_day = days_from_civil 2024 1 4, is_bad_weather = f, is_extreme_temp = f\<rparr>,
      \<lparr>wx_region_std = Sankt_Peterburg, wx_day_local = days_from_civil 2024 1 4,
        wx_msk_day = days_from_civil 2024 1 4, is_bad_weather = 0, is_extreme_temp = 0\<rparr>]"

section \<open>Calendar engine: non-working days and the long-weekend flag\<close>

text \<open>The two-valued category \<open>{True: 'da', False: 'net'}\<close> (Russian yes / no) that
  main.py uses for its flags.\<close>

datatype yesno = da | net

definition yesno_of :: "bool \<Rightarrow> yesno" where
  "yesno_of b = (if b then da else net)"

text \<open>
  The calendar table \<open>cal_df\<close> has one row per consecutive day of the range. Its columns
  are lists of equal length: \<open>dayofweek\<close> (Monday = 0 .. Sunday = 6) and \<open>is_holiday\<close>
  (0 or 1).
  \<^verbatim>\<open>
  is_weekend = (cal_df.index.dayofweek >= 5).astype(int)
  cal_df['is_nonwork'] = np.maximum(is_weekend, cal_df['is_holiday'])
  end3 = cal_df['is_nonwork'].rolling(3, min_periods=3).sum().eq(3)
  long_any = end3 | end3.shift(1, fill_value=False) | end3.shift(2, fill_value=False)
  cal_df['long_weekend'] = long_any.map({True:'da', False:'net'})
  \<close>
\<close>

definition is_weekend :: "nat list \<Rightarrow> int list" where
  "is_weekend dows = map (\<lambda>w. if 5 \<le> w then 1 else 0) dows"

definition is_nonwork :: "nat list \<Rightarrow> int list \<Rightarrow> int list" where
  "is_nonwork dows is_holiday = map (\<lambda>(w, h). max w h) (zip (is_weekend dows) is_holiday)"

definition end3 :: "int list \<Rightarrow> bool list" where
  "end3 nonwork = map (\<lambda>s. s = Some 3) (rolling_sum 3 3 (map Some nonwork))"

definition long_any :: "int list \<Rightarrow> bool list" where
  "long_any nonwork =
     map (\<lambda>(a, b, c). a \<or> b \<or> c)
       (zip (end3 nonwork)
         (zip (shift_fill 1 False (end3 nonwork)) (shift_fill 2 False (end3 nonwork))))"

definition long_weekend :: "nat list \<Rightarrow> int list \<Rightarrow> yesno list" where
  "long_weekend dows is_holiday = map yesno_of (long_any (is_nonwork dows is_holiday))"

text \<open>The fortnight from Monday 4 March 2024 to Sunday 17 March 2024; Friday 8 March
  (position 4) is a public holiday.\<close>

definition march_2024_dows :: "nat list" where
  "march_2024_dows = [0, 1, 2, 3, 4, 5, 6, 0, 1, 2, 3, 4, 5, 6]"

definition march_2024_holidays :: "int list" where
  "march_2024_holidays = [0, 0, 0, 0, 1, 0, 0, 0, 0, 0, 0, 0, 0, 0]"

subsection \<open>Features of one date\<close>

text \<open>
  The category labels of main.py are Russian words; the constructors below are their
  transliterations: pn-sr (Mon-Wed), cht-pt (Thu-Fri), sb (Sat), vs (Sun); nachalo,
  seredina, konec (start, middle, end of the month); Zima, Vesna, Leto, Osen' (winter,
  spring, summer, autumn); prazdnik, vyhodnoj, rabochij (holiday, weekend, working day).
  \<^verbatim>\<open>
  def map_weekday_bucket(x):
      if pd.isna(x): return 'NA'
      x = int(x)
      if x in (0,1,2): return 'pn-sr'
      if x in (3,4):   return 'cht-pt'
      if x == 5:       return 'sb'
      return 'vs'
  first_dom = d - pd.to_timedelta(d.dt.day - 1, unit='D')
  wom = 1 + ((d.dt.day + first_dom.dt.dayofweek - 1) // 7)
  out['cal_week_of_month'] = wom.clip(lower=1, upper=5).map(
      lambda x: f'W{int(x)}' if pd.notna(x) else 'NA')
  def month_phase(day):
      if pd.isna(day): return 'NA'
      day = int(day)
      if day <= 10: return 'nachalo'
      if day <= 20: return 'seredina'
      return 'konec'
  out['cal_quarter'] = d.dt.quarter.map({1:'Q1',2:'Q2',3:'Q3',4:'Q4'})
  out['cal_season'] = d.dt.month.map(lambda m: 'Zima' if m in (12,1,2) else
      ('Vesna' if m in (3,4,5) else ('Leto' if m in (6,7,8) else 'Osen')))
  \<close>
  A missing date has no month, and a missing month is in none of the three tuples: its
  season is the last alternative.
\<close>

datatype weekday_4 = weekday_NA | pn_sr | cht_pt | sb | vs

datatype week_of_month = week_NA | W int

datatype month_phase3 = phase_NA | nachalo | seredina | konec

datatype quarter = Q1 | Q2 | Q3 | Q4

datatype season = Zima | Vesna | Leto | Osen

definition map_weekday_bucket :: "nat option \<Rightarrow> weekday_4" where
  "map_weekday_bucket x =
     (case x of
        None \<Rightarrow> weekday_NA
      | Some w \<Rightarrow>
          if w = 0 \<or> w = 1 \<or> w = 2 then pn_sr
          else if w = 3 \<or> w = 4 then cht_pt
          else if w = 5 then sb
          else vs)"

definition week_of_month_cat :: "date option \<Rightarrow> week_of_month" where
  "week_of_month_cat d =
     (case d of
        None \<Rightarrow> week_NA
      | Some n \<Rightarrow>
          (let first_dom = n - (day_of n - 1);
               wom = 1 + (day_of n + int (dayofweek first_dom) - 1) div 7
           in W (min 5 (max 1 wom))))"

definition month_phase :: "int option \<Rightarrow> month_phase3" where
  "month_phase day =
     (case day of
        None \<Rightarrow> phase_NA
      | Some k \<Rightarrow> if k \<le> 10 then nachalo else if k \<le> 20 then seredina else konec)"

definition quarter_cat :: "date option \<Rightarrow> quarter option" where
  "quarter_cat d =
     (case d of
        None \<Rightarrow> None
      | Some n \<Rightarrow>
          (let q = (month_of n - 1) div 3 + 1
           in if q = 1 then Some Q1 else if q = 2 then Some Q2
              else if q = 3 then Some Q3 else if q = 4 then Some Q4 else None))"

definition season_cat :: "int option \<Rightarrow> season" where
  "season_cat month =
     (case month of
        None \<Rightarrow> Osen
      | Some m \<Rightarrow>
          if m = 12 \<or> m = 1 \<or> m = 2 then Zima
          else if m = 3 \<or> m = 4 \<or> m = 5 then Vesna
          else if m = 6 \<or> m = 7 \<or> m = 8 then Leto
          else Osen)"

text \<open>
  \<^verbatim>\<open>
  def school_break_ext(dt):
      if pd.isna(dt): return 'net'
      m, day = int(dt.month), int(dt.day)
      if m == 1 and day <= 9: return 'zima'
      if m == 3 and day >= 25: return 'vesna'
      if (m == 10 and day >= 26) or (m == 11 and day <= 4): return 'osen'
      if m in (6,7,8): return 'leto'
      return 'net'
  day = d.dt.day
  dist_to_10 = np.minimum(abs(day - 10), abs(day - 10 - d.dt.days_in_month))
  dist_to_25 = np.minimum(abs(day - 25), abs(day - 25 - d.dt.days_in_month))
  min_dist = np.minimum(dist_to_10, dist_to_25)
  def payday_prox_cat(dv):
      if pd.isna(dv): return 'daleko'
      if dv == 0: return 'den vyplaty'
      if dv <= 2: return 'ryadom (+-2 dnya)'
      if dv <= 7: return 'nedelya do/posle'
      return 'daleko'
  \<close>
\<close>

datatype school_break = break_net | break_zima | break_vesna | break_osen | break_leto

datatype payday = den_vyplaty | ryadom_2_dnya | nedelya_do_posle | daleko

definition school_break_ext :: "date option \<Rightarrow> school_break" where
  "school_break_ext dt =
     (case dt of
        None \<Rightarrow> break_net
      | Some n \<Rightarrow>
          (let m = month_of n; day = day_of n
           in if m = 1 \<and> day \<le> 9 then break_zima
              else if m = 3 \<and> 25 \<le> day then break_vesna
              else if (m = 10 \<and> 26 \<le> day) \<or> (m = 11 \<and> day \<le> 4) then break_osen
              else if m = 6 \<or> m = 7 \<or> m = 8 then break_leto
              else break_net))"

definition min_dist :: "date option \<Rightarrow> int option" where
  "min_dist d =
     (case d of
        None \<Rightarrow> None
      | Some n \<Rightarrow>
          (let day = day_of n;
               dist_to_10 = min \<bar>day - 10\<bar> \<bar>day - 10 - days_in_month n\<bar>;
               dist_to_25 = min \<bar>day - 25\<bar> \<bar>day - 25 - days_in_month n\<bar>
           in Some (min dist_to_10 dist_to_25)))"

definition payday_prox_cat :: "int option \<Rightarrow> payday" where
  "payday_prox_cat dv =
     (case dv of
        None \<Rightarrow> daleko
      | Some v \<Rightarrow>
          if v = 0 then den_vyplaty
          else if v \<le> 2 then ryadom_2_dnya
          else if v \<le> 7 then nedelya_do_posle
          else daleko)"

subsection \<open>The table of the days of the range\<close>

text \<open>
  The national holiday calendar (the library \<open>holidays\<close>) is outside the repository. It
  is the parameter \<open>ru_hol\<close>: the name of the holiday of a date, if the date is one.
  \<^verbatim>\<open>
  cal_dates = pd.date_range(d.min(), d.max(), freq='D') if d.notna().any()
              else pd.DatetimeIndex([])
  cal_df['is_holiday'] = ... 1 if x.date() in ru_hol else 0
  cal_df['hol_name'] = ... ru_hol.get(x.date(), '')
  def map_holiday_type(name):
      if not name or str(name).strip()=='':
          return 'net'
      low = str(name).lower()
      majors = ['novyj god', '23 fevralya', '8 marta', '1 maya', 'den pobedy',
                '9 maya', 'den rossii', '12 iyunya', '4 noyabrya']
      for m in majors:
          if m in low: return 'fed_klyuchevoj'
      if 'pash' in low: return 'relig_pasha'
      return 'prochij'
  \<close>
\<close>

definition cal_dates :: "date series \<Rightarrow> date list" where
  "cal_dates d =
     (case observed d of
        [] \<Rightarrow> []
      | x # xs \<Rightarrow> [fold min xs x .. fold max xs x])"

datatype holiday_type4 = hol_net | fed_klyuchevoj | relig_pasha | prochij

definition majors :: "ustring list" where
  "majors =
     [[1085, 1086, 1074, 1099, 1081, 32, 1075, 1086, 1076],  \<comment> \<open>novyj god\<close>
      [50, 51, 32, 1092, 1077, 1074, 1088, 1072, 1083, 1103],  \<comment> \<open>23 fevralya\<close>
      [56, 32, 1084, 1072, 1088, 1090, 1072],  \<comment> \<open>8 marta\<close>
      [49, 32, 1084, 1072, 1103],  \<comment> \<open>1 maya\<close>
      [1076, 1077, 1085, 1100, 32, 1087, 1086, 1073, 1077, 1076, 1099],  \<comment> \<open>den' pobedy\<close>
      [57, 32, 1084, 1072, 1103],  \<comment> \<open>9 maya\<close>
      [1076, 1077, 1085, 1100, 32, 1088, 1086, 1089, 1089, 1080, 1080],  \<comment> \<open>den' rossii\<close>
      [49, 50, 32, 1080, 1102, 1085, 1103],  \<comment> \<open>12 iyunya\<close>
      [52, 32, 1085, 1086, 1103, 1073, 1088, 1103]]  \<comment> \<open>4 noyabrya\<close>"

definition pash :: ustring where
  "pash = [1087, 1072, 1089, 1093]"

definition map_holiday_type :: "ustring \<Rightarrow> holiday_type4" where
  "map_holiday_type name =
     (if name = [] \<or> strip name = [] then hol_net
      else let low = py_lower name
           in if list_ex (contains low) majors then fed_klyuchevoj
              else if contains low pash then relig_pasha
              else prochij)"

definition is_holiday :: "(date \<Rightarrow> ustring option) \<Rightarrow> date list \<Rightarrow> int list" where
  "is_holiday ru_hol dates = map (\<lambda>x. if ru_hol x \<noteq> None then 1 else 0) dates"

definition hol_name :: "(date \<Rightarrow> ustring option) \<Rightarrow> date list \<Rightarrow> ustring list" where
  "hol_name ru_hol dates = map (\<lambda>x. case ru_hol x of None \<Rightarrow> [] | Some s \<Rightarrow> s) dates"

text \<open>
  \<^verbatim>\<open>
  cal_df['i'] = np.arange(len(cal_df))
  cal_df['prev_h_i'] = np.where(cal_df['is_holiday']==1, cal_df['i'], np.nan)
  cal_df['prev_h_i'] = cal_df['prev_h_i'].ffill()
  cal_df['d_prev'] = (cal_df['i'] - cal_df['prev_h_i']).fillna(9999)
  cal_df['next_h_i'] = np.where(cal_df['is_holiday']==1, cal_df['i'], np.nan)
  cal_df['next_h_i'] = cal_df['next_h_i'].bfill()
  cal_df['d_next'] = (cal_df['next_h_i'] - cal_df['i']).fillna(9999)
  def nearest_delta(row):
      if row['is_holiday'] == 1: return 0
      a, b = row['d_prev'], row['d_next']
      return int(a) if abs(a) <= abs(b) else int(b)
  def prox_cat(v):
      if v == 0:  return 'H0'
      elif v == -1: return 'H-1'
      elif v == -2: return 'H-2'
      elif v == 1:  return 'H+1'
      elif v == 2:  return 'H+2'
      else:        return 'net_ryadom'
  \<close>
\<close>

datatype holiday_window5 = H0 | H_minus_1 | H_minus_2 | H_plus_1 | H_plus_2 | net_ryadom

definition d_prev :: "int list \<Rightarrow> nat \<Rightarrow> int" where
  "d_prev hol i =
     (case filter (\<lambda>j. hol ! j = 1) (rev [0..<Suc i]) of
        [] \<Rightarrow> 9999
      | j # js \<Rightarrow> int i - int j)"

definition d_next :: "int list \<Rightarrow> nat \<Rightarrow> int" where
  "d_next hol i =
     (case filter (\<lambda>j. hol ! j = 1) [i..<length hol] of
        [] \<Rightarrow> 9999
      | j # js \<Rightarrow> int j - int i)"

definition nearest_delta :: "int list \<Rightarrow> nat \<Rightarrow> int" where
  "nearest_delta hol i =
     (if hol ! i = 1 then 0
      else let a = d_prev hol i; b = d_next hol i
           in if \<bar>a\<bar> \<le> \<bar>b\<bar> then a else b)"

definition prox_cat :: "int \<Rightarrow> holiday_window5" where
  "prox_cat v =
     (if v = 0 then H0
      else if v = - 1 then H_minus_1
      else if v = - 2 then H_minus_2
      else if v = 1 then H_plus_1
      else if v = 2 then H_plus_2
      else net_ryadom)"

text \<open>
  \<^verbatim>\<open>
  cal_df['blue_monday'] = np.where(
      (cal_df.index.dayofweek == 0) & (cal_df['long_weekend'].shift(1).eq('da')),
      'da', 'net')
  \<close>
\<close>

definition blue_monday :: "nat list \<Rightarrow> yesno list \<Rightarrow> yesno list" where
  "blue_monday dows lw =
     map (\<lambda>(w, p). yesno_of (w = 0 \<and> p = Some da)) (zip dows (shift 1 (map Some lw)))"

text \<open>One row of \<open>cal_df\<close>, with the columns that are joined to the records.\<close>

record cal_row =
  cd_is_holiday :: int
  cd_hol_type4 :: holiday_type4
  cd_holiday_prox :: holiday_window5
  cd_long_weekend :: yesno
  cd_blue_monday :: yesno

definition cal_df :: "(date \<Rightarrow> ustring option) \<Rightarrow> date list \<Rightarrow> (date \<times> cal_row) list" where
  "cal_df ru_hol dates =
     (let hol = is_holiday ru_hol dates;
          types = map map_holiday_type (hol_name ru_hol dates);
          dows = map dayofweek dates;
          lw = long_weekend dows hol;
          bm = blue_monday dows lw
      in map (\<lambda>i. (dates ! i,
                    \<lparr>cd_is_holiday = hol ! i, cd_hol_type4 = types ! i,
                     cd_holiday_prox = prox_cat (nearest_delta hol i),
                     cd_long_weekend = lw ! i, cd_blue_monday = bm ! i\<rparr>))
           [0..<length dates])"

subsection \<open>The calendar features of the records\<close>

text \<open>
  \<^verbatim>\<open>
  def add_calendar_compact_features(df, date_col_local='day_local', date_col_msk='msk_day'):
      out = df.copy()
      d = pd.to_datetime(out[date_col_msk] if date_col_msk in out.columns
                         else out[date_col_local], errors='coerce')
      ...
      if len(cal_dates) > 0:
          ...
          tmp = pd.DataFrame({'msk_key': d}).merge(
              cal_df[['is_holiday','hol_type4','holiday_prox','long_weekend','blue_monday']],
              left_on='msk_key', right_index=True, how='left')
          out['cal_holiday_type4']  = tmp['hol_type4'].fillna('net')
          out['cal_holiday_window5'] = tmp['holiday_prox'].fillna('net_ryadom')
          out['cal_long_weekend']    = tmp['long_weekend'].fillna('net')
          weekend = d.dt.dayofweek >= 5
          def day_type(is_h, is_w):
              if is_h == 1: return 'prazdnik'
              if is_w: return 'vyhodnoj'
              return 'rabochij'
          out['cal_day_type3'] = [day_type(h, w) for h, w in
                                  zip(tmp['is_holiday'].fillna(0).astype(int), weekend)]
          out['cal_is_blue_monday'] = tmp['blue_monday'].fillna('net')
      else:
          out[[...five columns...]] = pd.DataFrame(
              [['net', 'net_ryadom', 'net', 'rabochij', 'net']], index=out.index)
  \<close>
  The function is given the column of Moscow days when the table has one (\<open>Some\<close>), and
  the column of local days. In the last branch the one-row frame is given the index of
  the whole table, which the data-frame library accepts only for a table of one row:
  for any other table this is a \<open>ValueError\<close>.
\<close>

datatype day_type3 = prazdnik | vyhodnoj | rabochij

datatype error = ValueError | IndexError

record cal_features =
  cal_day_type3 :: day_type3
  cal_weekday_4 :: weekday_4
  cal_week_of_month :: week_of_month
  cal_month_phase3 :: month_phase3
  cal_quarter :: "quarter option"
  cal_season :: season
  cal_holiday_type4 :: holiday_type4
  cal_holiday_window5 :: holiday_window5
  cal_long_weekend :: yesno
  cal_school_break_ext :: school_break
  cal_payday_proximity :: payday
  cal_is_blue_monday :: yesno

definition day_type :: "int \<Rightarrow> bool \<Rightarrow> day_type3" where
  "day_type is_h is_w = (if is_h = 1 then prazdnik else if is_w then vyhodnoj else rabochij)"

definition weekend :: "date option \<Rightarrow> bool" where
  "weekend d = (case d of None \<Rightarrow> False | Some n \<Rightarrow> 5 \<le> dayofweek n)"

text \<open>The features of one record whose date is \<open>d\<close>, given the table of the days
  of the range (empty when there is none).\<close>

definition calendar_features :: "(date \<times> cal_row) list \<Rightarrow> date option \<Rightarrow> cal_features" where
  "calendar_features cal d =
     (let tmp = (case d of None \<Rightarrow> None | Some n \<Rightarrow> map_of cal n)
      in \<lparr>cal_day_type3 =
            (if cal = [] then rabochij
             else day_type (case tmp of None \<Rightarrow> 0 | Some c \<Rightarrow> cd_is_holiday c) (weekend d)),
          cal_weekday_4 = map_weekday_bucket (map_option dayofweek d),
          cal_week_of_month = week_of_month_cat d,
          cal_month_phase3 = month_phase (map_option day_of d),
          cal_quarter = quarter_cat d,
          cal_season = season_cat (map_option month_of d),
          cal_holiday_type4 = (case tmp of None \<Rightarrow> hol_net | Some c \<Rightarrow> cd_hol_type4 c),
          cal_holiday_window5 = (case tmp of None \<Rightarrow> net_ryadom | Some c \<Rightarrow> cd_holiday_prox c),
          cal_long_weekend = (case tmp of None \<Rightarrow> net | Some c \<Rightarrow> cd_long_weekend c),
          cal_school_break_ext = school_break_ext d,
          cal_payday_proximity = payday_prox_cat (min_dist d),
          cal_is_blue_monday = (case tmp of None \<Rightarrow> net | Some c \<Rightarrow> cd_blue_monday c)\<rparr>)"

definition add_calendar_compact_features ::
  "(date \<Rightarrow> ustring option) \<Rightarrow> date series option \<Rightarrow> date series
     \<Rightarrow> error + cal_features list" where
  "add_calendar_compact_features ru_hol msk_col local_col =
     (let d = (case msk_col of Some msk \<Rightarrow> msk | None \<Rightarrow> local_col);
          dates = cal_dates d
      in if dates = [] \<and> length d \<noteq> 1 then Inl ValueError
         else Inr (map (calendar_features (cal_df ru_hol dates)) d))"

text \<open>The orchestrator calls the calendar engine on its working table, which has both
  date columns:
  \<^verbatim>\<open>
  df = add_calendar_compact_features(df)
  \<close>\<close>

definition enrich_calendar ::
  "tzfinder \<Rightarrow> (string \<Rightarrow> int) \<Rightarrow> (date \<Rightarrow> ustring option) \<Rightarrow> survey list
     \<Rightarrow> error + cal_features list" where
  "enrich_calendar tf utc_offset ru_hol df =
     (let rows = map (localize tf utc_offset) df
      in add_calendar_compact_features ru_hol (Some (map msk_day rows)) (map day_local rows))"

section \<open>Geomagnetic engine\<close>

text \<open>
  The two index files hold parallel arrays of timestamps and values. A value is a
  rational number here (the rounding of floating-point numbers is left out).
  \<^verbatim>\<open>
  def load_magnetic_indices(kp_path, ap_path):
      def load_json_index(filepath): ...
          df['date'] = df['datetime'].dt.date
      kp_df = load_json_index(kp_path)
      ap_df = load_json_index(ap_path)
      kp_daily = kp_df.groupby('date')['value'].mean().rename('Kp_daily')
      ap_daily = ap_df.groupby('date')['value'].mean().rename('ap_daily')
      mag_df = pd.concat([kp_daily, ap_daily], axis=1).reset_index()
  \<close>
  A file that cannot be read or parsed raises an exception; it is \<open>None\<close> here, and so
  is then the result. Of \<open>mag_df\<close> the model keeps the two columns that are used, the
  date and the daily Kp, which is missing on a date that only the ap file has.
\<close>

type_synonym readings = "(timestamp \<times> rat) list"

definition mean :: "rat list \<Rightarrow> rat" where
  "mean xs = sum_list xs / of_nat (length xs)"

definition daily_mean :: "readings \<Rightarrow> (date \<times> rat) list" where
  "daily_mean rs =
     map (\<lambda>d. (d, mean (map snd (filter (\<lambda>r. normalize (fst r) = d) rs))))
       (sort (remdups (map (\<lambda>r. normalize (fst r)) rs)))"

definition load_magnetic_indices ::
  "readings option \<Rightarrow> readings option \<Rightarrow> (date \<times> rat option) list option" where
  "load_magnetic_indices kp_file ap_file =
     (case (kp_file, ap_file) of
        (Some kp_df, Some ap_df) \<Rightarrow>
          (let kp_daily = daily_mean kp_df; ap_daily = daily_mean ap_df
           in Some (map (\<lambda>d. (d, map_of kp_daily d))
                     (sort (remdups (map fst kp_daily @ map fst ap_daily)))))
      | _ \<Rightarrow> None)"

text \<open>
  \<^verbatim>\<open>
  def classify_storm_level(kp):
      if kp <= 4: return 'spokojno'
      elif kp <= 5: return 'slabaya burya'
      elif kp <= 6: return 'umerennaya burya'
      elif kp <= 8: return 'sil'naya burya'
      else: return 'ekstremal'naya burya'
  def classify_change(change):
      if pd.isna(change): return 'net dannyh'
      if change > 1.5: return 'rezkij rost'
      elif change > 0.5: return 'rost'
      elif change < -1.5: return 'rezkoe padenie'
      elif change < -0.5: return 'padenie'
      else: return 'stabil'no'
  \<close>
  (calm, weak, moderate, strong, extreme storm; no data, sharp rise, rise, sharp fall,
  fall, stable). Every comparison with a missing value is false, so a missing Kp falls
  through to the last branch of \<open>classify_storm_level\<close>. The label 'dannye nedostupny'
  (data unavailable) is what both columns hold when the files cannot be loaded.
\<close>

datatype storm_level =
  spokojno | slabaya_burya | umerennaya_burya | silnaya_burya | ekstremalnaya_burya
  | level_dannye_nedostupny

datatype storm_change =
  net_dannyh | rezkij_rost | rost | rezkoe_padenie | padenie | stabilno
  | change_dannye_nedostupny

definition classify_storm_level :: "rat option \<Rightarrow> storm_level" where
  "classify_storm_level kp =
     (case kp of
        None \<Rightarrow> ekstremalnaya_burya
      | Some k \<Rightarrow>
          if k \<le> 4 then spokojno
          else if k \<le> 5 then slabaya_burya
          else if k \<le> 6 then umerennaya_burya
          else if k \<le> 8 then silnaya_burya
          else ekstremalnaya_burya)"

definition classify_change :: "rat option \<Rightarrow> storm_change" where
  "classify_change change =
     (case change of
        None \<Rightarrow> net_dannyh
      | Some c \<Rightarrow>
          if c > 1.5 then rezkij_rost
          else if c > 0.5 then rost
          else if c < - 1.5 then rezkoe_padenie
          else if c < - 0.5 then padenie
          else stabilno)"

text \<open>\<open>s.median()\<close>: the median of the observed values, missing when there is none.\<close>

definition median :: "rat list \<Rightarrow> rat option" where
  "median xs =
     (let s = sort xs; n = length s
      in if n = 0 then None
         else if odd n then Some (s ! (n div 2))
         else Some ((s ! (n div 2 - 1) + s ! (n div 2)) / 2))"

text \<open>The key of \<open>sort_values\<close> on a column of days: ascending, missing days last.\<close>

definition na_last :: "date option \<Rightarrow> nat \<times> int" where
  "na_last d = (case d of None \<Rightarrow> (1, 0) | Some n \<Rightarrow> (0, n))"

text \<open>
  \<^verbatim>\<open>
  def add_magnetic_storm_features(df, kp_path, ap_path, date_col_msk='msk_day'):
      try:
          mag_df = load_magnetic_indices(kp_path, ap_path)
      except Exception as e:
          df['mag_storm_level_cat'] = 'dannye nedostupny'
          df['mag_storm_change_cat'] = 'dannye nedostupny'
          return df
      df = df.merge(mag_df[['date', 'Kp_daily']], left_on=date_col_msk, right_on='date',
                    how='left')
      df['Kp_daily'] = df['Kp_daily'].fillna(df['Kp_daily'].median())
      df['mag_storm_level_cat'] = df['Kp_daily'].apply(classify_storm_level)
      df = df.sort_values(date_col_msk).reset_index(drop=True)
      df['Kp_prev'] = df['Kp_daily'].shift(1)
      df['Kp_change'] = df['Kp_daily'] - df['Kp_prev']
      df['mag_storm_change_cat'] = df['Kp_change'].apply(classify_change)
  \<close>
  A row of the table is its Moscow day with the rest of its columns. The result lists
  the rows in their new order, each with its two new categories. The sort is taken as
  stable.
\<close>

definition add_magnetic_storm_features ::
  "(date \<times> rat option) list option \<Rightarrow> (date option \<times> 'a) list
     \<Rightarrow> ((date option \<times> 'a) \<times> storm_level \<times> storm_change) list" where
  "add_magnetic_storm_features mag df =
     (case mag of
        None \<Rightarrow> map (\<lambda>r. (r, level_dannye_nedostupny, change_dannye_nedostupny)) df
      | Some mag_df \<Rightarrow>
          (let merged = map (\<lambda>r. case fst r of
                                   None \<Rightarrow> None
                                 | Some d \<Rightarrow> (case map_of mag_df d of
                                               None \<Rightarrow> None
                                             | Some v \<Rightarrow> v)) df;
               med = median (observed merged);
               Kp_daily = map (\<lambda>v. case v of None \<Rightarrow> med | Some x \<Rightarrow> Some x) merged;
               sorted = sort_key (\<lambda>rk. na_last (fst (fst rk))) (zip df Kp_daily);
               kp = map snd sorted;
               Kp_change = map (\<lambda>(a, b). case (a, b) of
                                          (Some x, Some y) \<Rightarrow> Some (x - y)
                                        | _ \<Rightarrow> None) (zip kp (shift 1 kp))
           in map (\<lambda>(rk, c). (fst rk, classify_storm_level (snd rk), classify_change c))
                (zip sorted Kp_change)))"

section \<open>Astronomical engine: longitude, speed and the retrograde flags\<close>

text \<open>
  The ephemeris (the library ephem) is outside the repository. It is the parameter
  \<open>ecl_lon\<close>: the ecliptic longitude of a body at a date, in radians; a date is a real
  number of days. Floating-point numbers are taken as real numbers.
  \<^verbatim>\<open>
  PLANETS_TO_TRACK = ['Mercury', 'Venus', 'Mars', 'Jupiter', 'Saturn', 'Uranus',
                      'Neptune', 'Pluto']
  def get_planet_details(planet_name, ephem_date):
      planet_obj = planet_map[planet_name](); planet_obj.compute(ephem_date)
      ecl = ephem.Ecliptic(planet_obj); lon = ecl.lon
      speed = 0.0
      if planet_name not in ['Sun', 'Moon']:
          planet_obj.compute(ephem_date - 0.5); lon1 = ephem.Ecliptic(planet_obj).lon
          planet_obj.compute(ephem_date + 0.5); lon2 = ephem.Ecliptic(planet_obj).lon
          speed = np.degrees(lon2 - lon1)
          if speed > 180: speed -= 360
          elif speed < -180: speed += 360
      signs = ['Oven','Telec','Bliznecy','Rak','Lev','Deva','Vesy','Skorpion',
               'Strelec','Kozerog','Vodolej','Ryby']
      sign_name = signs[int(np.degrees(lon) // 30)]
      return {'speed': float(speed), 'sign': sign_name, 'lon': lon}
  \<close>
  Indexing a Python list counts a negative index from the end and raises an
  \<open>IndexError\<close> outside the list.
\<close>

datatype body = Sun | Moon | Mercury | Venus | Mars | Jupiter | Saturn | Uranus | Neptune | Pluto

definition PLANETS_TO_TRACK :: "body list" where
  "PLANETS_TO_TRACK = [Mercury, Venus, Mars, Jupiter, Saturn, Uranus, Neptune, Pluto]"

datatype zodiac =
  Oven | Telec | Bliznecy | Rak | Lev | Deva | Vesy | Skorpion | Strelec | Kozerog
  | Vodolej | Ryby

definition signs :: "zodiac list" where
  "signs = [Oven, Telec, Bliznecy, Rak, Lev, Deva, Vesy, Skorpion, Strelec, Kozerog,
            Vodolej, Ryby]"

definition py_index :: "'a list \<Rightarrow> int \<Rightarrow> error + 'a" where
  "py_index xs i =
     (if 0 \<le> i \<and> i < int (length xs) then Inr (xs ! nat i)
      else if - int (length xs) \<le> i \<and> i < 0 then Inr (xs ! nat (int (length xs) + i))
      else Inl IndexError)"

definition degrees :: "real \<Rightarrow> real" where
  "degrees x = x * 180 / pi"

definition wrap_speed :: "real \<Rightarrow> real" where
  "wrap_speed s = (if s > 180 then s - 360 else if s < - 180 then s + 360 else s)"

record planet_details =
  speed :: real
  sign :: zodiac
  lon :: real

definition get_planet_details ::
  "(body \<Rightarrow> real \<Rightarrow> real) \<Rightarrow> body \<Rightarrow> real \<Rightarrow> error + planet_details" where
  "get_planet_details ecl_lon planet_name ephem_date =
     (let l = ecl_lon planet_name ephem_date;
          s = (if planet_name \<noteq> Sun \<and> planet_name \<noteq> Moon
               then wrap_speed (degrees (ecl_lon planet_name (ephem_date + 0.5)
                                          - ecl_lon planet_name (ephem_date - 0.5)))
               else 0)
      in case py_index signs \<lfloor>degrees l / 30\<rfloor> of
           Inl e \<Rightarrow> Inl e
         | Inr sign_name \<Rightarrow> Inr \<lparr>speed = s, sign = sign_name, lon = l\<rparr>)"

text \<open>
  The loop of \<open>get_astro_cats_only\<close> over the tracked planets, at the date \<open>d\<close> of
  the local noon and the day before it:
  \<^verbatim>\<open>
  is_retro_any, is_station_any, is_ingress_any = 0, 0, 0
  is_retro_mercury = 0
  for p_name in PLANETS_TO_TRACK:
      today, yesterday = get_planet_details(p_name, d), get_planet_details(p_name, d_prev)
      if today['speed'] < 0:
          is_retro_any = 1
          if p_name == 'Mercury': is_retro_mercury = 1
      if (today['speed'] < 0) != (yesterday['speed'] < 0): is_station_any = 1
      if today['sign'] != yesterday['sign']: is_ingress_any = 1
  \<close>
\<close>

record retro_flags =
  is_retro_any :: nat
  is_station_any :: nat
  is_ingress_any :: nat
  is_retro_mercury :: nat

definition no_flags :: retro_flags where
  "no_flags = \<lparr>is_retro_any = 0, is_station_any = 0, is_ingress_any = 0, is_retro_mercury = 0\<rparr>"

definition retro_step ::
  "(body \<Rightarrow> real \<Rightarrow> real) \<Rightarrow> real \<Rightarrow> retro_flags \<Rightarrow> body \<Rightarrow> error + retro_flags" where
  "retro_step ecl_lon d fl p_name =
     (case get_planet_details ecl_lon p_name d of
        Inl e \<Rightarrow> Inl e
      | Inr today \<Rightarrow>
          (case get_planet_details ecl_lon p_name (d - 1) of
             Inl e \<Rightarrow> Inl e
           | Inr yesterday \<Rightarrow>
               (let fl1 = (if speed today < 0
                           then fl\<lparr>is_retro_any := 1,
                                  is_retro_mercury :=
                                    (if p_name = Mercury then 1 else is_retro_mercury fl)\<rparr>
                           else fl);
                    fl2 = (if (speed today < 0) \<noteq> (speed yesterday < 0)
                           then fl1\<lparr>is_station_any := 1\<rparr> else fl1)
                in Inr (if sign today \<noteq> sign yesterday
                        then fl2\<lparr>is_ingress_any := 1\<rparr> else fl2))))"

fun retro_loop ::
  "(body \<Rightarrow> real \<Rightarrow> real) \<Rightarrow> real \<Rightarrow> retro_flags \<Rightarrow> body list \<Rightarrow> error + retro_flags" where
  "retro_loop ecl_lon d fl [] = Inr fl"
| "retro_loop ecl_lon d fl (p_name # rest) =
     (case retro_step ecl_lon d fl p_name of
        Inl e \<Rightarrow> Inl e
      | Inr fl' \<Rightarrow> retro_loop ecl_lon d fl' rest)"

text \<open>The specification's speed of a body: the longitude half a day after the date
  minus the longitude half a day before it, in degrees, brought back by one turn when
  it leaves the range from -180 to 180.\<close>

definition half_day_difference :: "(body \<Rightarrow> real \<Rightarrow> real) \<Rightarrow> body \<Rightarrow> real \<Rightarrow> real" where
  "half_day_difference ecl_lon p d =
     wrap_speed (degrees (ecl_lon p (d + 1 / 2) - ecl_lon p (d - 1 / 2)))"

section \<open>News engine: topic groups and the compression of security updates\<close>

subsection \<open>Text operations\<close>

text \<open>\<open>s.replace(old, new)\<close> for a non-empty \<open>old\<close>: the occurrences of \<open>old\<close> are
  replaced from left to right, without overlap.\<close>

fun replace :: "ustring \<Rightarrow> ustring \<Rightarrow> ustring \<Rightarrow> ustring" where
  "replace [] old new = []"
| "replace (c # cs) old new =
     (if old \<noteq> [] \<and> starts_with (c # cs) old
      then new @ replace (drop (length old - 1) cs) old new
      else c # replace cs old new)"

text \<open>The character class \<open>\w\<close> of a text pattern, on the two alphabets of the data:
  digits, Basic Latin letters, the underscore and the Cyrillic letters.\<close>

definition is_word :: "nat \<Rightarrow> bool" where
  "is_word c \<longleftrightarrow>
     (48 \<le> c \<and> c \<le> 57) \<or> (65 \<le> c \<and> c \<le> 90) \<or> c = 95 \<or> (97 \<le> c \<and> c \<le> 122)
     \<or> (1024 \<le> c \<and> c \<le> 1153) \<or> (1162 \<le> c \<and> c \<le> 1327)"

text \<open>\<open>re.sub(r'\s+', ' ', s)\<close>: every run of white space becomes one space. The
  flag tells whether the scan is inside a run, whose space is already written.\<close>

fun collapse_run :: "(nat \<Rightarrow> bool) \<Rightarrow> bool \<Rightarrow> ustring \<Rightarrow> ustring" where
  "collapse_run cls in_run [] = []"
| "collapse_run cls in_run (c # cs) =
     (if cls c then (if in_run then collapse_run cls True cs
                     else 32 # collapse_run cls True cs)
      else c # collapse_run cls False cs)"

definition collapse_spaces :: "ustring \<Rightarrow> ustring" where
  "collapse_spaces s = collapse_run py_isspace False s"

subsection \<open>Topic groups\<close>

text \<open>
  The eight groups, in transliteration: Bezopasnost'/ChS (security and emergencies),
  Sankcii/finansy, Denezhnaya politika, IT/platezhi/sboi, Energetika/rynki,
  Ekonomika/nalogi/byudzhet, Politika/pravo/vybory, Prazdniki/obshchestvo. The table
  \<open>NEWS_GROUP_PATTERNS\<close> keeps the order of the dictionary of main.py.
\<close>

datatype news_group =
  Bezopasnost_ChS | Sankcii_finansy | Denezhnaya_politika | IT_platezhi_sboi
  | Energetika_rynki | Ekonomika_nalogi_byudzhet | Politika_pravo_vybory
  | Prazdniki_obshchestvo

definition NEWS_GROUP_PATTERNS :: "(news_group \<times> ustring list) list" where
  "NEWS_GROUP_PATTERNS = [
     (Bezopasnost_ChS,
      [[1074, 1086, 1077, 1085, 1085, 1099, 1077, 32, 1076, 1077, 1081, 1089, 1090, 1074],  \<comment> \<open>voennye dejstv\<close>
       [1073, 1086, 1077, 1074, 1099, 1077],  \<comment> \<open>boevye\<close>
       [1073, 1086, 1080],  \<comment> \<open>boi\<close>
       [1091, 1076, 1072, 1088],  \<comment> \<open>udar\<close>
       [1082, 1086, 1085, 1090, 1088, 1085, 1072, 1089, 1090, 1091, 1087],  \<comment> \<open>kontrnastup\<close>
       [1074, 1079, 1103, 1090],  \<comment> \<open>vzyat\<close>
       [1079, 1072, 1093, 1074, 1072, 1090],  \<comment> \<open>zahvat\<close>
       [1074, 1099, 1074, 1086, 1076, 32, 1074, 1086, 1081, 1089, 1082],  \<comment> \<open>vyvod vojsk\<close>
       [1076, 1088, 1075],  \<comment> \<open>drg\<close>
       [1073, 1077, 1079, 1086, 1087, 1072, 1089, 1085, 1086, 1089, 1090],  \<comment> \<open>bezopasnost\<close>
       [1090, 1077, 1088, 1072, 1082, 1090],  \<comment> \<open>terakt\<close>
       [1095, 1089],  \<comment> \<open>chs\<close>
       [1095, 1087],  \<comment> \<open>chp\<close>
       [1074, 1079, 1088, 1099, 1074],  \<comment> \<open>vzryv\<close>
       [1086, 1073, 1089, 1090, 1088, 1077, 1083],  \<comment> \<open>obstrel\<close>
       [1088, 1072, 1082, 1077, 1090],  \<comment> \<open>raket\<close>
       [1072, 1088, 1090, 1080, 1083, 1083],  \<comment> \<open>artill\<close>
       [1096, 1090, 1091, 1088, 1084],  \<comment> \<open>shturm\<close>
       [1087, 1088, 1086, 1088, 1099, 1074],  \<comment> \<open>proryv\<close>
       [1086, 1089, 1074, 1086, 1073, 1086, 1078, 1076],  \<comment> \<open>osvobozhd\<close>
       [1087, 1072, 1074, 1086, 1076, 1082],  \<comment> \<open>pavodk\<close>
       [1087, 1088, 1086, 1080, 1089, 1096, 1077, 1089, 1090, 1074],  \<comment> \<open>proisshestv\<close>
       [1076, 1088, 1086, 1085],  \<comment> \<open>dron\<close>
       [1073, 1087, 1083, 1072],  \<comment> \<open>bpla\<close>
       [1076, 1080, 1074, 1077, 1088, 1089]]),  \<comment> \<open>divers\<close>
     (Sankcii_finansy,
      [[1089, 1072, 1085, 1082, 1094, 1080],  \<comment> \<open>sankci\<close>
       [1101, 1084, 1073, 1072, 1088, 1075, 1086],  \<comment> \<open>embargo\<close>
       [115, 119, 105, 102, 116],  \<comment> \<open>swift\<close>
       [1089, 1074, 1080, 1092, 1090],  \<comment> \<open>svift\<close>
       [1085, 1082, 1094],  \<comment> \<open>nkc\<close>
       [1082, 1083, 1080, 1088, 1080, 1085, 1075],  \<comment> \<open>kliring\<close>
       [1088, 1077, 1081, 1090, 1080, 1085, 1075],  \<comment> \<open>rejting\<close>
       [1088, 1077, 1081, 1090, 1080, 1085, 1075, 1072],  \<comment> \<open>rejtinga\<close>
       [1084, 1091, 1089],  \<comment> \<open>mus\<close>
       [1074, 1072, 1083, 1102, 1090],  \<comment> \<open>valyut\<close>
       [1082, 1091, 1088, 1089],  \<comment> \<open>kurs\<close>
       [1084, 1086, 1089, 1073, 1080, 1088, 1078],  \<comment> \<open>mosbirzh\<close>
       [1084, 1086, 1089, 1086, 1073, 1080, 1088, 1078],  \<comment> \<open>mosobirzh\<close>
       [1089, 1087, 1073, 45, 1073, 1080, 1088, 1078, 1072],  \<comment> \<open>spb-birzha\<close>
       [1073, 1080, 1088, 1078],  \<comment> \<open>birzh\<close>
       [1073, 1072, 1085, 1082]]),  \<comment> \<open>bank\<close>
     (Denezhnaya_politika,
      [[1082, 1083, 1102, 1095, 1077, 1074, 1072, 1103, 32, 1089, 1090, 1072, 1074, 1082, 1072],  \<comment> \<open>klyuchevaya stavka\<close>
       [1076, 1077, 1085, 1077, 1078, 1085, 1072, 1103, 32, 1087, 1086, 1083, 1080, 1090, 1080, 1082, 1072]]),  \<comment> \<open>denezhnaya politika\<close>
     (IT_platezhi_sboi,
      [[1087, 1083, 1072, 1090, 1077, 1078],  \<comment> \<open>platezh\<close>
       [1092, 1080, 1085, 1090, 1077, 1093],  \<comment> \<open>finteh\<close>
       [1089, 1073, 1087],  \<comment> \<open>sbp\<close>
       [109, 105, 114, 32, 112, 97, 121],  \<comment> \<open>mir pay\<close>
       [1082, 1086, 1096, 1077, 1083, 1077, 1082],  \<comment> \<open>koshelek\<close>
       [1082, 1086, 1096, 1077, 1083, 1100, 1082],  \<comment> \<open>koshel'k\<close>
       [112, 117, 115, 104],  \<comment> \<open>push\<close>
       [1087, 1091, 1096],  \<comment> \<open>push\<close>
       [100, 100, 111, 115],  \<comment> \<open>ddos\<close>
       [1089, 1073, 1086, 1081],  \<comment> \<open>sboj\<close>
       [1086, 1085, 1083, 1072, 1081, 1085],  \<comment> \<open>onlajn\<close>
       [105, 116],  \<comment> \<open>it\<close>
       [1080, 1085, 1090, 1077, 1088, 1085, 1077, 1090],  \<comment> \<open>internet\<close>
       [1089, 1086, 1094, 1089, 1077, 1090, 1100],  \<comment> \<open>socset'\<close>
       [1089, 1090, 1088, 1080, 1084],  \<comment> \<open>strim\<close>
       [100, 112, 105],  \<comment> \<open>dpi\<close>
       [100, 110, 115, 115, 101, 99]]),  \<comment> \<open>dnssec\<close>
     (Energetika_rynki,
      [[1101, 1085, 1077, 1088, 1075, 1077, 1090, 1080, 1082],  \<comment> \<open>energetik\<close>
       [1085, 1077, 1092, 1090, 1100],  \<comment> \<open>neft'\<close>
       [1075, 1072, 1079],  \<comment> \<open>gaz\<close>
       [1089, 1087, 45, 49],  \<comment> \<open>sp-1\<close>
       [1089, 1077, 1074, 1077, 1088, 1085],  \<comment> \<open>severn\<close>
       [1075, 1072, 1079, 1087, 1088, 1086, 1084],  \<comment> \<open>gazprom\<close>
       [1086, 1087, 1077, 1082],  \<comment> \<open>opek\<close>
       [1072, 1083, 1084, 1072, 1079],  \<comment> \<open>almaz\<close>
       [1090, 1086, 1087, 1083, 1080, 1074],  \<comment> \<open>topliv\<close>
       [1101, 1082, 1089, 1087, 1086, 1088, 1090, 32, 1090, 1086, 1087, 1083, 1080, 1074]]),  \<comment> \<open>eksport topliv\<close>
     (Ekonomika_nalogi_byudzhet,
      [[1101, 1082, 1086, 1085, 1086, 1084, 1080, 1082],  \<comment> \<open>ekonomik\<close>
       [1073, 1102, 1076, 1078, 1077, 1090],  \<comment> \<open>byudzhet\<close>
       [1085, 1072, 1083, 1086, 1075],  \<comment> \<open>nalog\<close>
       [1084, 1072, 1082, 1088, 1086],  \<comment> \<open>makro\<close>
       [1092, 1086, 1088, 1091, 1084],  \<comment> \<open>forum\<close>
       [1087, 1084, 1101, 1092],  \<comment> \<open>pmef\<close>
       [1074, 1101, 1092],  \<comment> \<open>vef\<close>
       [1080, 1087, 1086, 1090, 1077, 1082],  \<comment> \<open>ipotek\<close>
       [1090, 1086, 1088, 1075, 1086, 1074, 1083, 1103],  \<comment> \<open>torgovlya\<close>
       [1080, 1084, 1087, 1086, 1088, 1090],  \<comment> \<open>import\<close>
       [1101, 1082, 1089, 1087, 1086, 1088, 1090],  \<comment> \<open>eksport\<close>
       [1083, 1086, 1075, 1080, 1089, 1090, 1080, 1082],  \<comment> \<open>logistik\<close>
       [1082, 1086, 1084, 1087, 1072, 1085, 1080],  \<comment> \<open>kompani\<close>
       [1087, 1088, 1086, 1084, 1099, 1096, 1083, 1077, 1085, 1085, 1086, 1089, 1090],  \<comment> \<open>promyshlennost\<close>
       [1084, 1077, 1090, 1072, 1083, 1083],  \<comment> \<open>metall\<close>
       [1072, 1087, 1082],  \<comment> \<open>apk\<close>
       [1089, 1077, 1083, 1100, 1093, 1086, 1079],  \<comment> \<open>sel'hoz\<close>
       [1086, 1087, 1082]]),  \<comment> \<open>opk\<close>
     (Politika_pravo_vybory,
      [[1087, 1086, 1083, 1080, 1090, 1080, 1082, 1072],  \<comment> \<open>politika\<close>
       [1087, 1088, 1072, 1074, 1086],  \<comment> \<open>pravo\<close>
       [1079, 1072, 1082, 1086, 1085],  \<comment> \<open>zakon\<close>
       [1074, 1099, 1073, 1086, 1088],  \<comment> \<open>vybor\<close>
       [1084, 1077, 1078, 1076, 1091, 1085, 1072, 1088],  \<comment> \<open>mezhdunar\<close>
       [1085, 1072, 1090, 1086],  \<comment> \<open>nato\<close>
       [1073, 1088, 1080, 1082, 1089],  \<comment> \<open>briks\<close>
       [1089, 1072, 1084, 1084, 1080, 1090],  \<comment> \<open>sammit\<close>
       [1096, 1086, 1089],  \<comment> \<open>shos\<close>
       [1089, 1086, 1074, 1077, 1090, 32, 1077, 1074, 1088, 1086, 1087, 1099],  \<comment> \<open>sovet evropy\<close>
       [1082, 1072, 1076, 1088, 1099],  \<comment> \<open>kadry\<close>
       [1090, 1077, 1088, 1088, 1080, 1090, 1086, 1088],  \<comment> \<open>territor\<close>
       [1086, 1073, 1086, 1088, 1086, 1085, 1072],  \<comment> \<open>oborona\<close>
       [1087, 1088, 1080, 1079, 1099, 1074],  \<comment> \<open>prizyv\<close>
       [1084, 1086, 1073, 1080, 1083, 1080, 1079],  \<comment> \<open>mobiliz\<close>
       [1080, 1085, 1072, 1091, 1075, 1091, 1088, 1072, 1094]]),  \<comment> \<open>inaugurac\<close>
     (Prazdniki_obshchestvo,
      [[1087, 1088, 1072, 1079, 1076, 1085, 1080, 1082],  \<comment> \<open>prazdnik\<close>
       [1086, 1073, 1097, 1077, 1089, 1090, 1074, 1086],  \<comment> \<open>obshchestvo\<close>
       [1089, 1086, 1094, 1080, 1072, 1083, 1100, 1085],  \<comment> \<open>social'n\<close>
       [1084, 1088, 1086, 1090],  \<comment> \<open>mrot\<close>
       [1078, 1082, 1093],  \<comment> \<open>zhkh\<close>
       [1082, 1091, 1083, 1100, 1090, 1091, 1088],  \<comment> \<open>kul'tur\<close>
       [1087, 1072, 1088, 1072, 1076],  \<comment> \<open>parad\<close>
       [1090, 1088, 1072, 1091, 1088]])]"  \<comment> \<open>traur\<close>

text \<open>
  \<^verbatim>\<open>
  def _normalize_cat_text(s):
      s = str(s or '').lower()
      s = s.replace('mezhdunar.', 'mezhdunarodn')
      s = s.replace('chp', 'chs')
      s = re.sub(r'\s+', ' ', s).strip()
      return s
  def _map_news_group(cat_raw, event_text):
      s = f"{str(cat_raw)} {str(event_text)}".lower()
      s = s.replace('mezhdunar.', 'mezhdunarodn').replace('chp', 'chs')
      for grp, pats in NEWS_GROUP_PATTERNS.items():
          if any(pat in s for pat in pats):
              return grp
      return 'Ekonomika/nalogi/byudzhet'
  \<close>
\<close>

definition mezhdunar :: ustring where
  "mezhdunar = [1084, 1077, 1078, 1076, 1091, 1085, 1072, 1088, 46]"

definition mezhdunarodn :: ustring where
  "mezhdunarodn = [1084, 1077, 1078, 1076, 1091, 1085, 1072, 1088, 1086, 1076, 1085]"

definition chp :: ustring where
  "chp = [1095, 1087]"

definition chs :: ustring where
  "chs = [1095, 1089]"

definition normalize_cat_text :: "ustring \<Rightarrow> ustring" where
  "normalize_cat_text s =
     strip (collapse_spaces (replace (replace (py_lower s) mezhdunar mezhdunarodn) chp chs))"

fun first_group :: "(news_group \<times> ustring list) list \<Rightarrow> ustring \<Rightarrow> news_group" where
  "first_group [] s = Ekonomika_nalogi_byudzhet"
| "first_group ((grp, pats) # rest) s =
     (if list_ex (contains s) pats then grp else first_group rest s)"

definition map_news_group :: "ustring \<Rightarrow> ustring \<Rightarrow> news_group" where
  "map_news_group cat_raw event_text =
     first_group NEWS_GROUP_PATTERNS
       (replace (replace (py_lower (cat_raw @ [32] @ event_text)) mezhdunar mezhdunarodn)
          chp chs)"

text \<open>
  An event of the catalogue, as \<open>_load_events_from_tsv\<close> returns it: the date, the
  text and the category of the file, the normalized category and the group.
  \<^verbatim>\<open>
  ev['cat_norm'] = ev['cat_raw'].apply(_normalize_cat_text)
  ev['group'] = [_map_news_group(c, e) for c, e in zip(ev['cat_norm'], ev['event'])]
  \<close>
\<close>

record news_event =
  event_date :: date
  event :: ustring
  cat_raw :: ustring
  cat_norm :: ustring
  group :: news_group

definition classify_events :: "(date \<times> ustring \<times> ustring) list \<Rightarrow> news_event list" where
  "classify_events rows =
     map (\<lambda>(d, e, c).
            \<lparr>event_date = d, event = e, cat_raw = c, cat_norm = normalize_cat_text c,
             group = map_news_group (normalize_cat_text c) e\<rparr>) rows"

subsection \<open>The normalized text of a security event\<close>

text \<open>
  \<^verbatim>\<open>
  def norm_event(txt):
      s = str(txt or '').lower()
      s = re.sub(r'\(.*?\)', ' ', s)
      s = re.sub(r'\b(zahvat|vzyatie?|osvobozhden\w*|osvobozhd\w*|obstrel\w*|boi|shturm\w*
                     |proryv\w*|kontr\w*|intensiv\w*|prodolzhenie|popytka|proval|novaya
                     |posle|stab\w*)\b', ' ', s)
      s = re.sub(r'[^a-ya(cyrillic)a-z0-9]+', ' ', s)
      s = re.sub(r'\s+', ' ', s).strip()
      return s
  \<close>
  The first substitution replaces an opening bracket together with the text up to the
  next closing bracket, unless a line break comes first (the dot matches no line
  break). \<open>close_at\<close> is the number of characters after the opening bracket up to and
  including the closing one.
\<close>

fun close_at :: "ustring \<Rightarrow> nat option" where
  "close_at [] = None"
| "close_at (c # cs) =
     (if c = 41 then Some 1
      else if c = 10 then None
      else map_option Suc (close_at cs))"

fun strip_brackets :: "ustring \<Rightarrow> ustring" where
  "strip_brackets [] = []"
| "strip_brackets (c # cs) =
     (if c = 40
      then (case close_at cs of
              Some n \<Rightarrow> 32 # strip_brackets (drop n cs)
            | None \<Rightarrow> c # strip_brackets cs)
      else c # strip_brackets cs)"

text \<open>
  The second substitution matches, at the start of a word, the first alternative of
  the list that ends at the end of a word. An alternative is a literal, a literal with
  an optional last letter, or a literal followed by any number of word characters,
  which are taken greedily, so that such an alternative matches the rest of the word.
  \<open>match_alternative\<close> gives the number of characters that an alternative matches at
  the head of a text, if it matches there.
\<close>

datatype alternative = Literal ustring | Optional_last ustring nat | Word_prefix ustring

definition update_verbs :: "alternative list" where
  "update_verbs = [
     Literal [1079, 1072, 1093, 1074, 1072, 1090],  \<comment> \<open>zahvat\<close>
     Optional_last [1074, 1079, 1103, 1090, 1080] 1077,  \<comment> \<open>vzyatie?\<close>
     Word_prefix [1086, 1089, 1074, 1086, 1073, 1086, 1078, 1076, 1077, 1085],  \<comment> \<open>osvobozhden...\<close>
     Word_prefix [1086, 1089, 1074, 1086, 1073, 1086, 1078, 1076],  \<comment> \<open>osvobozhd...\<close>
     Word_prefix [1086, 1073, 1089, 1090, 1088, 1077, 1083],  \<comment> \<open>obstrel...\<close>
     Literal [1073, 1086, 1080],  \<comment> \<open>boi\<close>
     Word_prefix [1096, 1090, 1091, 1088, 1084],  \<comment> \<open>shturm...\<close>
     Word_prefix [1087, 1088, 1086, 1088, 1099, 1074],  \<comment> \<open>proryv...\<close>
     Word_prefix [1082, 1086, 1085, 1090, 1088],  \<comment> \<open>kontr...\<close>
     Word_prefix [1080, 1085, 1090, 1077, 1085, 1089, 1080, 1074],  \<comment> \<open>intensiv...\<close>
     Literal [1087, 1088, 1086, 1076, 1086, 1083, 1078, 1077, 1085, 1080, 1077],  \<comment> \<open>prodolzhenie\<close>
     Literal [1087, 1086, 1087, 1099, 1090, 1082, 1072],  \<comment> \<open>popytka\<close>
     Literal [1087, 1088, 1086, 1074, 1072, 1083],  \<comment> \<open>proval\<close>
     Literal [1085, 1086, 1074, 1072, 1103],  \<comment> \<open>novaya\<close>
     Literal [1087, 1086, 1089, 1083, 1077],  \<comment> \<open>posle\<close>
     Word_prefix [1089, 1090, 1072, 1073]]"  \<comment> \<open>stab...\<close>

definition at_word_end :: "ustring \<Rightarrow> bool" where
  "at_word_end s \<longleftrightarrow> (case s of [] \<Rightarrow> True | c # cs \<Rightarrow> \<not> is_word c)"

fun match_alternative :: "alternative \<Rightarrow> ustring \<Rightarrow> nat option" where
  "match_alternative (Literal lit) s =
     (if starts_with s lit \<and> at_word_end (drop (length lit) s) then Some (length lit)
      else None)"
| "match_alternative (Optional_last lit c) s =
     (if starts_with s (lit @ [c]) \<and> at_word_end (drop (Suc (length lit)) s)
      then Some (Suc (length lit))
      else if starts_with s lit \<and> at_word_end (drop (length lit) s) then Some (length lit)
      else None)"
| "match_alternative (Word_prefix lit) s =
     (if starts_with s lit
      then Some (length lit + length (takeWhile is_word (drop (length lit) s)))
      else None)"

fun first_match :: "alternative list \<Rightarrow> ustring \<Rightarrow> nat option" where
  "first_match [] s = None"
| "first_match (a # rest) s =
     (case match_alternative a s of
        Some n \<Rightarrow> Some n
      | None \<Rightarrow> first_match rest s)"

text \<open>The scan of the substitution: \<open>prev\<close> tells whether the character before the
  current position is a word character.\<close>

fun strip_verbs :: "bool \<Rightarrow> ustring \<Rightarrow> ustring" where
  "strip_verbs prev [] = []"
| "strip_verbs prev (c # cs) =
     (if \<not> prev \<and> is_word c
      then (case first_match update_verbs (c # cs) of
              Some n \<Rightarrow> 32 # strip_verbs True (drop (n - 1) cs)
            | None \<Rightarrow> c # strip_verbs (is_word c) cs)
      else c # strip_verbs (is_word c) cs)"

text \<open>The third substitution: every run of characters other than the small Cyrillic
  letters a to ya (1072 to 1103), the small Latin letters and the digits becomes one
  space.\<close>

definition kept :: "nat \<Rightarrow> bool" where
  "kept c \<longleftrightarrow> (1072 \<le> c \<and> c \<le> 1103) \<or> (97 \<le> c \<and> c \<le> 122) \<or> (48 \<le> c \<and> c \<le> 57)"

definition collapse_other :: "ustring \<Rightarrow> ustring" where
  "collapse_other s = collapse_run (\<lambda>c. \<not> kept c) False s"

definition norm_event :: "ustring \<Rightarrow> ustring" where
  "norm_event txt =
     strip (collapse_spaces (collapse_other (strip_verbs False (strip_brackets (py_lower txt)))))"

subsection \<open>Compression\<close>

text \<open>
  \<^verbatim>\<open>
  def _compress_security_updates(ev):
      if ev.empty or 'group' not in ev.columns:
          return ev
      df = ev.copy()
      mask_sec = df['group'] == 'Bezopasnost/ChS'
      df['event_norm'] = np.where(mask_sec, df['event'].apply(norm_event),
                                  df['event'].str.lower())
      df = pd.concat([
          df[~mask_sec],
          df[mask_sec].drop_duplicates(subset=['event_date','event_norm'])
      ], ignore_index=True).drop(columns=['event_norm'])
      return df
  \<close>
  \<open>drop_duplicates(subset=...)\<close> keeps the first row of every key.
\<close>

fun drop_duplicates_by :: "('a \<Rightarrow> 'k) \<Rightarrow> 'a list \<Rightarrow> 'a list" where
  "drop_duplicates_by key [] = []"
| "drop_duplicates_by key (x # xs) =
     x # drop_duplicates_by key (filter (\<lambda>y. key y \<noteq> key x) xs)"

definition compress_security_updates :: "news_event list \<Rightarrow> news_event list" where
  "compress_security_updates ev =
     filter (\<lambda>e. group e \<noteq> Bezopasnost_ChS) ev
     @ drop_duplicates_by (\<lambda>e. (event_date e, norm_event (event e)))
         (filter (\<lambda>e. group e = Bezopasnost_ChS) ev)"

section \<open>The working table of the orchestrator\<close>

text \<open>
  \<open>enrich_data_full\<close> passes one table through the engines. This section models the
  table as a whole: its column names and its rows, in their order. A column name is a
  Python \<open>str\<close>; the names that main.py writes in Basic Latin are given as \<open>u ''...''\<close>.
  A cell is missing (NaN, NaT, None), a text, a timestamp without time zone (seconds
  since 1970-01-01 00:00, a normalized day being the timestamp of its midnight) or a
  number. A row gives the cell of every column name; outside the columns of its table
  it is of no account.
\<close>

type_synonym colname = ustring

definition u :: "string \<Rightarrow> ustring" where
  "u s = map of_char s"

datatype cell = NaN | Text ustring | Stamp timestamp | Num rat

type_synonym row = "colname \<Rightarrow> cell"

record frame =
  columns :: "colname list"
  rows :: "row list"

text \<open>\<open>df[c] = s\<close> for a series \<open>s\<close> on the index of \<open>df\<close>: the column is overwritten
  when the table has it, and becomes the last column otherwise.\<close>

definition assign :: "colname \<Rightarrow> (nat \<Rightarrow> cell) \<Rightarrow> frame \<Rightarrow> frame" where
  "assign c s df =
     \<lparr>columns = (if c \<in> set (columns df) then columns df else columns df @ [c]),
      rows = map (\<lambda>i. (rows df ! i)(c := s i)) [0..<length (rows df)]\<rparr>"

text \<open>\<open>df.drop(columns=cs, errors='ignore')\<close> and \<open>df[cs]\<close>.\<close>

definition drop_columns :: "colname list \<Rightarrow> frame \<Rightarrow> frame" where
  "drop_columns cs df =
     \<lparr>columns = filter (\<lambda>c. c \<notin> set cs) (columns df),
      rows = map (\<lambda>r c. if c \<in> set cs then NaN else r c) (rows df)\<rparr>"

definition select :: "colname list \<Rightarrow> frame \<Rightarrow> frame" where
  "select cs df =
     \<lparr>columns = cs, rows = map (\<lambda>r c. if c \<in> set cs then r c else NaN) (rows df)\<rparr>"

text \<open>\<open>df.sort_values(...)\<close>, by a key of the rows. The sort is taken as stable.
  Missing values come last: \<open>na_last_cell\<close> is the key of a column of timestamps,
  \<open>text_key\<close> that of a column of texts.\<close>

definition sort_values :: "(row \<Rightarrow> 'k::linorder) \<Rightarrow> frame \<Rightarrow> frame" where
  "sort_values key df = \<lparr>columns = columns df, rows = sort_key key (rows df)\<rparr>"

definition na_last_cell :: "cell \<Rightarrow> nat \<times> int" where
  "na_last_cell v = (case v of Stamp t \<Rightarrow> (0, t) | _ \<Rightarrow> (1, 0))"

definition text_key :: "cell \<Rightarrow> nat \<times> ustring" where
  "text_key v = (case v of Text s \<Rightarrow> (0, s) | _ \<Rightarrow> (1, []))"

text \<open>The cells of a row in the columns \<open>cs\<close>, and the rows of a table cut down to
  these columns.\<close>

definition proj :: "colname list \<Rightarrow> frame \<Rightarrow> cell list list" where
  "proj cs df = map (\<lambda>r. map r cs) (rows df)"

text \<open>
  \<open>left.merge(right, left_on=..., right_on=..., how='left')\<close>. Every row of the left
  table is kept, in its place: it is joined with every row of the right table that has
  the same key (a missing key is equal to a missing key), in the order of the right
  table, and with missing values when there is none. A key column with the same name on
  both sides is one column of the result. Any other column name that both tables have
  gets the suffix \<open>_x\<close> on the left and \<open>_y\<close> on the right. The columns of the
  result are those of the left table followed by those of the right one.
\<close>

definition shared_keys :: "colname list \<Rightarrow> colname list \<Rightarrow> colname list" where
  "shared_keys left_on right_on = map fst (filter (\<lambda>(a, b). a = b) (zip left_on right_on))"

definition right_only :: "colname list \<Rightarrow> colname list \<Rightarrow> frame \<Rightarrow> colname list" where
  "right_only left_on right_on right =
     filter (\<lambda>c. c \<notin> set (shared_keys left_on right_on)) (columns right)"

definition joined :: "colname list \<Rightarrow> colname list \<Rightarrow> row \<Rightarrow> row \<Rightarrow> row" where
  "joined lcols rcols l r =
     fold (\<lambda>c f. f((if c \<in> set lcols then c @ u ''_y'' else c) := r c)) rcols
       (fold (\<lambda>c f. f((if c \<in> set rcols then c @ u ''_x'' else c) := l c)) lcols (\<lambda>c. NaN))"

definition matching :: "colname list \<Rightarrow> colname list \<Rightarrow> frame \<Rightarrow> row \<Rightarrow> row list" where
  "matching left_on right_on right l =
     filter (\<lambda>r. list_all (\<lambda>(a, b). l a = r b) (zip left_on right_on)) (rows right)"

definition merge :: "colname list \<Rightarrow> colname list \<Rightarrow> frame \<Rightarrow> frame \<Rightarrow> frame" where
  "merge left_on right_on right left =
     (let lcols = columns left;
          rcols = right_only left_on right_on right
      in \<lparr>columns = map (\<lambda>c. if c \<in> set rcols then c @ u ''_x'' else c) lcols
                    @ map (\<lambda>c. if c \<in> set lcols then c @ u ''_y'' else c) rcols,
          rows = concat (map (\<lambda>l. case matching left_on right_on right l of
                                     [] \<Rightarrow> [joined lcols rcols l (\<lambda>c. NaN)]
                                   | ms \<Rightarrow> map (joined lcols rcols l) ms) (rows left))\<rparr>)"

text \<open>The rows of a table without those that have a missing value in one of the
  columns \<open>cs\<close>; and the distinct rows of a table (the first of equal rows is
  kept).\<close>

definition dropna :: "colname list \<Rightarrow> frame \<Rightarrow> frame" where
  "dropna cs df = \<lparr>columns = columns df, rows = filter (\<lambda>r. list_all (\<lambda>c. r c \<noteq> NaN) cs) (rows df)\<rparr>"

definition distinct_keys :: "colname list \<Rightarrow> frame \<Rightarrow> cell list list" where
  "distinct_keys cs df = drop_duplicates (proj cs (dropna cs df))"

definition drop_duplicates_df :: "frame \<Rightarrow> frame" where
  "drop_duplicates_df df =
     \<lparr>columns = columns df, rows = drop_duplicates_by (\<lambda>r. map r (columns df)) (rows df)\<rparr>"

text \<open>A row from the names and the cells of its key, the other cells being given.\<close>

definition row_of :: "colname list \<Rightarrow> cell list \<Rightarrow> row \<Rightarrow> row" where
  "row_of ks k rest = fold (\<lambda>(c, v) f. f(c := v)) (zip ks k) rest"

subsection \<open>Rows that are carried along\<close>

text \<open>
  \<open>expansion xs ys\<close>: the list \<open>ys\<close> is the list \<open>xs\<close> with every element
  repeated once or several times, in its place. A column name is \<open>free\<close> of a list of
  names when it is none of them, also when these are given the suffix of a merge.
\<close>

inductive expansion :: "'a list \<Rightarrow> 'a list \<Rightarrow> bool" where
  expansion_Nil: "expansion [] []"
| expansion_Cons: "expansion xs ys \<Longrightarrow> 0 < n \<Longrightarrow> expansion (x # xs) (replicate n x @ ys)"

definition free :: "colname list \<Rightarrow> colname \<Rightarrow> bool" where
  "free ws c \<longleftrightarrow> list_all (\<lambda>n. c \<noteq> n \<and> c \<noteq> n @ u ''_x'' \<and> c \<noteq> n @ u ''_y'') ws"

subsection \<open>What is outside the table\<close>

text \<open>
  The libraries and files that the run reads are parameters: the geographic time-zone
  index and the time-zone database (as above), the date parser of the data-frame
  library (\<open>pd.to_datetime(errors='coerce')\<close> on one value, \<open>None\<close> for NaT), the
  weather service with its cache (the per-region tables concatenated, \<open>None\<close> when
  there is no weather for any region) and the two index files. The values of the derived
  columns are those that the engines compute. For the questions asked of the table as a
  whole (which columns it has, which rows, in which order) they are of no account,
  and they stand here as two more parameters: \<open>derived c df i\<close> is the value computed
  for the column \<open>c\<close> from the table \<open>df\<close> at the row in position \<open>i\<close>, and
  \<open>grouped c df k\<close> is the value of the column \<open>c\<close> for the key \<open>k\<close> in an
  auxiliary table made from \<open>df\<close> (the astronomical categories of a day and zone, the
  monthly means, the daily news features and so on).
\<close>

record externals =
  TF :: tzfinder
  tz_database :: "string \<Rightarrow> int"
  pd_to_datetime :: "cell \<Rightarrow> timestamp option"
  meteostat :: "frame \<Rightarrow> frame option"
  kp_index :: "readings option"
  ap_index :: "readings option"
  derived :: "colname \<Rightarrow> frame \<Rightarrow> nat \<Rightarrow> cell"
  grouped :: "colname \<Rightarrow> frame \<Rightarrow> cell list \<Rightarrow> cell"

text \<open>The columns \<open>cs\<close> are computed and assigned one after the other.\<close>

definition derive :: "externals \<Rightarrow> colname list \<Rightarrow> frame \<Rightarrow> frame" where
  "derive E cs df = fold (\<lambda>c f. assign c (derived E c f) f) cs df"

text \<open>An auxiliary table with the key columns \<open>ks\<close>, the value columns \<open>vals\<close>
  and one row for every key of the list.\<close>

definition aux_table ::
  "externals \<Rightarrow> frame \<Rightarrow> colname list \<Rightarrow> colname list \<Rightarrow> cell list list \<Rightarrow> frame" where
  "aux_table E df ks vals keys =
     \<lparr>columns = ks @ vals,
      rows = map (\<lambda>k. row_of ks k (\<lambda>c. if c \<in> set vals then grouped E c df k else NaN))
               keys\<rparr>"

datatype failure = KeyError colname | Raised error

subsection \<open>Region, zone and the two days\<close>

text \<open>
  \<^verbatim>\<open>
  df = df.copy()
  initial_cols = df.columns.tolist()
  df['region_std'] = df[region_col].map(REGION_GENT_TO_NOM).fillna(df[region_col])
                                   .astype('category')
  df['tz'] = df['region_std'].apply(region_to_tz).astype('category')
  df[date_col] = pd.to_datetime(df[date_col], errors='coerce')
  ser = df[date_col]
  if ser.dt.tz is None:
      base_msk = ser.dt.tz_localize('Europe/Moscow', ...)
  df['msk_day'] = base_msk.dt.normalize().dt.tz_localize(None)
  df['day_local'] = pd.NaT
  for tz in df['tz'].cat.categories:
      mask = (df['tz'] == tz)
      loc = base_msk[mask].dt.tz_convert(tz)
      df.loc[mask, 'day_local'] = loc.dt.normalize().dt.tz_localize(None)
  \<close>
  with \<open>date_col='business_dt'\<close> and \<open>region_col='region'\<close>. The dates are
  without time zone, as in the section on the orchestrator above. A region that is no
  key of the dictionary keeps its value; \<open>apply\<close> on a categorical column leaves a
  missing region missing, and \<open>region_to_tz\<close> answers a value that is no text with
  its default.
\<close>

definition region_std_of :: "cell \<Rightarrow> cell" where
  "region_std_of v =
     (case v of
        Text s \<Rightarrow> (case map_of REGION_GENT_TO_NOM s of Some nom \<Rightarrow> Text nom | None \<Rightarrow> v)
      | _ \<Rightarrow> v)"

definition zone_of :: "tzfinder \<Rightarrow> cell \<Rightarrow> string option" where
  "zone_of tf v =
     (case v of
        Text s \<Rightarrow> Some (region_to_tz tf s)
      | NaN \<Rightarrow> None
      | _ \<Rightarrow> Some ''Europe/Moscow'')"

definition to_datetime_cell :: "externals \<Rightarrow> cell \<Rightarrow> cell" where
  "to_datetime_cell E v = (case pd_to_datetime E v of None \<Rightarrow> NaN | Some t \<Rightarrow> Stamp t)"

definition msk_day_of :: "cell \<Rightarrow> cell" where
  "msk_day_of v = (case v of Stamp t \<Rightarrow> Stamp (86400 * normalize t) | _ \<Rightarrow> NaN)"

definition day_local_of :: "externals \<Rightarrow> cell \<Rightarrow> cell \<Rightarrow> cell" where
  "day_local_of E region_std_cell v =
     (case (zone_of (TF E) region_std_cell, v) of
        (Some z, Stamp t) \<Rightarrow> Stamp (86400 * normalize (tz_convert (tz_database E) z t))
      | _ \<Rightarrow> NaN)"

definition localize_df :: "externals \<Rightarrow> frame \<Rightarrow> frame" where
  "localize_df E df =
     (let df1 = assign (u ''region_std'')
                  (\<lambda>i. region_std_of ((rows df ! i) (u ''region''))) df;
          df2 = assign (u ''tz'')
                  (\<lambda>i. case zone_of (TF E) ((rows df1 ! i) (u ''region_std'')) of
                         None \<Rightarrow> NaN
                       | Some z \<Rightarrow> Text (u z)) df1;
          df3 = assign (u ''business_dt'')
                  (\<lambda>i. to_datetime_cell E ((rows df2 ! i) (u ''business_dt''))) df2;
          df4 = assign (u ''msk_day'')
                  (\<lambda>i. msk_day_of ((rows df3 ! i) (u ''business_dt''))) df3
      in assign (u ''day_local'')
           (\<lambda>i. day_local_of E ((rows df4 ! i) (u ''region_std''))
                  ((rows df4 ! i) (u ''business_dt''))) df4)"

text \<open>The same for one row: the five assignments change a row as follows.\<close>

definition localize_row :: "externals \<Rightarrow> row \<Rightarrow> row" where
  "localize_row E r =
     (let r1 = r(u ''region_std'' := region_std_of (r (u ''region'')));
          r2 = r1(u ''tz'' := (case zone_of (TF E) (r1 (u ''region_std'')) of
                                None \<Rightarrow> NaN
                              | Some z \<Rightarrow> Text (u z)));
          r3 = r2(u ''business_dt'' := to_datetime_cell E (r2 (u ''business_dt'')));
          r4 = r3(u ''msk_day'' := msk_day_of (r3 (u ''business_dt'')))
      in r4(u ''day_local'' := day_local_of E (r4 (u ''region_std'')) (r4 (u ''business_dt''))))"

subsection \<open>The astronomical categories\<close>

text \<open>
  \<^verbatim>\<open>
  keys = df[['day_local','tz']].dropna().drop_duplicates()
  astro_rows = [{'day_local': r.day_local, 'tz': r.tz,
                 **get_astro_cats_only(r.day_local, r.tz)} for r in keys.itertuples(...)]
  if astro_rows:
      df = df.merge(pd.DataFrame(astro_rows), on=['day_local','tz'], how='left')
  \<close>
  The names of the fourteen categories, in the order of the dictionary that
  \<open>get_astro_cats_only\<close> returns, which is that of the list \<open>ASTRO_CAT_BINS\<close>.
\<close>

definition ASTRO_CAT_BINS :: "colname list" where
  "ASTRO_CAT_BINS =
     [[1079, 1085, 1072, 1082, 95, 1057, 1086, 1083, 1085, 1094, 1072],  \<comment> \<open>znak_Solnca\<close>
      [1092, 1072, 1079, 1072, 95, 1083, 1091, 1085, 1099],  \<comment> \<open>faza_luny\<close>
      u ''lunar_day_cat'', u ''hard_aspects_cat'', u ''pp_hard_aspects_cat'',
      u ''is_retrograde_any_cat'', u ''is_station_any_cat'', u ''is_ingress_any_cat'',
      [1089, 1086, 1083, 1085, 1077, 1095, 1085, 1086, 1077, 95, 1079, 1072, 1090, 1084,
       1077, 1085, 1080, 1077, 95, 99, 97, 116],  \<comment> \<open>solnechnoe_zatmenie_cat\<close>
      [1083, 1091, 1085, 1085, 1086, 1077, 95, 1079, 1072, 1090, 1084, 1077, 1085, 1080,
       1077, 95, 99, 97, 116],  \<comment> \<open>lunnoe_zatmenie_cat\<close>
      u ''is_hecate_moon_cat'', u ''astro_weighted_aspects_cat'',
      u ''astro_moon_voc_proxy_cat'', u ''astro_interaction_merc_mars'']"

definition add_astro :: "externals \<Rightarrow> frame \<Rightarrow> frame" where
  "add_astro E df =
     (let keys = distinct_keys [u ''day_local'', u ''tz''] df;
          astro_rows = aux_table E df [u ''day_local'', u ''tz''] ASTRO_CAT_BINS keys
      in if keys = [] then df
         else merge [u ''day_local'', u ''tz''] [u ''day_local'', u ''tz''] astro_rows df)"

subsection \<open>The calendar columns\<close>

text \<open>
  \<open>add_calendar_compact_features\<close> on the table: the twelve columns in the order of
  their assignment. The five columns of the calendar table cannot be made for a table
  without any date unless the table has exactly one row (see the calendar engine).
\<close>

definition cell_day :: "cell \<Rightarrow> date option" where
  "cell_day v = (case v of Stamp t \<Rightarrow> Some (normalize t) | _ \<Rightarrow> None)"

definition add_calendar_compact_features_df :: "externals \<Rightarrow> frame \<Rightarrow> failure + frame" where
  "add_calendar_compact_features_df E df =
     (let date_col = (if u ''msk_day'' \<in> set (columns df) then u ''msk_day''
                      else u ''day_local'');
          d = map (\<lambda>r. cell_day (r date_col)) (rows df);
          out = derive E [u ''cal_weekday_4'', u ''cal_week_of_month'', u ''cal_month_phase3'',
                          u ''cal_quarter'', u ''cal_season''] df
      in if cal_dates d = [] \<and> length (rows df) \<noteq> 1 then Inl (Raised ValueError)
         else Inr (derive E [u ''cal_holiday_type4'', u ''cal_holiday_window5'',
                             u ''cal_long_weekend'', u ''cal_day_type3'',
                             u ''cal_is_blue_monday'', u ''cal_school_break_ext'',
                             u ''cal_payday_proximity''] out))"

subsection \<open>The weather columns\<close>

text \<open>
  \<^verbatim>\<open>
  def add_weather_compact_cats(df, date_col='day_local', region_col='region_std'):
      out = df.copy()
      out.sort_values([region_col, date_col], inplace=True)
      if 'daylight_hours' in out.columns and 'tsun' in out.columns:
          out['wth_sunshine_ratio_cat'] = ...
      if 'daylight_hours' in out.columns:
          out['wth_daylight_duration_cat'] = ...
      if {'tavg','wspd_kmh'}.issubset(out.columns):
          out['temp_feels_like'] = ...
          out['wth_temp_feels_like_cat'] = ...
      if {'tavg', region_col, date_col}.issubset(out.columns):
          out['__year'] = out[date_col].dt.year
          out['__month'] = out[date_col].dt.month
          monthly_means = out.groupby([region_col, '__year', '__month'])['tavg']
                             .mean().reset_index()
          ...
          out = pd.merge(out, monthly_means[[region_col, '__year', '__month',
                                             'seasonal_mean_t']],
                         on=[region_col, '__year', '__month'], how='left')
          out['__seasonal_temp_anomaly_deg'] = out['tavg'] - out['seasonal_mean_t']
          out['wth_seasonal_temp_anomaly_cat'] = ...
          out.drop(columns=['__year', '__month', 'seasonal_mean_t',
                            '__seasonal_temp_anomaly_deg'], inplace=True, errors='ignore')
      if 'tavg' in out.columns:
          out['wth_temp_change_cat'] = ...
      if 'precipitation_mm' in out.columns:
          out['wth_precipitation_cat'] = ...
      if 'precipitation_mm' in out.columns:
          out['wth_precipitation_change_cat'] = ...
      if 'wspd_kmh' in out.columns:
          out['wth_wind_speed_cat'] = ...
      if 'pres' in out.columns:
          out['wth_pressure_change_cat'] = ...
      if 'wspd_kmh' in out.columns:
          out['wth_wind_speed_change_cat'] = ...
      out['wth_complex_weather_cat'] = ...
      out['__is_bad_weather'] = ...
      out['__is_extreme_temp'] = ...
      base_cols = [region_col, date_col, '__is_bad_weather', '__is_extreme_temp']
      if 'msk_day' in out.columns:
          base_cols = [region_col, date_col, 'msk_day', '__is_bad_weather',
                       '__is_extreme_temp']
      base = out[base_cols].drop_duplicates().sort_values([region_col, date_col])
      base['wth_bad_weather_last5_cat'] = ...
      base['wth_extreme_temp_last5_cat'] = ...
      agg_date_col = 'msk_day' if 'msk_day' in out.columns else date_col
      agg = base.groupby(agg_date_col)[['__is_bad_weather', '__is_extreme_temp']]
                .mean().reset_index()
      agg['wth_national_bad_weather_scale_cat'] = ...
      agg['wth_national_temp_anomaly_scale_cat'] = ...
      out = out.merge(base[[region_col, date_col, 'wth_bad_weather_last5_cat',
                            'wth_extreme_temp_last5_cat']],
                      on=[region_col, date_col], how='left'
          ).merge(agg[[agg_date_col, 'wth_national_bad_weather_scale_cat',
                       'wth_national_temp_anomaly_scale_cat']],
                  left_on=agg_date_col, right_on=agg_date_col, how='left')
      return out
  \<close>
  A grouped table has one row for every key without a missing value.
\<close>

definition region_date_key :: "row \<Rightarrow> (nat \<times> ustring) \<times> (nat \<times> int)" where
  "region_date_key r = (text_key (r (u ''region_std'')), na_last_cell (r (u ''day_local'')))"

definition when_columns :: "colname list \<Rightarrow> (frame \<Rightarrow> frame) \<Rightarrow> frame \<Rightarrow> frame" where
  "when_columns cs f df = (if set cs \<subseteq> set (columns df) then f df else df)"

definition seasonal_anomaly :: "externals \<Rightarrow> frame \<Rightarrow> frame" where
  "seasonal_anomaly E out =
     (let a = derive E [u ''__year'', u ''__month''] out;
          ks = [u ''region_std'', u ''__year'', u ''__month''];
          monthly_means = aux_table E a ks [u ''seasonal_mean_t''] (distinct_keys ks a);
          b = merge ks ks monthly_means a;
          c = derive E [u ''__seasonal_temp_anomaly_deg'', u ''wth_seasonal_temp_anomaly_cat''] b
      in drop_columns [u ''__year'', u ''__month'', u ''seasonal_mean_t'',
                       u ''__seasonal_temp_anomaly_deg''] c)"

definition last5_and_national :: "externals \<Rightarrow> frame \<Rightarrow> frame" where
  "last5_and_national E out =
     (let has_msk = u ''msk_day'' \<in> set (columns out);
          base_cols = (if has_msk
                       then [u ''region_std'', u ''day_local'', u ''msk_day'',
                             u ''__is_bad_weather'', u ''__is_extreme_temp'']
                       else [u ''region_std'', u ''day_local'',
                             u ''__is_bad_weather'', u ''__is_extreme_temp'']);
          base = derive E [u ''wth_bad_weather_last5_cat'', u ''wth_extreme_temp_last5_cat'']
                   (sort_values region_date_key (drop_duplicates_df (select base_cols out)));
          agg_date_col = (if has_msk then u ''msk_day'' else u ''day_local'');
          agg = aux_table E base [agg_date_col]
                  [u ''wth_national_bad_weather_scale_cat'',
                   u ''wth_national_temp_anomaly_scale_cat'']
                  (distinct_keys [agg_date_col] base)
      in merge [agg_date_col] [agg_date_col] agg
           (merge [u ''region_std'', u ''day_local''] [u ''region_std'', u ''day_local'']
              (select [u ''region_std'', u ''day_local'', u ''wth_bad_weather_last5_cat'',
                       u ''wth_extreme_temp_last5_cat''] base)
              out))"

definition add_weather_compact_cats_df :: "externals \<Rightarrow> frame \<Rightarrow> frame" where
  "add_weather_compact_cats_df E df =
     (let out0 = sort_values region_date_key df;
          out1 = when_columns [u ''daylight_hours'', u ''tsun'']
                   (derive E [u ''wth_sunshine_ratio_cat'']) out0;
          out2 = when_columns [u ''daylight_hours'']
                   (derive E [u ''wth_daylight_duration_cat'']) out1;
          out3 = when_columns [u ''tavg'', u ''wspd_kmh'']
                   (derive E [u ''temp_feels_like'', u ''wth_temp_feels_like_cat'']) out2;
          out4 = when_columns [u ''tavg'', u ''region_std'', u ''day_local'']
                   (seasonal_anomaly E) out3;
          out5 = when_columns [u ''tavg''] (derive E [u ''wth_temp_change_cat'']) out4;
          out6 = when_columns [u ''precipitation_mm'']
                   (derive E [u ''wth_precipitation_cat'', u ''wth_precipitation_change_cat''])
                   out5;
          out7 = when_columns [u ''wspd_kmh''] (derive E [u ''wth_wind_speed_cat'']) out6;
          out8 = when_columns [u ''pres''] (derive E [u ''wth_pressure_change_cat'']) out7;
          out9 = when_columns [u ''wspd_kmh'']
                   (derive E [u ''wth_wind_speed_change_cat'']) out8;
          out10 = derive E [u ''wth_complex_weather_cat'', u ''__is_bad_weather'',
                            u ''__is_extreme_temp''] out9
      in last5_and_national E out10)"

text \<open>
  \<^verbatim>\<open>
  if all_weather:
      weather_features = pd.concat(all_weather, ignore_index=True)
      weather_features['day_local'] = pd.to_datetime(weather_features['day_local'],
                                                     errors='coerce')
      keep_wx = [c for c in weather_features.columns if c in
                 ['region_std','day_local','daylight_hours','tavg','wspd_kmh',
                  'precipitation_mm','pres','tsun']]
      weather_features = weather_features[keep_wx]
      df = df.merge(weather_features, on=['region_std','day_local'], how='left')
      df = add_weather_compact_cats(df, date_col='day_local', region_col='region_std')
  else:
      if not df.empty:
          df['daylight_hours'] = np.nan
          ...
              df.loc[mask_region, 'daylight_hours'] = ...
          df['wth_daylight_duration_cat'] = ...
  \<close>
  A weather table without one of the two key columns is a \<open>KeyError\<close>.
\<close>

definition keep_wx :: "colname list" where
  "keep_wx = [u ''region_std'', u ''day_local'', u ''daylight_hours'', u ''tavg'',
              u ''wspd_kmh'', u ''precipitation_mm'', u ''pres'', u ''tsun'']"

definition add_weather :: "externals \<Rightarrow> frame \<Rightarrow> failure + frame" where
  "add_weather E df =
     (case meteostat E df of
        Some all_weather \<Rightarrow>
          if u ''day_local'' \<notin> set (columns all_weather) then Inl (KeyError (u ''day_local''))
          else if u ''region_std'' \<notin> set (columns all_weather)
          then Inl (KeyError (u ''region_std''))
          else
            (let weather_features =
                   select (filter (\<lambda>c. c \<in> set keep_wx) (columns all_weather))
                     (assign (u ''day_local'')
                        (\<lambda>i. to_datetime_cell E ((rows all_weather ! i) (u ''day_local'')))
                        all_weather)
             in Inr (add_weather_compact_cats_df E
                       (merge [u ''region_std'', u ''day_local'']
                          [u ''region_std'', u ''day_local''] weather_features df)))
      | None \<Rightarrow>
          Inr (if rows df \<noteq> []
               then derive E [u ''daylight_hours'', u ''wth_daylight_duration_cat''] df
               else df))"

subsection \<open>The news columns\<close>

text \<open>
  \<open>build_news_compact_features\<close> makes the table \<open>news_daily\<close> with one row for
  every day from the earliest to the latest Moscow day of the table, and joins it:
  \<^verbatim>\<open>
  if out[date_col_msk].notna().any():
      full_range = pd.date_range(out[date_col_msk].min(), out[date_col_msk].max(), freq='D')
  else:
      full_range = pd.DatetimeIndex([])
  ...
  news_daily = pd.DataFrame(index=mat.index)
  news_daily['news_tone_change_cat'] = ...
  ...
  news_daily.reset_index(inplace=True)
  ...
  news_daily['news_holiday_overlay_cat'] = ...
  out = out.merge(news_daily, on=date_col_msk, how='left')
  \<close>
\<close>

definition news_daily_columns :: "colname list" where
  "news_daily_columns =
     [u ''news_tone_change_cat'', u ''news_day_group7'', u ''news_burst_last5_cat'',
      u ''news_topics_last5_cat'', u ''news_tone_day_cat'', u ''news_tone_last5_cat'',
      u ''news_macro_risk_last5_cat'', u ''news_security_risk_last5_cat'',
      u ''news_it_pay_last5_cat'', u ''news_energy_last5_cat'', u ''news_recency_major_cat'',
      u ''news_span_last14_cat'', u ''news_holiday_overlay_cat'']"

definition build_news_compact_features :: "externals \<Rightarrow> frame \<Rightarrow> frame" where
  "build_news_compact_features E out =
     (let full_range = cal_dates (map (\<lambda>r. cell_day (r (u ''msk_day''))) (rows out));
          news_daily = aux_table E out [u ''msk_day''] news_daily_columns
                         (map (\<lambda>d. [Stamp (86400 * d)]) full_range)
      in merge [u ''msk_day''] [u ''msk_day''] news_daily out)"

subsection \<open>The geomagnetic columns\<close>

text \<open>
  \<open>add_magnetic_storm_features\<close> on the table (the source text is given with the
  geomagnetic engine): without the index files two columns are assigned and the table
  is returned as it is; with them the daily table is joined, the table is sorted by the
  Moscow day and the auxiliary columns are dropped at the end.
\<close>

definition mag_table :: "(date \<times> rat option) list \<Rightarrow> frame" where
  "mag_table daily =
     \<lparr>columns = [u ''date'', u ''Kp_daily''],
      rows = map (\<lambda>(d, kp). (\<lambda>c. NaN)
                    (u ''date'' := Stamp (86400 * d),
                     u ''Kp_daily'' := (case kp of None \<Rightarrow> NaN | Some v \<Rightarrow> Num v))) daily\<rparr>"

definition add_magnetic_storm_features_df :: "externals \<Rightarrow> frame \<Rightarrow> frame" where
  "add_magnetic_storm_features_df E df =
     (case load_magnetic_indices (kp_index E) (ap_index E) of
        None \<Rightarrow> derive E [u ''mag_storm_level_cat'', u ''mag_storm_change_cat''] df
      | Some daily \<Rightarrow>
          (let merged = merge [u ''msk_day''] [u ''date''] (mag_table daily) df;
               leveled = derive E [u ''Kp_daily'', u ''mag_storm_level_cat''] merged;
               by_day = sort_values (\<lambda>r. na_last_cell (r (u ''msk_day''))) leveled;
               changed = derive E [u ''Kp_prev'', u ''Kp_change'', u ''mag_storm_change_cat'']
                           by_day
           in drop_columns [u ''Kp_daily'', u ''Kp_prev'', u ''Kp_change'', u ''date'']
                changed))"

subsection \<open>The weight, the tension index and the columns of the result\<close>

text \<open>
  \<^verbatim>\<open>
  if 'ww' in df.columns:
      df['ww_weight'] = pd.to_numeric(...).fillna(1.0)
  else:
      df['ww_weight'] = 1.0

  def add_astro_tension_index(enriched, windows=ASTRO_TENSION_WINDOW):
      df = enriched.copy()
      event_weights = {'is_retrograde_any_cat': 1, 'is_ingress_any_cat': 2,
                       'is_station_any_cat': 3, 'lunnoe_zatmenie_cat': 5,
                       'solnechnoe_zatmenie_cat': 5}
      astro_flags = [c for c in event_weights.keys() if c in df.columns]
      if not astro_flags:
          return df
      unique_dates = df[['tz', 'day_local'] + astro_flags].dropna(subset=['day_local'])
                       .drop_duplicates()
      unique_dates.sort_values(['tz', 'day_local'], inplace=True)
      for w in windows:
          ...
          unique_dates[f'astro_tension_last{w}_cat'] = ...
          df = df.merge(unique_dates[['tz', 'day_local', f'astro_tension_last{w}_cat']],
                        on=['tz', 'day_local'], how='left')
      return df
  \<close>
  with \<open>ASTRO_TENSION_WINDOW = [5]\<close>.
\<close>

definition add_ww_weight :: "externals \<Rightarrow> frame \<Rightarrow> frame" where
  "add_ww_weight E df =
     (if u ''ww'' \<in> set (columns df) then derive E [u ''ww_weight''] df
      else assign (u ''ww_weight'') (\<lambda>i. Num 1) df)"

definition event_weights :: "colname list" where
  "event_weights =
     [u ''is_retrograde_any_cat'', u ''is_ingress_any_cat'', u ''is_station_any_cat'',
      [1083, 1091, 1085, 1085, 1086, 1077, 95, 1079, 1072, 1090, 1084, 1077, 1085, 1080,
       1077, 95, 99, 97, 116],  \<comment> \<open>lunnoe_zatmenie_cat\<close>
      [1089, 1086, 1083, 1085, 1077, 1095, 1085, 1086, 1077, 95, 1079, 1072, 1090, 1084,
       1077, 1085, 1080, 1077, 95, 99, 97, 116]]  \<comment> \<open>solnechnoe_zatmenie_cat\<close>"

definition tz_date_key :: "row \<Rightarrow> (nat \<times> ustring) \<times> (nat \<times> int)" where
  "tz_date_key r = (text_key (r (u ''tz'')), na_last_cell (r (u ''day_local'')))"

definition add_astro_tension_index :: "externals \<Rightarrow> frame \<Rightarrow> frame" where
  "add_astro_tension_index E df =
     (let astro_flags = filter (\<lambda>c. c \<in> set (columns df)) event_weights
      in if astro_flags = [] then df
         else
           (let unique_dates =
                  sort_values tz_date_key
                    (drop_duplicates_df
                       (dropna [u ''day_local'']
                          (select ([u ''tz'', u ''day_local''] @ astro_flags) df)));
                tension = derive E [u ''astro_tension_last5_cat''] unique_dates
            in merge [u ''tz'', u ''day_local''] [u ''tz'', u ''day_local'']
                 (select [u ''tz'', u ''day_local'', u ''astro_tension_last5_cat''] tension)
                 df))"

text \<open>
  \<^verbatim>\<open>
  def build_feature_lists_all(df):
      cx_cols = [c for c in CX_CAT if c in df.columns]            # CX_CAT = []
      profile_cols = [c for c in PROFILE_CAT if c in df.columns]  # PROFILE_CAT = []
      cal_cols     = [c for c in CALENDAR_COMPACT_CAT if c in df.columns]
      astro_cols   = [c for c in ASTRO_CAT_BINS if c in df.columns]
      weather_cols = [c for c in WEATHER_COMPACT_CAT if c in df.columns]
      news_cols    = [c for c in NEWS_COMPACT_CAT if c in df.columns]
      lag_cols     = [c for c in df.columns if 'astro_tension_last' in str(c)]
      cat_cols = list(dict.fromkeys(cx_cols + profile_cols + cal_cols + astro_cols
                                    + weather_cols + news_cols + lag_cols))
      return cat_cols, num_cols
  \<close>
\<close>

definition CALENDAR_COMPACT_CAT :: "colname list" where
  "CALENDAR_COMPACT_CAT =
     [u ''cal_day_type3'', u ''cal_weekday_4'', u ''cal_week_of_month'',
      u ''cal_month_phase3'', u ''cal_quarter'', u ''cal_season'', u ''cal_holiday_type4'',
      u ''cal_holiday_window5'', u ''cal_long_weekend'', u ''cal_school_break_ext'',
      u ''cal_payday_proximity'', u ''cal_is_blue_monday'']"

definition WEATHER_COMPACT_CAT :: "colname list" where
  "WEATHER_COMPACT_CAT =
     [u ''wth_daylight_duration_cat'', u ''wth_temp_feels_like_cat'',
      u ''wth_precipitation_cat'', u ''wth_wind_speed_cat'', u ''wth_complex_weather_cat'',
      u ''wth_bad_weather_last5_cat'', u ''wth_extreme_temp_last5_cat'',
      u ''wth_national_bad_weather_scale_cat'', u ''wth_national_temp_anomaly_scale_cat'',
      u ''wth_seasonal_temp_anomaly_cat'', u ''wth_temp_change_cat'',
      u ''wth_sunshine_ratio_cat'', u ''wth_precipitation_change_cat'',
      u ''wth_pressure_change_cat'', u ''wth_wind_speed_change_cat'',
      u ''mag_storm_level_cat'', u ''mag_storm_change_cat'']"

definition NEWS_COMPACT_CAT :: "colname list" where
  "NEWS_COMPACT_CAT =
     [u ''news_day_group7'', u ''news_burst_last5_cat'', u ''news_topics_last5_cat'',
      u ''news_tone_day_cat'', u ''news_tone_last5_cat'', u ''news_macro_risk_last5_cat'',
      u ''news_security_risk_last5_cat'', u ''news_it_pay_last5_cat'',
      u ''news_energy_last5_cat'', u ''news_recency_major_cat'', u ''news_span_last14_cat'',
      u ''news_holiday_overlay_cat'', u ''news_tone_change_cat'']"

definition build_feature_lists_all :: "frame \<Rightarrow> colname list" where
  "build_feature_lists_all df =
     (let present = (\<lambda>cs. filter (\<lambda>c. c \<in> set (columns df)) cs);
          lag_cols = filter (\<lambda>c. contains c (u ''astro_tension_last'')) (columns df)
      in drop_duplicates (present CALENDAR_COMPACT_CAT @ present ASTRO_CAT_BINS
                        @ present WEATHER_COMPACT_CAT @ present NEWS_COMPACT_CAT @ lag_cols))"

subsection \<open>The orchestrator\<close>

text \<open>
  \<^verbatim>\<open>
  def enrich_data_full(df, date_col='business_dt', region_col='region'):
      df = df.copy()
      initial_cols = df.columns.tolist()
      ...                                   # region, zone and the two days
      ...                                   # astronomical categories
      df = add_calendar_compact_features(df)
      ...                                   # weather
      df = build_news_compact_features(df, events_path=EVENTS_TSV_PATH,
                                       date_col_msk='msk_day', **NEWS_CONFIG)
      df = add_magnetic_storm_features(df, KP_INDEX_PATH, AP_INDEX_PATH,
                                       date_col_msk='msk_day')
      ...                                   # ww_weight
      df = add_astro_tension_index(df, windows=ASTRO_TENSION_WINDOW)
      cat_cols, _ = build_feature_lists_all(df)
      keep_cols = initial_cols + ['day_local', 'msk_day', 'ww_weight'] + cat_cols
      keep_cols = list(dict.fromkeys(keep_cols))
      final_df = df[[c for c in keep_cols if c in df.columns]].copy()
      ...
      return final_df, cat_cols
  \<close>
  Reading a column that the table does not have is a \<open>KeyError\<close>.
\<close>

definition enrich_data_full :: "externals \<Rightarrow> frame \<Rightarrow> failure + frame \<times> colname list" where
  "enrich_data_full E df =
     (let initial_cols = columns df
      in if u ''region'' \<notin> set initial_cols then Inl (KeyError (u ''region''))
         else if u ''business_dt'' \<notin> set initial_cols then Inl (KeyError (u ''business_dt''))
         else
           (case add_calendar_compact_features_df E (add_astro E (localize_df E df)) of
              Inl e \<Rightarrow> Inl e
            | Inr with_calendar \<Rightarrow>
                (case add_weather E with_calendar of
                   Inl e \<Rightarrow> Inl e
                 | Inr with_weather \<Rightarrow>
                     (let enriched =
                            add_astro_tension_index E
                              (add_ww_weight E
                                 (add_magnetic_storm_features_df E
                                    (build_news_compact_features E with_weather)));
                          cat_cols = build_feature_lists_all enriched;
                          keep_cols = drop_duplicates
                                        (initial_cols
                                         @ [u ''day_local'', u ''msk_day'', u ''ww_weight'']
                                         @ cat_cols)
                      in Inr (select (filter (\<lambda>c. c \<in> set (columns enriched)) keep_cols)
                                enriched,
                              cat_cols)))))"

subsection \<open>The names that the run writes\<close>

text \<open>
  The names of the columns that \<open>enrich_data_full\<close> and the engines assign, join to
  the table or drop, apart from the date column: those of the localization, of the
  astronomical and the calendar engine, of the weather tables and the weather engine,
  of the news and the geomagnetic engine, the weight and the tension index.
\<close>

definition weather_columns :: "colname list" where
  "weather_columns =
     [u ''daylight_hours'', u ''tavg'', u ''wspd_kmh'', u ''precipitation_mm'', u ''pres'',
      u ''tsun'', u ''wth_sunshine_ratio_cat'', u ''wth_daylight_duration_cat'',
      u ''temp_feels_like'', u ''wth_temp_feels_like_cat'', u ''__year'', u ''__month'',
      u ''seasonal_mean_t'', u ''__seasonal_temp_anomaly_deg'',
      u ''wth_seasonal_temp_anomaly_cat'', u ''wth_temp_change_cat'',
      u ''wth_precipitation_cat'', u ''wth_precipitation_change_cat'',
      u ''wth_wind_speed_cat'', u ''wth_pressure_change_cat'',
      u ''wth_wind_speed_change_cat'', u ''wth_complex_weather_cat'',
      u ''__is_bad_weather'', u ''__is_extreme_temp'', u ''wth_bad_weather_last5_cat'',
      u ''wth_extreme_temp_last5_cat'', u ''wth_national_bad_weather_scale_cat'',
      u ''wth_national_temp_anomaly_scale_cat'']"

definition magnetic_columns :: "colname list" where
  "magnetic_columns =
     [u ''date'', u ''Kp_daily'', u ''mag_storm_level_cat'', u ''Kp_prev'', u ''Kp_change'',
      u ''mag_storm_change_cat'']"

definition later_columns :: "colname list" where
  "later_columns =
     ASTRO_CAT_BINS @ CALENDAR_COMPACT_CAT @ weather_columns @ news_daily_columns
     @ magnetic_columns @ [u ''ww_weight'', u ''astro_tension_last5_cat'']"

definition written_columns :: "colname list" where
  "written_columns =
     [u ''region_std'', u ''tz'', u ''msk_day'', u ''day_local''] @ later_columns"

text \<open>
  \<open>carried cs df df'\<close>: the table \<open>df'\<close> has the columns \<open>cs\<close>, and cut down to
  them its rows are those of \<open>df\<close>, in their order, each once or several times.
  \<open>preserved cs df df'\<close>: the same, in any order.
\<close>

definition carried :: "colname list \<Rightarrow> frame \<Rightarrow> frame \<Rightarrow> bool" where
  "carried cs df df' \<longleftrightarrow>
     set cs \<subseteq> set (columns df') \<and> expansion (proj cs df) (proj cs df')"

definition preserved :: "colname list \<Rightarrow> frame \<Rightarrow> frame \<Rightarrow> bool" where
  "preserved cs df df' \<longleftrightarrow>
     set cs \<subseteq> set (columns df') \<and> set (proj cs df') = set (proj cs df)
     \<and> mset (proj cs df) \<subseteq># mset (proj cs df')"

section \<open>Sample data\<close>

text \<open>Region names: Moskovskoj oblasti (of the Moscow region, prepositional case),
  Moskovskaya oblast' (Moscow region), Primorskom krae, Primorskij kraj (Primorye
  territory, whose zone in the fallback table is Asia/Vladivostok).\<close>

definition Moskovskoj_oblasti :: ustring where
  "Moskovskoj_oblasti =
     [1052, 1086, 1089, 1082, 1086, 1074, 1089, 1082, 1086, 1081, 32,
      1086, 1073, 1083, 1072, 1089, 1090, 1080]"

definition Moskovskaya_oblast :: ustring where
  "Moskovskaya_oblast =
     [1052, 1086, 1089, 1082, 1086, 1074, 1089, 1082, 1072, 1103, 32,
      1086, 1073, 1083, 1072, 1089, 1090, 1100]"

definition Primorskom_krae :: ustring where
  "Primorskom_krae =
     [1055, 1088, 1080, 1084, 1086, 1088, 1089, 1082, 1086, 1084, 32, 1082, 1088, 1072, 1077]"


text \<open>The offsets from UTC, in hours, of the zones of the fallback table in 2024.\<close>

definition utc_offset_2024 :: "string \<Rightarrow> int" where
  "utc_offset_2024 zone =
     3600 * (case map_of
       [(''Europe/Kaliningrad'', 2), (''Europe/Moscow'', 3), (''Europe/Volgograd'', 3),
        (''Europe/Samara'', 4), (''Europe/Astrakhan'', 4), (''Europe/Saratov'', 4),
        (''Europe/Ulyanovsk'', 4), (''Asia/Yekaterinburg'', 5), (''Asia/Omsk'', 6),
        (''Asia/Novosibirsk'', 7), (''Asia/Tomsk'', 7), (''Asia/Novokuznetsk'', 7),
        (''Asia/Barnaul'', 7), (''Asia/Krasnoyarsk'', 7), (''Asia/Irkutsk'', 8),
        (''Asia/Chita'', 9), (''Asia/Yakutsk'', 9), (''Asia/Vladivostok'', 10),
        (''Asia/Sakhalin'', 11), (''Asia/Magadan'', 11), (''Asia/Kamchatka'', 12)] zone of
       Some h \<Rightarrow> h
     | None \<Rightarrow> 0)"

text \<open>The public holidays of Russia in March 2024: 8 March, Mezhdunarodnyj zhenskij
  den' (International Women's Day).\<close>

definition ru_hol_march_2024 :: "date \<Rightarrow> ustring option" where
  "ru_hol_march_2024 x =
     (if x = days_from_civil 2024 3 8
      then Some [1052, 1077, 1078, 1076, 1091, 1085, 1072, 1088, 1086, 1076, 1085, 1099, 1081,
                 32, 1078, 1077, 1085, 1089, 1082, 1080, 1081, 32, 1076, 1077, 1085, 1100]
      else None)"

text \<open>The record of the end-to-end scenario: the Moscow region on 20 March 2024 at
  15:00.\<close>

definition moscow_record :: survey where
  "moscow_record =
     \<lparr>region = Moskovskoj_oblasti, business_dt = Some (timestamp_of 2024 3 20 15 0 0)\<rparr>"


text \<open>Index files for 19 and 20 March 2024: Kp 2 on the 19th and 5 on the 20th, two
  readings a day. Three records, numbered 1 to 3: one of the 19th and two of the 20th.\<close>

definition kp_march :: readings where
  "kp_march =
     [(timestamp_of 2024 3 19 0 0 0, 2), (timestamp_of 2024 3 19 3 0 0, 2),
      (timestamp_of 2024 3 20 0 0 0, 5), (timestamp_of 2024 3 20 3 0 0, 5)]"

definition ap_march :: readings where
  "ap_march =
     [(timestamp_of 2024 3 19 0 0 0, 7), (timestamp_of 2024 3 20 0 0 0, 48)]"

definition three_records :: "(date option \<times> nat) list" where
  "three_records =
     [(Some (days_from_civil 2024 3 19), 1), (Some (days_from_civil 2024 3 20), 2),
      (Some (days_from_civil 2024 3 20), 3)]"

text \<open>An ephemeris for the first 360 days: every body moves forward by one degree a
  day, except Mercury, which moves backward by one degree a day.\<close>

definition sample_ephemeris :: "body \<Rightarrow> real \<Rightarrow> real" where
  "sample_ephemeris p t =
     (if 0 < t \<and> t < 360
      then (if p = Mercury then (360 - t) * pi / 180 else t * pi / 180)
      else 0)"

text \<open>Event texts: "Obstrel v Belgorode" (shelling in Belgorod), "obstrel Belgoroda
  (povtor)" (shelling of Belgorod (repeat)), "Obstrel Belgoroda" (shelling of Belgorod);
  the category "Bezopasnost'" (security).\<close>

definition Obstrel_v_Belgorode :: ustring where
  "Obstrel_v_Belgorode =
     [1054, 1073, 1089, 1090, 1088, 1077, 1083, 32, 1074, 32,
      1041, 1077, 1083, 1075, 1086, 1088, 1086, 1076, 1077]"

definition obstrel_Belgoroda_povtor :: ustring where
  "obstrel_Belgoroda_povtor =
     [1086, 1073, 1089, 1090, 1088, 1077, 1083, 32,
      1041, 1077, 1083, 1075, 1086, 1088, 1086, 1076, 1072, 32,
      40, 1087, 1086, 1074, 1090, 1086, 1088, 41]"

definition Obstrel_Belgoroda :: ustring where
  "Obstrel_Belgoroda =
     [1054, 1073, 1089, 1090, 1088, 1077, 1083, 32,
      1041, 1077, 1083, 1075, 1086, 1088, 1086, 1076, 1072]"

definition Bezopasnost :: ustring where
  "Bezopasnost = [1041, 1077, 1079, 1086, 1087, 1072, 1089, 1085, 1086, 1089, 1090, 1100]"

text \<open>The normalized texts "v belgorode" and "belgoroda".\<close>

definition v_belgorode :: ustring where
  "v_belgorode = [1074, 32, 1073, 1077, 1083, 1075, 1086, 1088, 1086, 1076, 1077]"

definition belgoroda :: ustring where
  "belgoroda = [1073, 1077, 1083, 1075, 1086, 1088, 1086, 1076, 1072]"

text \<open>The catalogue of the scenario: the two events on 20 March 2024; and a catalogue
  whose first event has the wording of the second.\<close>

definition belgorod_catalog :: "(date \<times> ustring \<times> ustring) list" where
  "belgorod_catalog =
     [(days_from_civil 2024 3 20, Obstrel_v_Belgorode, Bezopasnost),
      (days_from_civil 2024 3 20, obstrel_Belgoroda_povtor, Bezopasnost)]"

definition belgorod_catalog_same_wording :: "(date \<times> ustring \<times> ustring) list" where
  "belgorod_catalog_same_wording =
     [(days_from_civil 2024 3 20, Obstrel_Belgoroda, Bezopasnost),
      (days_from_civil 2024 3 20, obstrel_Belgoroda_povtor, Bezopasnost)]"

text \<open>The security entries of a day in a list of events.\<close>

definition security_entries_on :: "date \<Rightarrow> news_event list \<Rightarrow> news_event list" where
  "security_entries_on d evs =
     filter (\<lambda>e. group e = Bezopasnost_ChS \<and> event_date e = d) evs"

text \<open>
  What is outside the table in the sample runs: no geographic index, the zone offsets of
  2024, no weather for any region, no index files (or the two index files of March
  2024), and missing values for all derived columns. The date parser of the sample runs
  keeps a timestamp; the only other value of the date column in the sample tables is the
  empty text, which is no date.
\<close>

definition sample_externals :: externals where
  "sample_externals =
     \<lparr>TF = None, tz_database = utc_offset_2024,
      pd_to_datetime = (\<lambda>v. case v of Stamp t \<Rightarrow> Some t | _ \<Rightarrow> None),
      meteostat = (\<lambda>b. None), kp_index = None, ap_index = None,
      derived = (\<lambda>c b i. NaN), grouped = (\<lambda>c b k. NaN)\<rparr>"

definition sample_externals_with_indices :: externals where
  "sample_externals_with_indices =
     sample_externals\<lparr>kp_index := Some kp_march, ap_index := Some ap_march\<rparr>"

text \<open>Survey tables with the columns region, business_dt and score. The first: the
  Moscow region on 21 March 2024 at 10:00 with the score 9, then the Primorye territory
  on 20 March 2024 at 10:00 with the score 3. The second: the same, the date of the
  second record being the empty text.\<close>

definition survey_row :: "ustring \<Rightarrow> cell \<Rightarrow> rat \<Rightarrow> row" where
  "survey_row reg dt score =
     (\<lambda>c. NaN)(u ''region'' := Text reg, u ''business_dt'' := dt, u ''score'' := Num score)"

definition sample_table :: frame where
  "sample_table =
     \<lparr>columns = [u ''region'', u ''business_dt'', u ''score''],
      rows = [survey_row Moskovskoj_oblasti (Stamp (timestamp_of 2024 3 21 10 0 0)) 9,
              survey_row Primorskom_krae (Stamp (timestamp_of 2024 3 20 10 0 0)) 3]\<rparr>"

definition sample_table_text_date :: frame where
  "sample_table_text_date =
     \<lparr>columns = [u ''region'', u ''business_dt'', u ''score''],
      rows = [survey_row Moskovskoj_oblasti (Stamp (timestamp_of 2024 3 21 10 0 0)) 9,
              survey_row Primorskom_krae (Text []) 3]\<rparr>"

section \<open>Results\<close>

subsection \<open>The long-weekend flag\<close>

text \<open>
  C3. The claim: a date is flagged as long weekend exactly when some window of three
  consecutive days that contains the date is entirely non-working. The code flags the
  last day of such a window and the two days after it: in the fortnight of 8 March 2024
  the holiday Friday and the Saturday (first two days of the three-day weekend) are
  flagged 'net', the Sunday is flagged 'da', and so are the working Monday and Tuesday
  that follow, although no three-day window containing them is without a working day.
\<close>

theorem long_weekend_march_2024:
  "is_nonwork march_2024_dows march_2024_holidays
     = [0, 0, 0, 0, 1, 1, 1, 0, 0, 0, 0, 0, 1, 1]
   \<and> long_weekend march_2024_dows march_2024_holidays
     = [net, net, net, net, net, net, da, da, da, net, net, net, net, net]"
  by (simp add: long_weekend_def long_any_def end3_def rolling_sum_def window_def
      observed_def List.map_filter_def shift_fill_def is_nonwork_def is_weekend_def
      march_2024_dows_def march_2024_holidays_def yesno_of_def upt_rec)

subsection \<open>The five-day weather counts\<close>

lemma days_from_civil_jan_2024:
  "days_from_civil 2024 1 2 = 19724" "days_from_civil 2024 1 3 = 19725"
  "days_from_civil 2024 1 4 = 19726"
  by (simp_all add: days_from_civil_def)

lemma base_two_regions:
  "map (\<lambda>r. (wx_region_std r, wx_day_local r, is_bad_weather r, is_extreme_temp r))
     (base (two_regions f))
   = [(Moskva, 19724, f, f), (Moskva, 19725, f, f), (Moskva, 19726, f, f),
      (Sankt_Peterburg, 19725, 0, 0), (Sankt_Peterburg, 19726, 0, 0)]"
  by (simp add: base_def two_regions_def Moskva_def Sankt_Peterburg_def
      days_from_civil_jan_2024)

lemma map_region_flag:
  "map (\<lambda>r. (wx_region_std r, is_bad_weather r)) b
     = map (\<lambda>(g, d, x, y). (g, x))
         (map (\<lambda>r. (wx_region_std r, wx_day_local r, is_bad_weather r, is_extreme_temp r)) b)"
  "map (\<lambda>r. (wx_region_std r, is_extreme_temp r)) b
     = map (\<lambda>(g, d, x, y). (g, y))
         (map (\<lambda>r. (wx_region_std r, wx_day_local r, is_bad_weather r, is_extreme_temp r)) b)"
  by simp_all

lemmas roll5_eval =
  rolling_sum_def window_def observed_def List.map_filter_def fillna_def upt_rec
  Moskva_def Sankt_Peterburg_def

text \<open>
  C1. The claim: the five-day counts of a region's day use only the flags of strictly
  earlier days of the same region. The code takes the previous row per region
  (\<open>groupby(region).shift(1)\<close>) and then rolls over the whole table, across the
  region boundary. With three bad and anomalous days in Moscow, the first days of Saint
  Petersburg (calm, no earlier day of their own with a flag) are counted as '2-3 days'
  for both features; with three calm days in Moscow the same Saint Petersburg rows are
  counted as '0 days'. The rows of Saint Petersburg are the last two of the table.
\<close>

theorem weather_last5_crosses_regions:
  "wth_bad_weather_last5_cat (base (two_regions 1))
     = [Some bad_0_days, Some bad_1_day, Some bad_2_3_days,
        Some bad_2_3_days, Some bad_2_3_days]
   \<and> wth_bad_weather_last5_cat (base (two_regions 0))
     = [Some bad_0_days, Some bad_0_days, Some bad_0_days,
        Some bad_0_days, Some bad_0_days]
   \<and> wth_extreme_temp_last5_cat (base (two_regions 1))
     = [Some ext_0_days, Some ext_1_day, Some ext_2_3_days,
        Some ext_2_3_days, Some ext_2_3_days]
   \<and> wth_extreme_temp_last5_cat (base (two_regions 0))
     = [Some ext_0_days, Some ext_0_days, Some ext_0_days,
        Some ext_0_days, Some ext_0_days]"
  unfolding wth_bad_weather_last5_cat_def wth_extreme_temp_last5_cat_def
    bad_roll5_def ext_roll5_def map_region_flag base_two_regions
  by (simp add: roll5_eval)

subsection \<open>Dates and tables at the sample data\<close>

lemma days_march_2024:
  "days_from_civil 2024 3 8 = 19790" "days_from_civil 2024 3 20 = 19802"
  "days_from_civil 2024 3 21 = 19803"
  by (simp_all add: days_from_civil_def)

lemma civil_march_2024:
  "civil_from_days 19802 = (2024, 3, 20)" "civil_from_days 19803 = (2024, 3, 21)"
  by code_simp+

lemmas table_eval =
  map_of_Cons_code list.inject numeral_eq_iff num.inject num.distinct if_True if_False
  simp_thms option.simps list.simps

lemma gent_moscow: "map_of REGION_GENT_TO_NOM Moskovskoj_oblasti = Some Moskovskaya_oblast"
  by (simp only: REGION_GENT_TO_NOM_def Moskovskoj_oblasti_def Moskovskaya_oblast_def table_eval)


lemma fallback_moscow: "tz_fallback Moskovskaya_oblast = ''Europe/Moscow''"
  unfolding tz_fallback_def
  by (simp only: RU_TZ_BY_REGION_def Moskovskaya_oblast_def table_eval)


lemma coords_moscow:
  "\<exists>rest. map_of REGION_COORDS_MASTER Moskovskaya_oblast = Some ((55.7558, 37.6173) # rest)"
  by (simp only: REGION_COORDS_MASTER_def Moskovskaya_oblast_def table_eval)

lemma region_to_tz_moscow:
  assumes "tf = None \<or> (\<exists>f. tf = Some f \<and>
             (f (55.7558, 37.6173) = None \<or> f (55.7558, 37.6173) = Some ''Europe/Moscow''))"
  shows "region_to_tz tf Moskovskaya_oblast = ''Europe/Moscow''"
proof -
  obtain rest where c:
    "map_of REGION_COORDS_MASTER Moskovskaya_oblast = Some ((55.7558, 37.6173) # rest)"
    using coords_moscow by blast
  from assms show ?thesis
    by (auto simp: region_to_tz_def c fallback_moscow)
qed

lemma localize_moscow_record:
  assumes "tf = None \<or> (\<exists>f. tf = Some f \<and>
             (f (55.7558, 37.6173) = None \<or> f (55.7558, 37.6173) = Some ''Europe/Moscow''))"
  shows "localize tf utc_offset moscow_record =
     \<lparr>region = Moskovskoj_oblasti, business_dt = Some (timestamp_of 2024 3 20 15 0 0),
      region_std = Moskovskaya_oblast, tz = ''Europe/Moscow'',
      msk_day = Some 19802, day_local = Some 19802\<rparr>"
  by (simp add: localize_def moscow_record_def gent_moscow region_to_tz_moscow[OF assms]
      tz_convert_def normalize_def timestamp_of_def days_march_2024)



subsection \<open>The calendar features read the day they are given\<close>

lemma calendar_features_season:
  "cal_season (calendar_features c d) = season_cat (map_option month_of d)"
  by (simp add: calendar_features_def Let_def)

lemma calendar_features_month_phase:
  "cal_month_phase3 (calendar_features c d) = month_phase (map_option day_of d)"
  by (simp add: calendar_features_def Let_def)

lemma fields_march_2024:
  "month_of 19802 = 3" "day_of 19802 = 20" "month_of 19803 = 3" "day_of 19803 = 21"
  by (simp_all add: month_of_def day_of_def civil_march_2024)

lemma cal_dates_nonempty: "d \<noteq> [] \<Longrightarrow> \<forall>x \<in> set d. x \<noteq> None \<Longrightarrow> cal_dates d \<noteq> []"
proof -
  assume ne: "d \<noteq> []" and obs: "\<forall>x \<in> set d. x \<noteq> None"
  then obtain x xs where o: "observed d = x # xs"
    by (cases d) (auto simp: observed_def List.map_filter_def)
  have le: "fold min xs x \<le> fold max xs x"
  proof -
    have "fold min xs x \<le> x"
    proof (induction xs arbitrary: x)
      case Nil
      show ?case by simp
    next
      case (Cons a xs)
      from Cons.IH [of "min a x"] show ?case by simp
    qed
    moreover have "x \<le> fold max xs x"
    proof (induction xs arbitrary: x)
      case Nil
      show ?case by simp
    next
      case (Cons a xs)
      from Cons.IH [of "max a x"] show ?case by simp
    qed
    ultimately show ?thesis by simp
  qed
  show ?thesis using le by (simp add: cal_dates_def o upto.simps)
qed

lemma add_calendar_eq:
  assumes "cal_dates msk \<noteq> []"
  shows "add_calendar_compact_features ru_hol (Some msk) loc =
           Inr (map (calendar_features (cal_df ru_hol (cal_dates msk))) msk)"
  using assms by (simp add: add_calendar_compact_features_def Let_def)

text \<open>
  C6. The end-to-end scenario of one record: region "Moskovskoj oblasti", business
  timestamp 2024-03-20T15:00:00. Provided that the geographic time-zone index is absent,
  or has no answer for the first reference point of the Moscow region, or answers
  Europe/Moscow, the record gets the canonical region "Moskovskaya oblast'", the zone
  Europe/Moscow, the Moscow day and the local day 20 March 2024, the season Vesna
  (spring) and the month phase seredina (middle): the 20th is the last day that
  \<open>month_phase\<close> counts to the middle of the month, not the first of its end. This
  holds for every time-zone database and every holiday calendar.
\<close>

theorem enrich_moscow_record:
  assumes "tf = None \<or> (\<exists>f. tf = Some f \<and>
             (f (55.7558, 37.6173) = None \<or> f (55.7558, 37.6173) = Some ''Europe/Moscow''))"
  shows "region_std (localize tf utc_offset moscow_record) = Moskovskaya_oblast
       \<and> tz (localize tf utc_offset moscow_record) = ''Europe/Moscow''
       \<and> msk_day (localize tf utc_offset moscow_record) = Some (days_from_civil 2024 3 20)
       \<and> day_local (localize tf utc_offset moscow_record) = Some (days_from_civil 2024 3 20)
       \<and> map_sum id (map (\<lambda>f. (cal_season f, cal_month_phase3 f)))
           (enrich_calendar tf utc_offset ru_hol [moscow_record]) = Inr [(Vesna, seredina)]"
proof -
  note loc = localize_moscow_record[OF assms, of utc_offset]
  have "cal_dates [Some 19802] \<noteq> []"
    by (rule cal_dates_nonempty) simp_all
  then have "enrich_calendar tf utc_offset ru_hol [moscow_record] =
      Inr [calendar_features (cal_df ru_hol (cal_dates [Some 19802])) (Some 19802)]"
    by (simp add: enrich_calendar_def loc add_calendar_eq)
  then show ?thesis
    by (simp add: loc days_march_2024 calendar_features_season calendar_features_month_phase
        season_cat_def month_phase_def fields_march_2024)
qed

theorem enrich_moscow_record_witness:
  "region_std (localize None utc_offset_2024 moscow_record) = Moskovskaya_oblast
   \<and> tz (localize None utc_offset_2024 moscow_record) = ''Europe/Moscow''
   \<and> msk_day (localize None utc_offset_2024 moscow_record) = Some (days_from_civil 2024 3 20)
   \<and> day_local (localize None utc_offset_2024 moscow_record) = Some (days_from_civil 2024 3 20)
   \<and> map_sum id (map (\<lambda>f. (cal_season f, cal_month_phase3 f)))
       (enrich_calendar None utc_offset_2024 ru_hol_march_2024 [moscow_record])
     = Inr [(Vesna, seredina)]"
  using enrich_moscow_record [of None utc_offset_2024 ru_hol_march_2024] by simp

text \<open>The claim as stated gives the month phase konec (end of the month) for this
  record: the code gives another value.\<close>

theorem moscow_record_month_phase_not_konec:
  "map_sum id (map cal_month_phase3)
     (enrich_calendar None utc_offset_2024 ru_hol_march_2024 [moscow_record]) \<noteq> Inr [konec]"
proof -
  have loc: "map (localize None utc_offset_2024) [moscow_record] =
     [\<lparr>region = Moskovskoj_oblasti, business_dt = Some (timestamp_of 2024 3 20 15 0 0),
       region_std = Moskovskaya_oblast, tz = ''Europe/Moscow'',
       msk_day = Some 19802, day_local = Some 19802\<rparr>]"
    by (simp add: localize_moscow_record)
  have "cal_dates [Some 19802] \<noteq> []"
    by (rule cal_dates_nonempty) simp_all
  then have "enrich_calendar None utc_offset_2024 ru_hol_march_2024 [moscow_record] =
      Inr [calendar_features (cal_df ru_hol_march_2024 (cal_dates [Some 19802])) (Some 19802)]"
    unfolding enrich_calendar_def loc by (simp add: add_calendar_eq)
  then show ?thesis
    by (simp add: calendar_features_month_phase month_phase_def fields_march_2024)
qed

lemma observed_set: "set (observed d) = {x. Some x \<in> set d}"
  by (induction d) (auto simp: observed_def List.map_filter_def)

lemma cal_dates_range:
  "cal_dates d =
     (if observed d = [] then []
      else [Min (set (observed d)) .. Max (set (observed d))])"
proof (cases "observed d")
  case Nil
  then show ?thesis by (simp add: cal_dates_def)
next
  case (Cons x xs)
  have "fold min xs x = Min (set (x # xs))" "fold max xs x = Max (set (x # xs))"
    by (simp_all only: Min.set_eq_fold Max.set_eq_fold)
  then show ?thesis by (simp add: cal_dates_def Cons)
qed






subsection \<open>The geomagnetic features\<close>

text \<open>
  C7. The claim: \<open>mag_storm_change_cat\<close> buckets the change of the daily Kp from the
  previous day to the record's day. The code sorts the records by Moscow day and takes
  the difference to the previous record. Of two records of 20 March 2024 (daily Kp 5,
  after 2 on the 19th) the first is labelled 'rezkij rost' (sharp rise, the change from
  the 19th) and the second 'stabil'no' (stable, the change from the first record of
  the same day); the first record of the table is labelled 'net dannyh' (no data). The
  storm level follows the day's Kp: 'spokojno' (calm) for 2, 'slabaya burya' (weak
  storm) for 5.
\<close>

theorem storm_change_is_row_over_row:
  "map (\<lambda>(r, level, change). (snd r, level, change))
     (add_magnetic_storm_features (load_magnetic_indices (Some kp_march) (Some ap_march))
        three_records)
   = [(1, spokojno, net_dannyh), (2, slabaya_burya, rezkij_rost),
      (3, slabaya_burya, stabilno)]"
  by code_simp

subsection \<open>Speed and the retrograde flags\<close>

lemma degrees_bounds:
  assumes "0 \<le> a" "a < 2 * pi" "0 \<le> b" "b < 2 * pi"
  shows "- 360 < degrees (a - b)" "degrees (a - b) < 360"
proof -
  have "- (2 * pi) < a - b" "a - b < 2 * pi" using assms by simp_all
  then show "- 360 < degrees (a - b)" "degrees (a - b) < 360"
    using pi_gt_zero by (simp_all add: degrees_def pos_less_divide_eq pos_divide_less_eq)
qed

lemma wrap_speed_bounds:
  "- 360 < s \<Longrightarrow> s < 360 \<Longrightarrow> - 180 \<le> wrap_speed s \<and> wrap_speed s \<le> 180"
  by (simp add: wrap_speed_def)

lemma sign_index_in_range:
  assumes "0 \<le> l" "l < 2 * pi"
  shows "0 \<le> \<lfloor>degrees l / 30\<rfloor>" "\<lfloor>degrees l / 30\<rfloor> < 12"
proof -
  have "0 \<le> degrees l" using assms by (simp add: degrees_def)
  moreover have "degrees l < 360"
    using degrees_bounds(2)[of l 0] assms by simp
  ultimately show "0 \<le> \<lfloor>degrees l / 30\<rfloor>" "\<lfloor>degrees l / 30\<rfloor> < 12"
    by (simp_all add: floor_less_iff)
qed

lemma tracked_iff: "p \<in> set PLANETS_TO_TRACK \<longleftrightarrow> p \<noteq> Sun \<and> p \<noteq> Moon"
  by (cases p) (simp_all add: PLANETS_TO_TRACK_def)

lemma get_planet_details_returns:
  assumes "\<forall>q t. 0 \<le> e q t \<and> e q t < 2 * pi"
  shows "\<exists>s. get_planet_details e p d =
           Inr \<lparr>speed = (if p \<in> set PLANETS_TO_TRACK then half_day_difference e p d else 0),
                sign = s, lon = e p d\<rparr>"
proof -
  have "0 \<le> \<lfloor>degrees (e p d) / 30\<rfloor>" "\<lfloor>degrees (e p d) / 30\<rfloor> < 12"
    using sign_index_in_range assms by blast+
  then show ?thesis
    by (simp add: get_planet_details_def py_index_def signs_def half_day_difference_def
        Let_def tracked_iff)
qed

lemma half_day_difference_bounds:
  assumes "\<forall>q t. 0 \<le> e q t \<and> e q t < 2 * pi"
  shows "- 180 \<le> half_day_difference e p d \<and> half_day_difference e p d \<le> 180"
  unfolding half_day_difference_def
  by (rule wrap_speed_bounds) (use assms degrees_bounds in blast)+

lemma retro_step_returns:
  assumes "\<forall>q t. 0 \<le> e q t \<and> e q t < 2 * pi" and "p \<in> set PLANETS_TO_TRACK"
  shows "\<exists>fl'. retro_step e d fl p = Inr fl'
           \<and> is_retro_any fl' = (if half_day_difference e p d < 0 then 1 else is_retro_any fl)
           \<and> is_retro_mercury fl' =
               (if half_day_difference e p d < 0 \<and> p = Mercury then 1 else is_retro_mercury fl)"
proof -
  obtain s where today: "get_planet_details e p d =
      Inr \<lparr>speed = half_day_difference e p d, sign = s, lon = e p d\<rparr>"
    using get_planet_details_returns[OF assms(1), where p = p and d = d] assms(2) by auto
  obtain s' where yesterday: "get_planet_details e p (d - 1) =
      Inr \<lparr>speed = half_day_difference e p (d - 1), sign = s', lon = e p (d - 1)\<rparr>"
    using get_planet_details_returns[OF assms(1), where p = p and d = "d - 1"] assms(2)
    by auto
  show ?thesis
    by (auto simp: retro_step_def today yesterday Let_def)
qed

lemma retro_loop_returns:
  assumes "\<forall>q t. 0 \<le> e q t \<and> e q t < 2 * pi" and "set ps \<subseteq> set PLANETS_TO_TRACK"
  shows "\<exists>fl'. retro_loop e d fl ps = Inr fl'
           \<and> (is_retro_any fl' = 1 \<longleftrightarrow>
                is_retro_any fl = 1 \<or> (\<exists>q \<in> set ps. half_day_difference e q d < 0))
           \<and> (is_retro_mercury fl' = 1 \<longleftrightarrow>
                is_retro_mercury fl = 1 \<or> (Mercury \<in> set ps \<and> half_day_difference e Mercury d < 0))"
  using assms(2)
proof (induction ps arbitrary: fl)
  case Nil
  show ?case by simp
next
  case (Cons p ps)
  then have p: "p \<in> set PLANETS_TO_TRACK" and ps: "set ps \<subseteq> set PLANETS_TO_TRACK"
    by simp_all
  obtain fl1 where step: "retro_step e d fl p = Inr fl1"
    and any1: "is_retro_any fl1 = (if half_day_difference e p d < 0 then 1 else is_retro_any fl)"
    and merc1: "is_retro_mercury fl1 =
      (if half_day_difference e p d < 0 \<and> p = Mercury then 1 else is_retro_mercury fl)"
    using retro_step_returns[OF assms(1) p, where d = d and fl = fl] by blast
  obtain fl' where loop: "retro_loop e d fl1 ps = Inr fl'"
    and any': "is_retro_any fl' = 1 \<longleftrightarrow>
        is_retro_any fl1 = 1 \<or> (\<exists>q \<in> set ps. half_day_difference e q d < 0)"
    and merc': "is_retro_mercury fl' = 1 \<longleftrightarrow>
        is_retro_mercury fl1 = 1 \<or> (Mercury \<in> set ps \<and> half_day_difference e Mercury d < 0)"
    using Cons.IH[OF ps, where fl = fl1] by blast
  have "retro_loop e d fl (p # ps) = Inr fl'"
    by (simp add: step loop)
  moreover have "is_retro_any fl' = 1 \<longleftrightarrow>
      is_retro_any fl = 1 \<or> (\<exists>q \<in> set (p # ps). half_day_difference e q d < 0)"
    using any' any1 by auto
  moreover have "is_retro_mercury fl' = 1 \<longleftrightarrow>
      is_retro_mercury fl = 1 \<or> (Mercury \<in> set (p # ps) \<and> half_day_difference e Mercury d < 0)"
    using merc' merc1 by auto
  ultimately show ?case by blast
qed

lemma sample_ephemeris_range_at:
  "0 \<le> sample_ephemeris q t \<and> sample_ephemeris q t < 2 * pi"
proof (cases "0 < t \<and> t < 360")
  case True
  then have "0 < t * pi" "t * pi < 360 * pi" "0 < (360 - t) * pi" "(360 - t) * pi < 360 * pi"
    using pi_gt_zero by simp_all
  then show ?thesis
    using True by (simp add: sample_ephemeris_def)
next
  case False
  then show ?thesis by (auto simp: sample_ephemeris_def)
qed

lemma sample_half_day_difference:
  "half_day_difference sample_ephemeris Sun 100 = 1"
  "half_day_difference sample_ephemeris Mercury 100 = - 1"
  by (simp_all add: half_day_difference_def sample_ephemeris_def degrees_def wrap_speed_def
      field_simps)

lemma sample_ephemeris_range:
  "\<forall>q t. 0 \<le> sample_ephemeris q t \<and> sample_ephemeris q t < 2 * pi"
  using sample_ephemeris_range_at by blast

text \<open>
  C2. The claim gives every one of the ten bodies the half-day-centred difference of its
  longitude as speed. The code does so for the eight tracked planets (Mercury to Pluto);
  the speed of the Sun and of the Moon is the constant 0. With longitudes in the range
  from 0 to a full turn, as an ephemeris gives them, \<open>get_planet_details\<close> returns,
  the speed of a tracked planet is the difference of the longitudes half a day after and
  before the date, brought back by one turn into the closed range from -180 to 180
  degrees, and the loop of the tracked planets returns with the retrograde flag set
  exactly when one of them has a negative speed, and with the Mercury flag set exactly
  when Mercury has.
\<close>

theorem speed_is_half_day_difference_of_tracked_planets:
  assumes "\<forall>q t. 0 \<le> ecl_lon q t \<and> ecl_lon q t < 2 * pi"
  shows "(\<exists>s. get_planet_details ecl_lon p d =
            Inr \<lparr>speed = (if p \<in> set PLANETS_TO_TRACK
                           then half_day_difference ecl_lon p d else 0),
                 sign = s, lon = ecl_lon p d\<rparr>)
       \<and> - 180 \<le> half_day_difference ecl_lon p d \<and> half_day_difference ecl_lon p d \<le> 180
       \<and> (\<exists>fl. retro_loop ecl_lon d no_flags PLANETS_TO_TRACK = Inr fl
             \<and> (is_retro_any fl = 1 \<longleftrightarrow>
                  (\<exists>q \<in> set PLANETS_TO_TRACK. half_day_difference ecl_lon q d < 0))
             \<and> (is_retro_mercury fl = 1 \<longleftrightarrow> half_day_difference ecl_lon Mercury d < 0))"
proof -
  have merc: "Mercury \<in> set PLANETS_TO_TRACK"
    by (simp add: PLANETS_TO_TRACK_def)
  from retro_loop_returns[OF assms subset_refl, where d = d and fl = no_flags]
  have "\<exists>fl. retro_loop ecl_lon d no_flags PLANETS_TO_TRACK = Inr fl
             \<and> (is_retro_any fl = 1 \<longleftrightarrow>
                  (\<exists>q \<in> set PLANETS_TO_TRACK. half_day_difference ecl_lon q d < 0))
             \<and> (is_retro_mercury fl = 1 \<longleftrightarrow> half_day_difference ecl_lon Mercury d < 0)"
    by (simp add: no_flags_def merc)
  with get_planet_details_returns[OF assms, where p = p and d = d]
    half_day_difference_bounds[OF assms, where p = p and d = d]
  show ?thesis by blast
qed

theorem speed_is_half_day_difference_witness:
  "(\<exists>s. get_planet_details sample_ephemeris Mercury 100 =
            Inr \<lparr>speed = - 1, sign = s, lon = sample_ephemeris Mercury 100\<rparr>)
   \<and> (\<exists>fl. retro_loop sample_ephemeris 100 no_flags PLANETS_TO_TRACK = Inr fl
         \<and> is_retro_any fl = 1 \<and> is_retro_mercury fl = 1)"
proof -
  have merc: "Mercury \<in> set PLANETS_TO_TRACK"
    by (simp add: PLANETS_TO_TRACK_def)
  then have "\<exists>q \<in> set PLANETS_TO_TRACK. half_day_difference sample_ephemeris q 100 < 0"
    by (rule bexI [rotated]) (simp add: sample_half_day_difference)
  with speed_is_half_day_difference_of_tracked_planets
    [OF sample_ephemeris_range, where p = Mercury and d = 100]
  show ?thesis
    using merc by (simp add: sample_half_day_difference)
qed

text \<open>The claim as stated fails for the Sun: in the sample ephemeris it moves by one
  degree a day, and its speed is 0.\<close>

theorem sun_speed_is_zero:
  "map_sum id speed (get_planet_details sample_ephemeris Sun 100) = Inr 0
   \<and> half_day_difference sample_ephemeris Sun 100 = 1"
proof -
  have "Sun \<notin> set PLANETS_TO_TRACK"
    by (simp add: PLANETS_TO_TRACK_def)
  with get_planet_details_returns[OF sample_ephemeris_range, where p = Sun and d = 100]
  show ?thesis
    by (auto simp: sample_half_day_difference)
qed

subsection \<open>The compression of security updates\<close>

lemmas text_eval =
  py_lower_def lower_cp_def strip_def py_isspace_def starts_with_def is_word_def kept_def
  at_word_end_def collapse_spaces_def collapse_other_def update_verbs_def

lemma norm_event_belgorod:
  "norm_event Obstrel_v_Belgorode = v_belgorode"
  "norm_event obstrel_Belgoroda_povtor = belgoroda"
  "norm_event Obstrel_Belgoroda = belgoroda"
  by (simp_all add: norm_event_def Obstrel_v_Belgorode_def obstrel_Belgoroda_povtor_def
      Obstrel_Belgoroda_def v_belgorode_def belgoroda_def text_eval)

lemma normalize_cat_Bezopasnost:
  "normalize_cat_text Bezopasnost =
     [1073, 1077, 1079, 1086, 1087, 1072, 1089, 1085, 1086, 1089, 1090, 1100]"
  by (simp add: normalize_cat_text_def Bezopasnost_def mezhdunar_def chp_def text_eval)

lemma map_news_group_belgorod:
  "map_news_group (normalize_cat_text Bezopasnost) Obstrel_v_Belgorode = Bezopasnost_ChS"
  "map_news_group (normalize_cat_text Bezopasnost) obstrel_Belgoroda_povtor = Bezopasnost_ChS"
  "map_news_group (normalize_cat_text Bezopasnost) Obstrel_Belgoroda = Bezopasnost_ChS"
  unfolding normalize_cat_Bezopasnost
  by (simp_all add: map_news_group_def NEWS_GROUP_PATTERNS_def Obstrel_v_Belgorode_def
      obstrel_Belgoroda_povtor_def Obstrel_Belgoroda_def mezhdunar_def chp_def text_eval)

lemma texts_differ: "v_belgorode \<noteq> belgoroda" "belgoroda \<noteq> v_belgorode"
  by (simp_all add: v_belgorode_def belgoroda_def)

lemma compress_belgorod_catalog:
  "compress_security_updates (classify_events belgorod_catalog) =
     classify_events belgorod_catalog"
  by (simp add: compress_security_updates_def classify_events_def belgorod_catalog_def
      map_news_group_belgorod norm_event_belgorod texts_differ)

lemma compress_belgorod_catalog_same_wording:
  "compress_security_updates (classify_events belgorod_catalog_same_wording) =
     [hd (classify_events belgorod_catalog_same_wording)]"
  by (simp add: compress_security_updates_def classify_events_def
      belgorod_catalog_same_wording_def map_news_group_belgorod norm_event_belgorod)

text \<open>
  C5. The scenario: the events "Obstrel v Belgorode" and "obstrel Belgoroda (povtor)" of
  one day. Both are put into the group Bezopasnost'/ChS, and the compression keeps both:
  their normalized texts are "v belgorode" and "belgoroda" (the update verb and the
  bracket are stripped, the preposition and the case ending stay), and only rows with
  the same date and the same normalized text are merged. With the wording "Obstrel
  Belgoroda" for the first event the two texts are both "belgoroda", and one entry,
  the first, is left.
\<close>

theorem belgorod_updates_are_merged_on_equal_text_only:
  "map (\<lambda>e. (event_date e, event e, group e))
     (compress_security_updates (classify_events belgorod_catalog))
   = [(days_from_civil 2024 3 20, Obstrel_v_Belgorode, Bezopasnost_ChS),
      (days_from_civil 2024 3 20, obstrel_Belgoroda_povtor, Bezopasnost_ChS)]
   \<and> norm_event Obstrel_v_Belgorode = v_belgorode
   \<and> norm_event obstrel_Belgoroda_povtor = belgoroda
   \<and> v_belgorode \<noteq> belgoroda
   \<and> map (\<lambda>e. (event_date e, event e, group e))
       (compress_security_updates (classify_events belgorod_catalog_same_wording))
     = [(days_from_civil 2024 3 20, Obstrel_Belgoroda, Bezopasnost_ChS)]"
  unfolding compress_belgorod_catalog compress_belgorod_catalog_same_wording
  by (simp add: classify_events_def belgorod_catalog_def belgorod_catalog_same_wording_def
      map_news_group_belgorod norm_event_belgorod texts_differ)

text \<open>The claim as stated: one security entry for the day. There are two.\<close>

theorem belgorod_catalog_keeps_two_entries:
  "length (security_entries_on (days_from_civil 2024 3 20)
     (compress_security_updates (classify_events belgorod_catalog))) = 2"
  unfolding compress_belgorod_catalog
  by (simp add: security_entries_on_def classify_events_def belgorod_catalog_def
      map_news_group_belgorod)

subsection \<open>Column names\<close>

lemma u_eq_iff [simp]: "u s = u t \<longleftrightarrow> s = t"
  by (simp add: u_def inj_map_eq_map inj_of_char)

lemma u_append [simp]: "u s @ u t = u (s @ t)"
  by (simp add: u_def)

lemma u_ascii: "x \<in> set (u s) \<Longrightarrow> x < 256"
proof -
  have "of_char c < (256::nat)" for c
    by (cases c) (simp add: of_char_def)
  then show "x \<in> set (u s) \<Longrightarrow> x < 256"
    by (auto simp: u_def)
qed

lemma u_ne_wide [simp]:
  assumes "256 \<le> x"
  shows "u s \<noteq> x # xs" and "x # xs \<noteq> u s" and "u s \<noteq> (x # xs) @ ys" and "(x # xs) @ ys \<noteq> u s"
proof -
  have n: "x \<notin> set (u s)"
    using assms u_ascii [of x s] by auto
  show "u s \<noteq> x # xs" "x # xs \<noteq> u s"
    using n by (metis list.set_intros(1))+
  show "u s \<noteq> (x # xs) @ ys" "(x # xs) @ ys \<noteq> u s"
    using n by (metis list.set_intros(1) append_Cons)+
qed

subsection \<open>Expansions\<close>

lemma expansion_refl: "expansion xs xs"
proof (induction xs)
  case Nil
  show ?case by (rule expansion_Nil)
next
  case (Cons x xs)
  from expansion_Cons [OF Cons, of 1 x] show ?case by simp
qed


lemma expansion_length: "expansion xs ys \<Longrightarrow> length xs \<le> length ys"
  by (induction rule: expansion.induct) auto

lemma expansion_set: "expansion xs ys \<Longrightarrow> set ys = set xs"
  by (induction rule: expansion.induct) auto

lemma expansion_mset: "expansion xs ys \<Longrightarrow> mset xs \<subseteq># mset ys"
proof (induction rule: expansion.induct)
  case expansion_Nil
  show ?case by simp
next
  case (expansion_Cons xs ys n x)
  then obtain m where "n = Suc m" by (cases n) auto
  with expansion_Cons.IH show ?case
    by (simp add: subset_mset.add_increasing)
qed



lemma expansion_append:
  "expansion xs ys \<Longrightarrow> expansion xs' ys' \<Longrightarrow> expansion (xs @ xs') (ys @ ys')"
  by (induction rule: expansion.induct) (auto intro: expansion.intros)

lemma expansion_replicate:
  assumes "expansion (replicate n x) zs"
  shows "\<exists>m. n \<le> m \<and> zs = replicate m x"
  using assms
proof (induction n arbitrary: zs)
  case 0
  then show ?case by (auto elim: expansion.cases)
next
  case (Suc n)
  from Suc.prems obtain k ys where zs: "zs = replicate k x @ ys" and k: "0 < k"
    and ys: "expansion (replicate n x) ys"
    by (auto elim: expansion.cases)
  from Suc.IH [OF ys] obtain m where "n \<le> m" "ys = replicate m x" by blast
  with zs k have "Suc n \<le> k + m \<and> zs = replicate (k + m) x"
    by (simp add: replicate_add)
  then show ?case by blast
qed

lemma expansion_trans: "expansion xs ys \<Longrightarrow> expansion ys zs \<Longrightarrow> expansion xs zs"
proof (induction arbitrary: zs rule: expansion.induct)
  case expansion_Nil
  then show ?case by simp
next
  case (expansion_Cons xs ys n x)
  have split: "expansion (as @ bs) cs \<Longrightarrow>
      \<exists>cs1 cs2. cs = cs1 @ cs2 \<and> expansion as cs1 \<and> expansion bs cs2" for as bs :: "'a list" and cs
  proof (induction as arbitrary: cs)
    case Nil
    then show ?case by (auto intro: expansion.intros)
  next
    case (Cons a as)
    from Cons.prems obtain k ds where cs: "cs = replicate k a @ ds" and k: "0 < k"
      and ds: "expansion (as @ bs) ds"
      by (auto elim: expansion.cases)
    from Cons.IH [OF ds] obtain ds1 ds2 where "ds = ds1 @ ds2" "expansion as ds1" "expansion bs ds2"
      by blast
    with cs k have "cs = (replicate k a @ ds1) @ ds2 \<and> expansion (a # as) (replicate k a @ ds1)
        \<and> expansion bs ds2"
      by (auto intro: expansion.intros)
    then show ?case by blast
  qed
  from split [OF expansion_Cons.prems] obtain zs1 zs2 where zs: "zs = zs1 @ zs2"
    and z1: "expansion (replicate n x) zs1" and z2: "expansion ys zs2"
    by blast
  from expansion_replicate [OF z1] obtain m where m: "n \<le> m" "zs1 = replicate m x" by blast
  from expansion_Cons.IH [OF z2] have "expansion xs zs2" .
  with m \<open>0 < n\<close> have "expansion (x # xs) (replicate m x @ zs2)"
    by (intro expansion.expansion_Cons) auto
  with zs m show ?case by simp
qed

lemma expansion_concat:
  assumes "\<And>x. x \<in> set xs \<Longrightarrow> g x \<noteq> [] \<and> (\<forall>y \<in> set (g x). f y = h x)"
  shows "expansion (map h xs) (map f (concat (map g xs)))"
  using assms
proof (induction xs)
  case Nil
  show ?case by (simp add: expansion_Nil)
next
  case (Cons x xs)
  have "map f (g x) = replicate (length (g x)) (h x)"
    using Cons.prems [of x] by (auto simp: map_replicate_const [symmetric] intro: map_cong)
  moreover have "0 < length (g x)"
    using Cons.prems [of x] by simp
  moreover have "expansion (map h xs) (map f (concat (map g xs)))"
    using Cons by simp
  ultimately show ?case
    by (simp add: expansion_Cons)
qed

subsection \<open>The table operations and the columns they leave alone\<close>

lemma free_append [simp]: "free (ws @ ws') c \<longleftrightarrow> free ws c \<and> free ws' c"
  by (simp add: free_def)

lemma free_subset: "free ws c \<Longrightarrow> set ws' \<subseteq> set ws \<Longrightarrow> free ws' c"
  by (auto simp: free_def list_all_iff)

lemma free_not_in: "free ws c \<Longrightarrow> c \<notin> set ws"
  by (auto simp: free_def list_all_iff)

lemma columns_assign [simp]: "set (columns (assign c s df)) = insert c (set (columns df))"
  by (auto simp: assign_def)

lemma length_rows_assign [simp]: "length (rows (assign c s df)) = length (rows df)"
  by (simp add: assign_def)

lemma proj_assign: "c \<notin> set cs \<Longrightarrow> proj cs (assign c s df) = proj cs df"
proof -
  assume c: "c \<notin> set cs"
  have "map (\<lambda>i. map ((rows df ! i)(c := s i)) cs) [0..<length (rows df)]
      = map (\<lambda>i. map (rows df ! i) cs) [0..<length (rows df)]"
    using c by (intro map_cong refl) auto
  also have "\<dots> = map (\<lambda>r. map r cs) (map ((!) (rows df)) [0..<length (rows df)])"
    by (simp add: comp_def)
  also have "\<dots> = map (\<lambda>r. map r cs) (rows df)"
    by (simp only: map_nth)
  finally show ?thesis
    by (simp add: proj_def assign_def comp_def)
qed

lemma columns_derive [simp]: "set (columns (derive E ws df)) = set (columns df) \<union> set ws"
  unfolding derive_def by (induction ws arbitrary: df) auto

lemma length_rows_derive [simp]: "length (rows (derive E ws df)) = length (rows df)"
  unfolding derive_def by (induction ws arbitrary: df) auto

lemma proj_derive: "set ws \<inter> set cs = {} \<Longrightarrow> proj cs (derive E ws df) = proj cs df"
  unfolding derive_def by (induction ws arbitrary: df) (auto simp: proj_assign)

lemma proj_drop_columns: "set ws \<inter> set cs = {} \<Longrightarrow> proj cs (drop_columns ws df) = proj cs df"
  by (auto simp: proj_def drop_columns_def)

lemma proj_select: "set cs \<subseteq> set ws \<Longrightarrow> proj cs (select ws df) = proj cs df"
  by (auto simp: proj_def select_def)

lemma proj_sort_values: "mset (proj cs (sort_values key df)) = mset (proj cs df)"
  by (simp add: proj_def sort_values_def)

lemma fold_update_other:
  "x \<notin> g ` set ws \<Longrightarrow> fold (\<lambda>c f. f(g c := r c)) ws f0 x = f0 x"
  by (induction ws arbitrary: f0) auto

lemma fold_update_own:
  assumes "g x = x" and "\<forall>c \<in> set ws. g c = x \<longrightarrow> c = x"
    and "x \<in> set ws \<or> f0 x = l x"
  shows "fold (\<lambda>c f. f(g c := l c)) ws f0 x = l x"
  using assms
proof (induction ws arbitrary: f0)
  case Nil
  then show ?case by simp
next
  case (Cons w ws)
  have step: "fold (\<lambda>c f. f(g c := l c)) (w # ws) f0 x
      = fold (\<lambda>c f. f(g c := l c)) ws (f0(g w := l w)) x"
    by simp
  have "fold (\<lambda>c f. f(g c := l c)) ws (f0(g w := l w)) x = l x"
  proof (rule Cons.IH)
    show "g x = x" by (rule Cons.prems)
    show "\<forall>c \<in> set ws. g c = x \<longrightarrow> c = x" using Cons.prems by simp
    show "x \<in> set ws \<or> (f0(g w := l w)) x = l x"
      using Cons.prems by (cases "w = x") auto
  qed
  with step show ?case by (simp only:)
qed

lemma joined_left:
  assumes "c \<in> set lcols" and "free rcols c"
  shows "joined lcols rcols l r c = l c"
proof -
  let ?rn = "\<lambda>c. if c \<in> set lcols then c @ u ''_y'' else c"
  let ?ln = "\<lambda>c. if c \<in> set rcols then c @ u ''_x'' else c"
  from assms(2) have f: "\<forall>n \<in> set rcols. c \<noteq> n \<and> c \<noteq> n @ u ''_x'' \<and> c \<noteq> n @ u ''_y''"
    by (simp add: free_def list_all_iff)
  then have "c \<notin> ?rn ` set rcols" by auto
  then have "joined lcols rcols l r c = fold (\<lambda>c f. f(?ln c := l c)) lcols (\<lambda>c. NaN) c"
    unfolding joined_def by (rule fold_update_other)
  also have "\<dots> = l c"
    using assms(1) f by (intro fold_update_own) auto
  finally show ?thesis .
qed

lemma proj_merge:
  assumes "set cs \<subseteq> set (columns left)"
    and "\<forall>c \<in> set cs. free (right_only left_on right_on right) c"
  shows "expansion (proj cs left) (proj cs (merge left_on right_on right left))"
    and "set cs \<subseteq> set (columns (merge left_on right_on right left))"
proof -
  let ?rc = "right_only left_on right_on right"
  let ?g = "\<lambda>l. case matching left_on right_on right l of
                   [] \<Rightarrow> [joined (columns left) ?rc l (\<lambda>c. NaN)]
                 | ms \<Rightarrow> map (joined (columns left) ?rc l) ms"
  have same: "joined (columns left) ?rc l r c = l c" if "c \<in> set cs" for l r c
    using assms that by (intro joined_left) auto
  have "expansion (map (\<lambda>r. map r cs) (rows left))
          (map (\<lambda>r. map r cs) (concat (map ?g (rows left))))"
    by (rule expansion_concat) (auto simp: same split: list.splits)
  then show "expansion (proj cs left) (proj cs (merge left_on right_on right left))"
    by (simp add: proj_def merge_def Let_def)
  show "set cs \<subseteq> set (columns (merge left_on right_on right left))"
  proof
    fix c assume c: "c \<in> set cs"
    with assms have "c \<in> set (columns left)" "c \<notin> set ?rc"
      by (auto dest: free_not_in)
    then have "c \<in> (\<lambda>c. if c \<in> set ?rc then c @ u ''_x'' else c) ` set (columns left)"
      by (intro image_eqI [where x = c]) auto
    then show "c \<in> set (columns (merge left_on right_on right left))"
      by (simp add: merge_def Let_def)
  qed
qed

lemma right_only_aux_table:
  "set (right_only ks ks (aux_table E df ks vals keys)) \<subseteq> set vals"
proof -
  have "shared_keys ks ks = ks"
    unfolding shared_keys_def by (induction ks) auto
  then show ?thesis
    by (auto simp: right_only_def aux_table_def)
qed

lemma right_only_select:
  "set (right_only ks ks (select (ks @ vals) df)) \<subseteq> set vals"
proof -
  have "shared_keys ks ks = ks"
    unfolding shared_keys_def by (induction ks) auto
  then show ?thesis
    by (auto simp: right_only_def select_def)
qed

subsection \<open>The engines and the columns they leave alone\<close>

lemma carried_refl: "set cs \<subseteq> set (columns df) \<Longrightarrow> carried cs df df"
  by (simp add: carried_def expansion_refl)

lemma carried_trans: "carried cs a b \<Longrightarrow> carried cs b c \<Longrightarrow> carried cs a c"
  by (auto simp: carried_def intro: expansion_trans)

lemma carried_preserved: "carried cs a b \<Longrightarrow> preserved cs a b"
  by (simp add: carried_def preserved_def expansion_set expansion_mset)

lemma preserved_trans: "preserved cs a b \<Longrightarrow> preserved cs b c \<Longrightarrow> preserved cs a c"
  by (auto simp: preserved_def intro: subset_mset.order_trans)

lemma preserved_sort_values: "preserved cs a b \<Longrightarrow> preserved cs a (sort_values key b)"
proof -
  assume k: "preserved cs a b"
  have "set (proj cs (sort_values key b)) = set (proj cs b)"
    using proj_sort_values [of cs key b] by (metis set_mset_mset)
  with k show ?thesis
    by (simp add: preserved_def proj_sort_values) (simp add: sort_values_def)
qed

lemma carried_kept_trans: "preserved cs a b \<Longrightarrow> carried cs b c \<Longrightarrow> preserved cs a c"
  by (blast intro: preserved_trans carried_preserved)

lemma carried_assign:
  "carried cs a b \<Longrightarrow> c \<notin> set cs \<Longrightarrow> carried cs a (assign c s b)"
  by (auto simp: carried_def proj_assign)

lemma carried_derive:
  "carried cs a b \<Longrightarrow> \<forall>c \<in> set cs. free ws c \<Longrightarrow> set ws' \<subseteq> set ws
     \<Longrightarrow> carried cs a (derive E ws' b)"
proof -
  assume c: "carried cs a b" and f: "\<forall>c \<in> set cs. free ws c" and s: "set ws' \<subseteq> set ws"
  from f s have "set ws' \<inter> set cs = {}"
    by (auto dest: free_not_in)
  with c show ?thesis
    by (auto simp: carried_def proj_derive)
qed

lemma carried_when_derive:
  "carried cs a b \<Longrightarrow> \<forall>c \<in> set cs. free ws c \<Longrightarrow> set ws' \<subseteq> set ws
     \<Longrightarrow> carried cs a (when_columns ks (derive E ws') b)"
  by (simp add: when_columns_def carried_derive)

lemma carried_drop_columns:
  "carried cs a b \<Longrightarrow> \<forall>c \<in> set cs. free ws c \<Longrightarrow> set ws' \<subseteq> set ws
     \<Longrightarrow> carried cs a (drop_columns ws' b)"
proof -
  assume c: "carried cs a b" and f: "\<forall>c \<in> set cs. free ws c" and s: "set ws' \<subseteq> set ws"
  from f s have d: "set ws' \<inter> set cs = {}"
    by (auto dest: free_not_in)
  then have "set cs \<subseteq> set (columns b) \<Longrightarrow> set cs \<subseteq> set (columns (drop_columns ws' b))"
    by (auto simp: drop_columns_def)
  with c d show ?thesis
    by (auto simp: carried_def proj_drop_columns)
qed

lemma carried_select:
  "carried cs a b \<Longrightarrow> set cs \<subseteq> set ws \<Longrightarrow> carried cs a (select ws b)"
  by (auto simp: carried_def proj_select) (auto simp: select_def)

lemma carried_merge:
  "carried cs a b \<Longrightarrow> \<forall>c \<in> set cs. free ws c
     \<Longrightarrow> set (right_only left_on right_on right) \<subseteq> set ws
     \<Longrightarrow> carried cs a (merge left_on right_on right b)"
proof -
  assume c: "carried cs a b" and f: "\<forall>c \<in> set cs. free ws c"
    and s: "set (right_only left_on right_on right) \<subseteq> set ws"
  from f s have f': "\<forall>c \<in> set cs. free (right_only left_on right_on right) c"
    by (blast intro: free_subset)
  from c have "set cs \<subseteq> set (columns b)"
    by (simp add: carried_def)
  from proj_merge [OF this f'] have "carried cs b (merge left_on right_on right b)"
    by (simp add: carried_def)
  with c show ?thesis
    by (rule carried_trans)
qed

lemma right_only_same_keys:
  "set (right_only ks ks right) = set (columns right) - set ks"
proof -
  have "shared_keys ks ks = ks"
    unfolding shared_keys_def by (induction ks) auto
  then show ?thesis
    by (auto simp: right_only_def)
qed

lemma carried_add_astro:
  assumes "carried cs a b" and "\<forall>c \<in> set cs. free ASTRO_CAT_BINS c"
  shows "carried cs a (add_astro E b)"
  unfolding add_astro_def Let_def
  by (auto intro!: carried_merge [OF assms] simp: assms(1) right_only_same_keys aux_table_def)

lemma carried_calendar:
  assumes "carried cs a b" and "\<forall>c \<in> set cs. free CALENDAR_COMPACT_CAT c"
    and "add_calendar_compact_features_df E b = Inr out"
  shows "carried cs a out"
proof -
  from assms(3) have out: "out =
      derive E [u ''cal_holiday_type4'', u ''cal_holiday_window5'', u ''cal_long_weekend'',
                u ''cal_day_type3'', u ''cal_is_blue_monday'', u ''cal_school_break_ext'',
                u ''cal_payday_proximity'']
        (derive E [u ''cal_weekday_4'', u ''cal_week_of_month'', u ''cal_month_phase3'',
                   u ''cal_quarter'', u ''cal_season''] b)"
    by (simp add: add_calendar_compact_features_df_def Let_def split: if_splits)
  show ?thesis
    unfolding out
    by (intro carried_derive [where ws = CALENDAR_COMPACT_CAT] assms)
      (simp_all add: CALENDAR_COMPACT_CAT_def)
qed

lemma carried_seasonal_anomaly:
  assumes "carried cs a b" and "\<forall>c \<in> set cs. free weather_columns c"
  shows "carried cs a (seasonal_anomaly E b)"
  unfolding seasonal_anomaly_def Let_def
  by (intro carried_drop_columns [where ws = weather_columns]
      carried_derive [where ws = weather_columns] carried_merge [where ws = weather_columns]
      assms)
    (simp_all add: weather_columns_def right_only_same_keys aux_table_def)

lemma carried_when_seasonal_anomaly:
  assumes "carried cs a b" and "\<forall>c \<in> set cs. free weather_columns c"
  shows "carried cs a (when_columns ks (seasonal_anomaly E) b)"
  using assms by (simp add: when_columns_def carried_seasonal_anomaly)

lemma carried_last5_and_national:
  assumes "carried cs a b" and "\<forall>c \<in> set cs. free weather_columns c"
  shows "carried cs a (last5_and_national E b)"
  unfolding last5_and_national_def Let_def
  by (intro carried_merge [where ws = weather_columns] assms)
    (auto simp: weather_columns_def right_only_same_keys aux_table_def select_def)

lemma carried_weather_cats:
  assumes "carried cs a b" and "\<forall>c \<in> set cs. free weather_columns c"
  shows "carried cs a
    (last5_and_national E
      (derive E [u ''wth_complex_weather_cat'', u ''__is_bad_weather'', u ''__is_extreme_temp'']
        (when_columns [u ''wspd_kmh''] (derive E [u ''wth_wind_speed_change_cat''])
          (when_columns [u ''pres''] (derive E [u ''wth_pressure_change_cat''])
            (when_columns [u ''wspd_kmh''] (derive E [u ''wth_wind_speed_cat''])
              (when_columns [u ''precipitation_mm'']
                 (derive E [u ''wth_precipitation_cat'', u ''wth_precipitation_change_cat''])
                (when_columns [u ''tavg''] (derive E [u ''wth_temp_change_cat''])
                  (when_columns [u ''tavg'', u ''region_std'', u ''day_local'']
                     (seasonal_anomaly E)
                    (when_columns [u ''tavg'', u ''wspd_kmh'']
                       (derive E [u ''temp_feels_like'', u ''wth_temp_feels_like_cat''])
                      (when_columns [u ''daylight_hours'']
                         (derive E [u ''wth_daylight_duration_cat''])
                        (when_columns [u ''daylight_hours'', u ''tsun'']
                           (derive E [u ''wth_sunshine_ratio_cat'']) b)))))))))))"
  by (intro carried_last5_and_national carried_derive [where ws = weather_columns]
      carried_when_derive [where ws = weather_columns] carried_when_seasonal_anomaly assms)
    (simp_all add: weather_columns_def)

lemma preserved_add_weather_compact_cats_df:
  assumes "preserved cs a b" and "\<forall>c \<in> set cs. free weather_columns c"
  shows "preserved cs a (add_weather_compact_cats_df E b)"
proof -
  let ?out0 = "sort_values region_date_key b"
  have k: "preserved cs a ?out0"
    using assms(1) by (rule preserved_sort_values)
  then have "carried cs ?out0 ?out0"
    by (intro carried_refl) (simp add: preserved_def)
  from carried_weather_cats [OF this assms(2)] k show ?thesis
    unfolding add_weather_compact_cats_df_def Let_def
    by (blast intro: carried_kept_trans)
qed

lemma preserved_add_weather:
  assumes "preserved cs a b" and "\<forall>c \<in> set cs. free weather_columns c"
    and "add_weather E b = Inr out"
  shows "preserved cs a out"
proof (cases "meteostat E b")
  case None
  from assms(1) have "carried cs b b"
    by (intro carried_refl) (simp add: preserved_def)
  then have "carried cs b (derive E [u ''daylight_hours'', u ''wth_daylight_duration_cat''] b)"
    by (rule carried_derive [OF _ assms(2)]) (simp add: weather_columns_def)
  with assms(1,3) None \<open>carried cs b b\<close> show ?thesis
    by (auto simp: add_weather_def intro: carried_kept_trans split: if_splits)
next
  case (Some all_weather)
  let ?wf = "select (filter (\<lambda>c. c \<in> set keep_wx) (columns all_weather))
               (assign (u ''day_local'')
                  (\<lambda>i. to_datetime_cell E ((rows all_weather ! i) (u ''day_local'')))
                  all_weather)"
  let ?ks = "[u ''region_std'', u ''day_local'']"
  from assms(3) Some have out: "out = add_weather_compact_cats_df E (merge ?ks ?ks ?wf b)"
    by (simp add: add_weather_def Let_def split: if_splits)
  have "set (right_only ?ks ?ks ?wf) \<subseteq> set weather_columns"
    by (auto simp: right_only_same_keys select_def keep_wx_def weather_columns_def)
  moreover from assms(1) have "carried cs b b"
    by (intro carried_refl) (simp add: preserved_def)
  ultimately have "carried cs b (merge ?ks ?ks ?wf b)"
    using assms(2) by (intro carried_merge)
  with assms(1) have "preserved cs a (merge ?ks ?ks ?wf b)"
    by (rule carried_kept_trans)
  then show ?thesis
    unfolding out by (rule preserved_add_weather_compact_cats_df [OF _ assms(2)])
qed


lemma carried_build_news_compact_features:
  assumes "carried cs a b" and "\<forall>c \<in> set cs. free news_daily_columns c"
  shows "carried cs a (build_news_compact_features E b)"
  unfolding build_news_compact_features_def Let_def
  by (intro carried_merge [OF assms]) (auto simp: right_only_same_keys aux_table_def)

lemma right_only_mag_table:
  "right_only [u ''msk_day''] [u ''date''] (mag_table daily) = [u ''date'', u ''Kp_daily'']"
  by (simp add: right_only_def shared_keys_def mag_table_def)

lemma carried_magnetic_unloaded:
  assumes "carried cs a b" and "\<forall>c \<in> set cs. free magnetic_columns c"
    and "load_magnetic_indices (kp_index E) (ap_index E) = None"
  shows "carried cs a (add_magnetic_storm_features_df E b)"
  unfolding add_magnetic_storm_features_df_def assms(3)
  by (simp, intro carried_derive [OF assms(1,2)]) (simp add: magnetic_columns_def)

lemma preserved_add_magnetic_storm_features_df:
  assumes "preserved cs a b" and "\<forall>c \<in> set cs. free magnetic_columns c"
  shows "preserved cs a (add_magnetic_storm_features_df E b)"
proof (cases "load_magnetic_indices (kp_index E) (ap_index E)")
  case None
  from assms(1) have "carried cs b b"
    by (intro carried_refl) (simp add: preserved_def)
  from carried_magnetic_unloaded [OF this assms(2) None] assms(1) show ?thesis
    by (blast intro: carried_kept_trans)
next
  case (Some daily)
  let ?leveled = "derive E [u ''Kp_daily'', u ''mag_storm_level_cat'']
                    (merge [u ''msk_day''] [u ''date''] (mag_table daily) b)"
  let ?by_day = "sort_values (\<lambda>r. na_last_cell (r (u ''msk_day''))) ?leveled"
  from assms(1) have "carried cs b b"
    by (intro carried_refl) (simp add: preserved_def)
  then have "carried cs b ?leveled"
    by (intro carried_derive [where ws = magnetic_columns]
        carried_merge [where ws = magnetic_columns] assms(2))
      (simp_all add: magnetic_columns_def right_only_mag_table)
  with assms(1) have "preserved cs a ?by_day"
    by (intro preserved_sort_values) (rule carried_kept_trans)
  moreover have "carried cs ?by_day
      (drop_columns [u ''Kp_daily'', u ''Kp_prev'', u ''Kp_change'', u ''date'']
         (derive E [u ''Kp_prev'', u ''Kp_change'', u ''mag_storm_change_cat''] ?by_day))"
    using calculation
    by (intro carried_drop_columns [where ws = magnetic_columns]
        carried_derive [where ws = magnetic_columns] carried_refl assms(2))
      (simp_all add: magnetic_columns_def preserved_def)
  ultimately show ?thesis
    unfolding add_magnetic_storm_features_df_def Some
    by (simp add: Let_def) (rule carried_kept_trans)
qed


lemma carried_add_ww_weight:
  assumes "carried cs a b" and "\<forall>c \<in> set cs. free [u ''ww_weight''] c"
  shows "carried cs a (add_ww_weight E b)"
proof -
  from assms(2) have "u ''ww_weight'' \<notin> set cs"
    by (auto simp: free_def)
  with assms show ?thesis
    unfolding add_ww_weight_def
    by (auto intro!: carried_assign carried_derive [where ws = "[u ''ww_weight'']"])
qed

lemma carried_add_astro_tension_index:
  assumes "carried cs a b" and "\<forall>c \<in> set cs. free [u ''astro_tension_last5_cat''] c"
  shows "carried cs a (add_astro_tension_index E b)"
  unfolding add_astro_tension_index_def Let_def
  using assms(1)
  by (auto intro!: carried_merge [OF assms] simp: right_only_same_keys select_def)

subsection \<open>The orchestrator\<close>

lemma rows_assign_nth:
  "i < length (rows df) \<Longrightarrow> rows (assign c s df) ! i = (rows df ! i)(c := s i)"
  by (simp add: assign_def)

lemma rows_localize_df: "rows (localize_df E df) = map (localize_row E) (rows df)"
proof (rule nth_equalityI)
  show "length (rows (localize_df E df)) = length (map (localize_row E) (rows df))"
    by (simp add: localize_df_def Let_def)
next
  fix i
  assume "i < length (rows (localize_df E df))"
  then have "i < length (rows df)"
    by (simp add: localize_df_def Let_def)
  then show "rows (localize_df E df) ! i = map (localize_row E) (rows df) ! i"
    by (simp add: localize_df_def Let_def rows_assign_nth localize_row_def)
qed

lemma columns_localize_df:
  "set (columns (localize_df E df)) =
     set (columns df) \<union> {u ''region_std'', u ''tz'', u ''business_dt'', u ''msk_day'',
                          u ''day_local''}"
  by (auto simp: localize_df_def Let_def)

lemma localize_row_msk_day:
  "localize_row E r (u ''msk_day'') = msk_day_of (to_datetime_cell E (r (u ''business_dt'')))"
  by (simp add: localize_row_def Let_def)

lemma localize_row_original:
  assumes "c \<notin> {u ''region_std'', u ''tz'', u ''msk_day'', u ''day_local''}"
  shows "localize_row E r c =
     (if c = u ''business_dt'' then to_datetime_cell E (r c) else r c)"
  using assms by (simp add: localize_row_def Let_def)

lemma set_drop_duplicates [simp]: "set (drop_duplicates xs) = set xs"
  by (induction xs rule: drop_duplicates.induct) auto

lemma drop_duplicates_append:
  "distinct xs \<Longrightarrow>
     drop_duplicates (xs @ ys) = xs @ drop_duplicates (filter (\<lambda>y. y \<notin> set xs) ys)"
proof (induction xs arbitrary: ys)
  case Nil
  show ?case by simp
next
  case (Cons x xs)
  then have "filter (\<lambda>y. y \<noteq> x) xs = xs"
    by (auto simp: filter_id_conv)
  with Cons show ?case
    by (simp add: conj_commute)
qed

text \<open>What a run that returns consists of.\<close>

lemma enrich_data_full_steps:
  assumes "enrich_data_full E df = Inr (out, cats)"
  obtains with_calendar with_weather enriched where
    "u ''region'' \<in> set (columns df)" and "u ''business_dt'' \<in> set (columns df)"
    and "add_calendar_compact_features_df E (add_astro E (localize_df E df)) = Inr with_calendar"
    and "add_weather E with_calendar = Inr with_weather"
    and "enriched = add_astro_tension_index E (add_ww_weight E
           (add_magnetic_storm_features_df E (build_news_compact_features E with_weather)))"
    and "out = select (filter (\<lambda>c. c \<in> set (columns enriched))
                  (drop_duplicates (columns df
                     @ [u ''day_local'', u ''msk_day'', u ''ww_weight'']
                     @ build_feature_lists_all enriched))) enriched"
  using assms
  by (auto simp: enrich_data_full_def Let_def split: if_splits sum.splits)

lemma free_later_columns:
  assumes "\<forall>c \<in> set cs. free later_columns c"
  shows "\<forall>c \<in> set cs. free ASTRO_CAT_BINS c" and "\<forall>c \<in> set cs. free CALENDAR_COMPACT_CAT c"
    and "\<forall>c \<in> set cs. free weather_columns c" and "\<forall>c \<in> set cs. free news_daily_columns c"
    and "\<forall>c \<in> set cs. free magnetic_columns c" and "\<forall>c \<in> set cs. free [u ''ww_weight''] c"
    and "\<forall>c \<in> set cs. free [u ''astro_tension_last5_cat''] c"
  using assms by (simp_all add: later_columns_def free_def)

lemma carried_final_select:
  assumes "carried cs a enriched"
    and "set cs \<subseteq> set (columns df) \<union> {u ''day_local'', u ''msk_day''}"
  shows "carried cs a
    (select (filter (\<lambda>c. c \<in> set (columns enriched))
       (drop_duplicates (columns df @ [u ''day_local'', u ''msk_day'', u ''ww_weight'']
          @ build_feature_lists_all enriched))) enriched)"
proof (rule carried_select [OF assms(1)])
  from assms(1) have "set cs \<subseteq> set (columns enriched)"
    by (simp add: carried_def)
  with assms(2) show "set cs \<subseteq> set (filter (\<lambda>c. c \<in> set (columns enriched))
       (drop_duplicates (columns df @ [u ''day_local'', u ''msk_day'', u ''ww_weight'']
          @ build_feature_lists_all enriched)))"
    by auto
qed

lemma preserved_until_magnetic:
  assumes cal: "add_calendar_compact_features_df E (add_astro E (localize_df E df))
      = Inr with_calendar"
    and wx: "add_weather E with_calendar = Inr with_weather"
    and fr: "\<forall>c \<in> set cs. free later_columns c"
    and sub: "set cs \<subseteq> set (columns df) \<union> {u ''day_local'', u ''msk_day''}"
  shows "preserved cs (localize_df E df)
     (add_magnetic_storm_features_df E (build_news_compact_features E with_weather))"
proof -
  note f = free_later_columns [OF fr]
  let ?loc = "localize_df E df"
  have "set cs \<subseteq> set (columns ?loc)"
    using sub by (auto simp: columns_localize_df)
  then have "carried cs ?loc ?loc"
    by (rule carried_refl)
  then have "carried cs ?loc with_calendar"
    by (intro carried_calendar [OF _ f(2) cal] carried_add_astro f(1))
  then have k: "preserved cs ?loc with_weather"
    by (intro preserved_add_weather [OF _ f(3) wx] carried_preserved)
  then have "carried cs with_weather with_weather"
    by (intro carried_refl) (simp add: preserved_def)
  then have "carried cs with_weather (build_news_compact_features E with_weather)"
    by (rule carried_build_news_compact_features [OF _ f(4)])
  with k have "preserved cs ?loc (build_news_compact_features E with_weather)"
    by (rule carried_kept_trans)
  then show ?thesis
    by (rule preserved_add_magnetic_storm_features_df [OF _ f(5)])
qed

lemma carried_after_magnetic:
  assumes "set cs \<subseteq> set (columns m)"
    and fr: "\<forall>c \<in> set cs. free later_columns c"
    and sub: "set cs \<subseteq> set (columns df) \<union> {u ''day_local'', u ''msk_day''}"
  shows "carried cs m
    (select (filter (\<lambda>c. c \<in> set (columns (add_astro_tension_index E (add_ww_weight E m))))
       (drop_duplicates (columns df @ [u ''day_local'', u ''msk_day'', u ''ww_weight'']
          @ build_feature_lists_all (add_astro_tension_index E (add_ww_weight E m)))))
       (add_astro_tension_index E (add_ww_weight E m)))"
  using assms(1)
  by (intro carried_final_select carried_add_astro_tension_index carried_add_ww_weight
      carried_refl free_later_columns [OF fr] sub)

lemma enrich_data_full_preserved:
  assumes run: "enrich_data_full E df = Inr (out, cats)"
    and fr: "\<forall>c \<in> set cs. free later_columns c"
    and sub: "set cs \<subseteq> set (columns df) \<union> {u ''day_local'', u ''msk_day''}"
  shows "preserved cs (localize_df E df) out"
proof -
  from run obtain with_calendar with_weather enriched where
    cal: "add_calendar_compact_features_df E (add_astro E (localize_df E df)) = Inr with_calendar"
    and wx: "add_weather E with_calendar = Inr with_weather"
    and en: "enriched = add_astro_tension_index E (add_ww_weight E
           (add_magnetic_storm_features_df E (build_news_compact_features E with_weather)))"
    and out: "out = select (filter (\<lambda>c. c \<in> set (columns enriched))
                  (drop_duplicates (columns df
                     @ [u ''day_local'', u ''msk_day'', u ''ww_weight'']
                     @ build_feature_lists_all enriched))) enriched"
    by (rule enrich_data_full_steps)
  let ?m = "add_magnetic_storm_features_df E (build_news_compact_features E with_weather)"
  have k: "preserved cs (localize_df E df) ?m"
    by (rule preserved_until_magnetic [OF cal wx fr sub])
  then have "set cs \<subseteq> set (columns ?m)"
    by (simp add: preserved_def)
  from carried_after_magnetic [OF this fr sub] have "carried cs ?m out"
    unfolding out en .
  with k show ?thesis
    by (rule carried_kept_trans)
qed


lemma later_columns_free:
  "free later_columns (u ''msk_day'')" "free later_columns (u ''business_dt'')"
  "free later_columns (u ''region'')" "free later_columns (u ''day_local'')"
  by (simp_all add: later_columns_def ASTRO_CAT_BINS_def CALENDAR_COMPACT_CAT_def
      weather_columns_def news_daily_columns_def magnetic_columns_def free_def)


subsection \<open>The table that the orchestrator returns\<close>

lemma cal_dates_some: "Some x \<in> set d \<Longrightarrow> cal_dates d \<noteq> []"
proof -
  assume "Some x \<in> set d"
  then have x: "x \<in> set (observed d)"
    by (simp add: observed_set)
  then have "Min (set (observed d)) \<le> x" "x \<le> Max (set (observed d))"
    by simp_all
  then have "Min (set (observed d)) \<le> Max (set (observed d))"
    by (rule order_trans)
  with x show ?thesis
    by (auto simp: cal_dates_range)
qed

lemma proj_localize_msk_day:
  "proj [u ''msk_day''] (localize_df E df)
     = map (\<lambda>r. [msk_day_of (to_datetime_cell E (r (u ''business_dt'')))]) (rows df)"
  by (simp add: proj_def rows_localize_df localize_row_msk_day comp_def)

text \<open>A run returns when the table has the two columns that are read, one date at
  least can be read, and there is no weather.\<close>

lemma enrich_data_full_returns:
  assumes "u ''region'' \<in> set (columns df)" and "u ''business_dt'' \<in> set (columns df)"
    and "\<exists>r \<in> set (rows df). pd_to_datetime E (r (u ''business_dt'')) \<noteq> None"
    and "\<forall>b. meteostat E b = None"
  shows "\<exists>out cats. enrich_data_full E df = Inr (out, cats)"
proof -
  let ?loc = "localize_df E df"
  let ?b = "add_astro E ?loc"
  have "carried [u ''msk_day''] ?loc ?loc"
    by (intro carried_refl) (simp add: columns_localize_df)
  then have c: "carried [u ''msk_day''] ?loc ?b"
    by (rule carried_add_astro) (use later_columns_free(1) in \<open>simp add: later_columns_def\<close>)
  then have col: "u ''msk_day'' \<in> set (columns ?b)"
    by (simp add: carried_def)
  from assms(3) obtain r t where r: "r \<in> set (rows df)"
    and t: "pd_to_datetime E (r (u ''business_dt'')) = Some t"
    by auto
  then have "[Stamp (86400 * normalize t)] \<in> set (proj [u ''msk_day''] ?loc)"
    by (force simp: proj_localize_msk_day msk_day_of_def to_datetime_cell_def)
  moreover from c have "set (proj [u ''msk_day''] ?b) = set (proj [u ''msk_day''] ?loc)"
    by (simp add: carried_def expansion_set)
  ultimately have "[Stamp (86400 * normalize t)] \<in> set (proj [u ''msk_day''] ?b)"
    by simp
  then obtain r' where "r' \<in> set (rows ?b)" "r' (u ''msk_day'') = Stamp (86400 * normalize t)"
    by (auto simp: proj_def)
  then have "Some (normalize (86400 * normalize t))
      \<in> set (map (\<lambda>r. cell_day (r (u ''msk_day''))) (rows ?b))"
    by (force simp: cell_day_def)
  then have "cal_dates (map (\<lambda>r. cell_day (r (u ''msk_day''))) (rows ?b)) \<noteq> []"
    by (rule cal_dates_some)
  with col obtain with_calendar where
    "add_calendar_compact_features_df E ?b = Inr with_calendar"
    by (simp add: add_calendar_compact_features_df_def Let_def)
  moreover obtain with_weather where "add_weather E with_calendar = Inr with_weather"
    using assms(4) by (simp add: add_weather_def)
  ultimately show ?thesis
    using assms(1,2) by (simp add: enrich_data_full_def Let_def)
qed

text \<open>The rows of the result in the original columns, and its first columns.\<close>

lemma original_rows:
  assumes run: "enrich_data_full E df = Inr (out, cats)"
    and fr: "\<forall>c \<in> set cs. c \<noteq> u ''business_dt'' \<longrightarrow> free written_columns c"
    and sub: "set cs \<subseteq> set (columns df)"
  shows "preserved cs (localize_df E df) out"
    and "proj cs (localize_df E df) =
      map (\<lambda>r. map (\<lambda>c. if c = u ''business_dt'' then to_datetime_cell E (r c) else r c) cs)
        (rows df)"
proof -
  have later: "\<forall>c \<in> set cs. free later_columns c"
  proof
    fix c assume "c \<in> set cs"
    with fr have "c = u ''business_dt'' \<or> free later_columns c"
      unfolding written_columns_def free_append by blast
    with later_columns_free(2) show "free later_columns c"
      by auto
  qed
  have early: "\<forall>c \<in> set cs. c \<notin> {u ''region_std'', u ''tz'', u ''msk_day'', u ''day_local''}"
  proof
    fix c assume "c \<in> set cs"
    with fr have "c = u ''business_dt'' \<or> free [u ''region_std'', u ''tz'', u ''msk_day'',
        u ''day_local''] c"
      unfolding written_columns_def free_append by blast
    then show "c \<notin> {u ''region_std'', u ''tz'', u ''msk_day'', u ''day_local''}"
      by (auto simp: free_def)
  qed
  show "preserved cs (localize_df E df) out"
    using run later sub by (intro enrich_data_full_preserved) auto
  show "proj cs (localize_df E df) =
      map (\<lambda>r. map (\<lambda>c. if c = u ''business_dt'' then to_datetime_cell E (r c) else r c) cs)
        (rows df)"
    unfolding proj_def rows_localize_df map_map comp_def
    using early by (intro map_cong refl localize_row_original) blast
qed

lemma original_columns_first:
  assumes run: "enrich_data_full E df = Inr (out, cats)"
    and d: "distinct (columns df)"
    and here: "set (columns df) \<subseteq> set (columns out)"
  shows "take (length (columns df)) (columns out) = columns df"
proof -
  from run obtain enriched where
    out: "out = select (filter (\<lambda>c. c \<in> set (columns enriched))
                  (drop_duplicates (columns df
                     @ [u ''day_local'', u ''msk_day'', u ''ww_weight'']
                     @ build_feature_lists_all enriched))) enriched"
    by (rule enrich_data_full_steps)
  let ?rest = "[u ''day_local'', u ''msk_day'', u ''ww_weight''] @ build_feature_lists_all enriched"
  from here have "\<forall>c \<in> set (columns df). c \<in> set (columns enriched)"
    unfolding out by (auto simp: select_def)
  then have "filter (\<lambda>c. c \<in> set (columns enriched)) (columns df) = columns df"
    by (simp add: filter_id_conv)
  then have "columns out = columns df @ filter (\<lambda>c. c \<in> set (columns enriched))
      (drop_duplicates (filter (\<lambda>y. y \<notin> set (columns df)) ?rest))"
    unfolding out using drop_duplicates_append [OF d, of ?rest]
    by (simp add: select_def)
  then show ?thesis by simp
qed

text \<open>
  C9. The claim: every original column is in the table that \<open>enrich_data_full\<close>
  returns, with the values of every record unchanged. The date column is written by the
  run: it holds the values that \<open>pd.to_datetime(errors='coerce')\<close> makes of the
  original ones. For a table whose column names are distinct and none of which, the date
  column apart, is a name that the run writes (also with the suffix of a merge), a
  run that returns gives a table whose first columns are the original ones, in their
  order, and whose rows, cut down to these columns, are the rows of the input with the
  date converted: every row of the result is such a row, and every such row is in the
  result, at least as often as in the input.
\<close>

theorem original_columns_preserved:
  assumes "enrich_data_full E df = Inr (out, cats)"
    and "distinct (columns df)"
    and "\<forall>c \<in> set (columns df). c \<noteq> u ''business_dt'' \<longrightarrow> free written_columns c"
  shows "take (length (columns df)) (columns out) = columns df
    \<and> set (proj (columns df) out)
        = set (map (\<lambda>r. map (\<lambda>c. if c = u ''business_dt'' then to_datetime_cell E (r c)
                                   else r c) (columns df)) (rows df))
    \<and> mset (map (\<lambda>r. map (\<lambda>c. if c = u ''business_dt'' then to_datetime_cell E (r c)
                                else r c) (columns df)) (rows df))
        \<subseteq># mset (proj (columns df) out)"
proof -
  note rows = original_rows [OF assms(1,3) subset_refl]
  from rows(1) have "set (columns df) \<subseteq> set (columns out)"
    by (simp add: preserved_def)
  from original_columns_first [OF assms(1,2) this] rows show ?thesis
    by (simp add: preserved_def)
qed

lemma sample_table_free:
  "free written_columns (u ''region'')" "free written_columns (u ''score'')"
  by (simp_all add: written_columns_def later_columns_def ASTRO_CAT_BINS_def
      CALENDAR_COMPACT_CAT_def weather_columns_def news_daily_columns_def
      magnetic_columns_def free_def)

lemma sample_runs_return:
  "\<exists>out cats. enrich_data_full sample_externals sample_table = Inr (out, cats)"
  "\<exists>out cats. enrich_data_full sample_externals_with_indices sample_table = Inr (out, cats)"
  "\<exists>out cats. enrich_data_full sample_externals sample_table_text_date = Inr (out, cats)"
  by (rule enrich_data_full_returns;
      simp add: sample_table_def sample_table_text_date_def sample_externals_def
        sample_externals_with_indices_def survey_row_def)+

theorem original_columns_preserved_witness:
  "(case enrich_data_full sample_externals sample_table of
      Inr (out, cats) \<Rightarrow>
        take 3 (columns out) = [u ''region'', u ''business_dt'', u ''score'']
        \<and> set (proj [u ''region'', u ''business_dt'', u ''score''] out)
            = {[Text Moskovskoj_oblasti, Stamp (timestamp_of 2024 3 21 10 0 0), Num 9],
               [Text Primorskom_krae, Stamp (timestamp_of 2024 3 20 10 0 0), Num 3]}
    | Inl e \<Rightarrow> False)"
proof -
  from sample_runs_return(1) obtain out cats where
    run: "enrich_data_full sample_externals sample_table = Inr (out, cats)"
    by blast
  have d: "distinct (columns sample_table)"
    by (simp add: sample_table_def)
  have f: "\<forall>c \<in> set (columns sample_table). c \<noteq> u ''business_dt'' \<longrightarrow> free written_columns c"
    by (simp add: sample_table_def sample_table_free)
  from original_columns_preserved [OF run d f]
  have "take 3 (columns out) = [u ''region'', u ''business_dt'', u ''score'']
      \<and> set (proj [u ''region'', u ''business_dt'', u ''score''] out)
          = {[Text Moskovskoj_oblasti, Stamp (timestamp_of 2024 3 21 10 0 0), Num 9],
             [Text Primorskom_krae, Stamp (timestamp_of 2024 3 20 10 0 0), Num 3]}"
    by (simp add: sample_table_def survey_row_def to_datetime_cell_def
        sample_externals_def insert_commute numeral_3_eq_3)
  then show ?thesis
    unfolding run by simp
qed

text \<open>The claim as stated fails on the date column: the empty text of the second
  record of the input is a missing date in the result.\<close>

theorem date_column_is_converted:
  "proj [u ''business_dt''] sample_table_text_date
     = [[Stamp (timestamp_of 2024 3 21 10 0 0)], [Text []]]
   \<and> map_sum id (\<lambda>(out, cats). set (proj [u ''business_dt''] out))
       (enrich_data_full sample_externals sample_table_text_date)
     = Inr {[Stamp (timestamp_of 2024 3 21 10 0 0)], [NaN]}"
proof -
  from sample_runs_return(3) obtain out cats where
    run: "enrich_data_full sample_externals sample_table_text_date = Inr (out, cats)"
    by blast
  have "preserved [u ''business_dt''] (localize_df sample_externals sample_table_text_date) out"
    and "proj [u ''business_dt''] (localize_df sample_externals sample_table_text_date) =
      map (\<lambda>r. map (\<lambda>c. if c = u ''business_dt'' then to_datetime_cell sample_externals (r c)
                          else r c) [u ''business_dt'']) (rows sample_table_text_date)"
    by (rule original_rows [OF run]; simp add: sample_table_text_date_def)+
  then have "set (proj [u ''business_dt''] out)
      = {[Stamp (timestamp_of 2024 3 21 10 0 0)], [NaN]}"
    by (simp add: preserved_def sample_table_text_date_def survey_row_def to_datetime_cell_def
        sample_externals_def)
  moreover have "proj [u ''business_dt''] sample_table_text_date
      = [[Stamp (timestamp_of 2024 3 21 10 0 0)], [Text []]]"
    by (simp add: proj_def sample_table_text_date_def survey_row_def)
  ultimately show ?thesis
    unfolding run by simp
qed





end
